theory Spec2Isabelle
  imports Main "HOL-Library.Word" "HOL-Library.Sublist"
begin

section \<open>Strings as the adapter uses them\<close>

text \<open>
  A \<open>std::string\<close> is a list of bytes.  Positions are \<open>size_t\<close>; the value
  \<open>string::npos = (size_t)-1\<close> that \<open>find\<close> returns when nothing is found is
  \<open>None\<close> here.
\<close>

datatype exn = OutOfRange | InvalidArgument | NullDereference | UndefinedBehaviour | EndOfScript

text \<open>
  What ends a call other than a \<open>return\<close>: the exceptions \<open>std::out_of_range\<close> and
  \<open>std::invalid_argument\<close>, a call through a null pointer, undefined behaviour (a read
  past the end of a vector through \<open>operator[]\<close>), and, for the model only, a read of
  the serial port after the last one the model was told the outcome of (\<open>EndOfScript\<close>,
  see \<open>serial_in\<close> below).
\<close>

text \<open>\<open>line.find(sep, pos)\<close>: the first position at or after \<open>pos\<close> holding \<open>sep\<close>.\<close>

function find_char :: "string \<Rightarrow> char \<Rightarrow> nat \<Rightarrow> nat option" where
  "find_char line sep pos =
     (if length line \<le> pos then None
      else if line ! pos = sep then Some pos
      else find_char line sep (Suc pos))"
  by pat_completeness auto
termination
  by (relation "measure (\<lambda>(line, sep, pos). length line - pos)") auto

declare find_char.simps [simp del]

text \<open>
  \<open>line.substr(pos, count)\<close>: at most \<open>count\<close> bytes from \<open>pos\<close> on.  It throws
  only for \<open>pos > line.length()\<close>, and every call below has \<open>pos \<le> line.length()\<close>
  (a position after a separator that was found).
\<close>

definition substr :: "string \<Rightarrow> nat \<Rightarrow> nat \<Rightarrow> string" where
  "substr line pos count = take count (drop pos line)"

lemma find_char_bounds:
  "find_char line sep pos = Some p \<Longrightarrow> pos \<le> p \<and> p < length line \<and> line ! p = sep"
proof (induction line sep pos rule: find_char.induct)
  case (1 line sep pos)
  then show ?case
    by (subst (asm) (2) find_char.simps) (auto split: if_splits)
qed

text \<open>
  The loop of \<open>SplitStringIntoWords\<close>.  \<open>start\<close> is the source's \<open>pos1 + 1\<close> (which
  wraps from \<open>npos\<close> to 0 before the first round), \<open>pos2\<close> the separator found last.
\<close>

function split_loop :: "string \<Rightarrow> char \<Rightarrow> nat \<Rightarrow> nat \<Rightarrow> string list \<Rightarrow> string list" where
  "split_loop line sep start pos2 retwords =
     (let retwords' = retwords @ [substr line start (pos2 - start)] in
      case find_char line sep (Suc pos2) of
        None \<Rightarrow> retwords' @ [substr line (Suc pos2) (length line - 1)]
      | Some p \<Rightarrow> split_loop line sep (Suc pos2) p retwords')"
  by pat_completeness auto
termination
  by (relation "measure (\<lambda>(line, sep, start, pos2, retwords). length line - pos2)")
     (auto dest!: find_char_bounds)

declare split_loop.simps [simp del]

definition SplitStringIntoWords :: "string \<Rightarrow> char \<Rightarrow> string list" where
  "SplitStringIntoWords line sep =
     (case find_char line sep 0 of
        None \<Rightarrow> [line]
      | Some pos2 \<Rightarrow> split_loop line sep 0 pos2 [])"


section \<open>Reserved words, error codes and the platform\<close>

text \<open>
  The adapter's reserved words and separators (namespace \<open>ushwords\<close>) and its error
  codes (namespace \<open>usherrors\<close>) are declared in \<open>ushreserved.h\<close>, which is not among the
  sources.  They are parameters of the model: every operation takes them, and every
  theorem holds for all their values unless it says otherwise.  (\<open>prop_prefix\<close> is the
  source's \<open>ushwords::prop\<close>.)
\<close>

record ushwords =
  sepSetup :: char
  sepWithin :: char
  sepOut :: char
  sepIn :: char
  sepEnd :: char
  device_list_start :: string
  device_list_continue :: string
  device_list_end :: string
  timeout :: string
  cmd :: string
  prop_prefix :: string
  act :: string
  prop_str :: string
  prop_float :: string
  prop_int :: string
  prop_str_act :: string
  prop_float_act :: string
  prop_int_act :: string
  wtrue :: string
  wfalse :: string
  set_open :: string
  get_open :: string
  set_position_um :: string
  get_position_um :: string
  home :: string
  stop :: string
  not_supported :: string
  position_x :: string
  position_y :: string

record usherrors =
  adp_version_mismatch :: int
  adp_lost_communication :: int
  adp_string_not_recognized :: int
  adp_device_not_recognized :: int
  adp_device_command_not_recognized :: int
  adp_device_command_value_not_allowed :: int
  ctr_ok :: int
  ctr_busy :: int
  ctr_device_not_recognized :: int
  ctr_device_command_not_recognized :: int
  ctr_device_command_value_not_allowed :: int
  ctr_device_timeout :: int


text \<open>
  What the adapter uses of \<open>MMDeviceConstants.h\<close> (not among the sources either): result
  codes, keywords, and the number of the enumerator \<open>MM::GenericDevice\<close>.
\<close>

record mmconstants =
  DEVICE_OK :: int
  DEVICE_ERR :: int
  DEVICE_UNSUPPORTED_COMMAND :: int
  g_Keyword_Name :: string
  g_Keyword_Description :: string
  g_Keyword_CoreShutter :: string
  g_Keyword_State :: string
  g_Keyword_CoreXYStage :: string
  g_Keyword_Position :: string
  GenericDevice_enum :: nat

text \<open>
  The structs of \<open>ush.h\<close> (not among the sources), with the members the source reads and
  writes.  \<open>'f\<close> is the type of C \<open>float\<close> values, see \<open>platform\<close> below.
\<close>

datatype PropertyType = Undef | String | Float | Integer

record mmmethoddescription =
  md_method :: string
  md_command :: string

record 'f mmpropertydescription =
  pd_name :: string
  pd_type :: PropertyType
  valueString :: string
  valueInteger :: int
  valueFloat :: 'f
  isReadOnly :: bool
  isAction :: bool
  cmdAction :: string
  isPreini :: bool
  allowedValues :: "string list"
  lowerLimitInteger :: int
  upperLimitInteger :: int
  lowerLimitFloat :: 'f
  upperLimitFloat :: 'f

record 'f mmdevicedescription =
  dd_name :: string
  dd_type :: string
  dd_description :: string
  dd_timeout :: int
  isValid :: bool
  reasonWhyInvalid :: string
  methods :: "mmmethoddescription list"
  properties :: "'f mmpropertydescription list"

text \<open>
  Floating point is not modelled: the C types \<open>double\<close> and \<open>float\<close> are the type
  parameters \<open>'d\<close> and \<open>'f\<close>, and the library functions and operators the adapter
  applies to them are fields of the platform, next to the reserved words.  So is the
  state of a freshly declared \<open>mmpropertydescription\<close>, whose scalar members the
  source never initialises (\<open>pd_fresh\<close>; its strings and vectors are empty).
  \<^item> \<open>atof\<close> never fails; \<open>stof\<close> throws \<open>invalid_argument\<close> or \<open>out_of_range\<close>.
  \<^item> \<open>double_less x y\<close> is \<open>x < y\<close> on doubles, \<open>float_less\<close> on floats.
  \<^item> \<open>float_of_double\<close> is the cast \<open>(float)x\<close>, \<open>times_1000\<close> is \<open>x * 1000\<close>,
    \<open>MMTime_of_double\<close> the constructor \<open>MM::MMTime(double)\<close> (microseconds),
    \<open>to_string_long_double\<close> is \<open>to_string((long double)x)\<close> and
    \<open>to_string_long_long\<close> is \<open>to_string((long long)x)\<close>.
\<close>

record ('d, 'f) platform =
  words :: ushwords
  errors :: usherrors
  mm :: mmconstants
  atof :: "string \<Rightarrow> 'd"
  stof :: "string \<Rightarrow> exn + 'f"
  double_less :: "'d \<Rightarrow> 'd \<Rightarrow> bool"
  float_less :: "'f \<Rightarrow> 'f \<Rightarrow> bool"
  float_of_double :: "'d \<Rightarrow> 'f"
  times_1000 :: "'d \<Rightarrow> 'd"
  MMTime_of_double :: "'d \<Rightarrow> int"
  to_string_long_double :: "'d \<Rightarrow> string"
  to_string_long_long :: "'d \<Rightarrow> string"
  pd_fresh :: "'f mmpropertydescription"


section \<open>C strings and number parsing\<close>

text \<open>\<open>s.c_str()\<close> as the C library reads it: the bytes before the first NUL.\<close>

definition c_str :: "string \<Rightarrow> string" where
  "c_str s = takeWhile (\<lambda>c. c \<noteq> CHR 0x00) s"

text \<open>\<open>strncmp(x.c_str(), k, strlen(k)) == 0\<close> for a reserved word \<open>k\<close>.\<close>

definition strncmp_eq :: "string \<Rightarrow> string \<Rightarrow> bool" where
  "strncmp_eq x k = (take (length k) (c_str x) = k)"

text \<open>\<open>hay.find(needle)\<close> from position \<open>pos\<close>: where \<open>needle\<close> first occurs.\<close>

function find_str_from :: "string \<Rightarrow> string \<Rightarrow> nat \<Rightarrow> nat option" where
  "find_str_from hay needle pos =
     (if length hay < pos + length needle then None
      else if take (length needle) (drop pos hay) = needle then Some pos
      else find_str_from hay needle (Suc pos))"
  by pat_completeness auto
termination
  by (relation "measure (\<lambda>(hay, needle, pos). Suc (length hay) - pos)") auto

declare find_str_from.simps [simp del]

definition find_str :: "string \<Rightarrow> string \<Rightarrow> nat option" where
  "find_str hay needle = find_str_from hay needle 0"

text \<open>\<open>v.at(i)\<close> checks its index and throws \<open>out_of_range\<close>; \<open>v[i]\<close> does not check.\<close>

definition at :: "'a list \<Rightarrow> nat \<Rightarrow> exn + 'a" where
  "at v i = (if i < length v then Inr (v ! i) else Inl OutOfRange)"

definition subscript :: "'a list \<Rightarrow> nat \<Rightarrow> exn + 'a" where
  "subscript v i = (if i < length v then Inr (v ! i) else Inl UndefinedBehaviour)"

definition and_then :: "exn + 'a \<Rightarrow> ('a \<Rightarrow> exn + 'b) \<Rightarrow> exn + 'b" where
  "and_then m f = (case m of Inl e \<Rightarrow> Inl e | Inr x \<Rightarrow> f x)"

lemma and_then_Inr [simp]: "and_then (Inr x) f = f x"
  by (simp add: and_then_def)

lemma and_then_Inl [simp]: "and_then (Inl e) f = Inl e"
  by (simp add: and_then_def)

text \<open>
  \<open>strtol\<close> in base 10, which \<open>atoi\<close> and \<open>std::stoi\<close> are built on: white space, an
  optional sign, then digits.  \<open>None\<close> when there is no digit to convert.
\<close>

definition isspace :: "char \<Rightarrow> bool" where
  "isspace c = (c \<in> {CHR '' '', CHR 0x09, CHR 0x0A, CHR 0x0B, CHR 0x0C, CHR 0x0D})"

definition isdigit :: "char \<Rightarrow> bool" where
  "isdigit c = (48 \<le> (of_char c :: nat) \<and> (of_char c :: nat) \<le> 57)"

definition digits_value :: "string \<Rightarrow> int" where
  "digits_value ds = foldl (\<lambda>a c. 10 * a + ((of_char c :: int) - 48)) 0 ds"

definition strtol10 :: "string \<Rightarrow> int option" where
  "strtol10 s =
     (let s1 = dropWhile isspace (c_str s);
          neg = (case s1 of [] \<Rightarrow> False | c # r \<Rightarrow> c = CHR ''-'');
          s2 = (case s1 of [] \<Rightarrow> [] | c # r \<Rightarrow> if c = CHR ''-'' \<or> c = CHR ''+'' then r else s1);
          ds = takeWhile isdigit s2
      in if ds = [] then None
         else Some (if neg then - digits_value ds else digits_value ds))"

definition INT_MIN :: int where "INT_MIN = - (2 ^ 31)"
definition INT_MAX :: int where "INT_MAX = 2 ^ 31 - 1"

text \<open>
  \<open>atoi\<close>.  The C standard leaves the result undefined for a number outside \<open>int\<close>; the
  program as it runs (C library of a 64-bit Linux, where \<open>long\<close> has 64 bits) computes
  \<open>(int) strtol(nptr, NULL, 10)\<close>.  \<open>strtol\<close> gives 0 when nothing converts and stops at
  \<open>LONG_MIN\<close> and \<open>LONG_MAX\<close>; the conversion to \<open>int\<close> keeps the low 32 bits.  So a
  number within \<open>int\<close> is read as itself, 4294967303 is read as 7, and \<open>atoi\<close> always
  returns.
\<close>

definition LONG_MIN :: int where "LONG_MIN = - (2 ^ 63)"
definition LONG_MAX :: int where "LONG_MAX = 2 ^ 63 - 1"

definition strtol :: "string \<Rightarrow> int" where
  "strtol s = (case strtol10 s of None \<Rightarrow> 0 | Some v \<Rightarrow> max LONG_MIN (min LONG_MAX v))"

definition int_of_long :: "int \<Rightarrow> int" where
  "int_of_long v = (v + 2 ^ 31) mod 2 ^ 32 - 2 ^ 31"

definition atoi :: "string \<Rightarrow> int" where
  "atoi s = int_of_long (strtol s)"

text \<open>\<open>std::stoi\<close>: \<open>invalid_argument\<close> when nothing converts, \<open>out_of_range\<close> beyond \<open>int\<close>.\<close>

definition stoi :: "string \<Rightarrow> exn + int" where
  "stoi s =
     (case strtol10 s of
        None \<Rightarrow> Inl InvalidArgument
      | Some v \<Rightarrow> if INT_MIN \<le> v \<and> v \<le> INT_MAX then Inr v else Inl OutOfRange)"

text \<open>\<open>ss << n\<close> and \<open>to_string\<close> of an integer: decimal digits.\<close>

function string_of_nat :: "nat \<Rightarrow> string" where
  "string_of_nat n =
     (if n < 10 then [''0123456789'' ! n]
      else string_of_nat (n div 10) @ [''0123456789'' ! (n mod 10)])"
  by pat_completeness auto
termination
  by (relation "measure (\<lambda>n. n)") auto

declare string_of_nat.simps [simp del]

definition string_of_int :: "int \<Rightarrow> string" where
  "string_of_int i =
     (if i < 0 then CHR ''-'' # string_of_nat (nat (- i)) else string_of_nat (nat i))"


section \<open>Schema Builder: \<open>UniHub::VectorstrToDeviceDescription\<close>\<close>

text \<open>
  The \<open>for\<close> loop over the setup lines of one device either goes on to the next line
  with the description updated, or leaves the loop (\<open>break\<close>) with it.
\<close>

datatype 'f step = Continue "'f mmdevicedescription" | Break "'f mmdevicedescription"

text \<open>What a property line yields: the property to push, or the description marked invalid.\<close>

datatype 'f parsed = Property "'f mmpropertydescription" | Invalid "'f mmdevicedescription"

text \<open>
  \<open>devdescr.isValid = false; devdescr.reasonWhyInvalid.append(msg);
  devdescr.reasonWhyInvalid.append(s);\<close>
\<close>

definition invalidate :: "'f mmdevicedescription \<Rightarrow> string \<Rightarrow> string \<Rightarrow> 'f mmdevicedescription" where
  "invalidate devdescr msg s =
     devdescr\<lparr>isValid := False, reasonWhyInvalid := reasonWhyInvalid devdescr @ msg @ s\<rparr>"

text \<open>
  The three typed branches of a property line.  The source has each twice, for plain and
  for action properties; the copies differ in the index \<open>li\<close> of the word that holds the
  allowed values or limits (4 or 6) and, for strings, in the message \<open>msg\<close>.
\<close>

definition string_property ::
  "('d, 'f) platform \<Rightarrow> string \<Rightarrow> string list \<Rightarrow> nat \<Rightarrow> string \<Rightarrow>
   'f mmdevicedescription \<Rightarrow> 'f mmpropertydescription \<Rightarrow> exn + 'f parsed" where
  "string_property P s wds li msg devdescr pd =
     and_then (at wds 2) (\<lambda>w2.
     and_then (at wds 3) (\<lambda>w3.
       let pd = pd\<lparr>pd_type := String, valueString := w2\<rparr> in
       if c_str w3 = wtrue (words P) then Inr (Property (pd\<lparr>isReadOnly := True\<rparr>))
       else if c_str w3 = wfalse (words P) then
         and_then (at wds li) (\<lambda>wl.
           let valuelist = SplitStringIntoWords wl (sepWithin (words P)) in
           Inr (Property (pd\<lparr>isReadOnly := False, allowedValues := valuelist\<rparr>)))
       else Inr (Invalid (invalidate devdescr msg s))))"

definition float_property ::
  "('d, 'f) platform \<Rightarrow> string \<Rightarrow> string list \<Rightarrow> nat \<Rightarrow>
   'f mmdevicedescription \<Rightarrow> 'f mmpropertydescription \<Rightarrow> exn + 'f parsed" where
  "float_property P s wds li devdescr pd =
     and_then (at wds 2) (\<lambda>w2.
     and_then (stof P w2) (\<lambda>v.
     and_then (at wds 3) (\<lambda>w3.
       let pd = pd\<lparr>pd_type := Float, valueFloat := v\<rparr> in
       if c_str w3 = wtrue (words P) then Inr (Property (pd\<lparr>isReadOnly := True\<rparr>))
       else if c_str w3 = wfalse (words P) then
         and_then (at wds li) (\<lambda>wl.
           let valuelist = SplitStringIntoWords wl (sepWithin (words P)) in
           if length valuelist \<noteq> 2
           then Inr (Invalid (invalidate devdescr ''Unable to determine property limits: '' s))
           else
             and_then (at valuelist 0) (\<lambda>l0.
             and_then (stof P l0) (\<lambda>lo.
             and_then (at valuelist 1) (\<lambda>l1.
             and_then (stof P l1) (\<lambda>up.
               Inr (Property (pd\<lparr>isReadOnly := False, lowerLimitFloat := lo,
                                     upperLimitFloat := up\<rparr>)))))))
       else Inr (Invalid (invalidate devdescr ''Unable to determine read-only status: '' s)))))"

definition integer_property ::
  "('d, 'f) platform \<Rightarrow> string \<Rightarrow> string list \<Rightarrow> nat \<Rightarrow>
   'f mmdevicedescription \<Rightarrow> 'f mmpropertydescription \<Rightarrow> exn + 'f parsed" where
  "integer_property P s wds li devdescr pd =
     and_then (at wds 2) (\<lambda>w2.
     and_then (stoi w2) (\<lambda>v.
     and_then (at wds 3) (\<lambda>w3.
       let pd = pd\<lparr>pd_type := Integer, valueInteger := v\<rparr> in
       if c_str w3 = wtrue (words P) then Inr (Property (pd\<lparr>isReadOnly := True\<rparr>))
       else if c_str w3 = wfalse (words P) then
         and_then (at wds li) (\<lambda>wl.
           let valuelist = SplitStringIntoWords wl (sepWithin (words P)) in
           if length valuelist \<noteq> 2
           then Inr (Invalid (invalidate devdescr ''Unable to determine property limits: '' s))
           else
             and_then (at valuelist 0) (\<lambda>l0.
             and_then (stoi l0) (\<lambda>lo.
             and_then (at valuelist 1) (\<lambda>l1.
             and_then (stoi l1) (\<lambda>up.
               Inr (Property (pd\<lparr>isReadOnly := False, lowerLimitInteger := lo,
                                     upperLimitInteger := up\<rparr>)))))))
       else Inr (Invalid (invalidate devdescr ''Unable to determine read-only status: '' s)))))"

text \<open>A line whose key starts with \<open>ushwords::prop\<close> and does not contain \<open>ushwords::act\<close>.\<close>

definition plain_property_line ::
  "('d, 'f) platform \<Rightarrow> string \<Rightarrow> string list \<Rightarrow> 'f mmdevicedescription \<Rightarrow> exn + 'f parsed" where
  "plain_property_line P s wds devdescr =
     (if length wds \<noteq> 5 then Inr (Invalid (invalidate devdescr ''Invalid property: '' s))
      else
        and_then (at wds 1) (\<lambda>w1.
        and_then (at wds 0) (\<lambda>w0.
          let pd = (pd_fresh P)\<lparr>pd_name := [], valueString := [], cmdAction := [],
                     allowedValues := []\<rparr>;
              pd = pd\<lparr>isAction := False, pd_name := w1\<rparr> in
          if c_str w0 = prop_str (words P) then
            string_property P s wds 4 ''Unable to determine read-only status: '' devdescr pd
          else if c_str w0 = prop_float (words P) then float_property P s wds 4 devdescr pd
          else if c_str w0 = prop_int (words P) then integer_property P s wds 4 devdescr pd
          else Inr (Invalid (invalidate devdescr ''Unable to determine property type: '' s)))))"

text \<open>A line whose key starts with \<open>ushwords::prop\<close> and contains \<open>ushwords::act\<close>.\<close>

definition action_property_line ::
  "('d, 'f) platform \<Rightarrow> string \<Rightarrow> string list \<Rightarrow> 'f mmdevicedescription \<Rightarrow> exn + 'f parsed" where
  "action_property_line P s wds devdescr =
     (if length wds \<noteq> 7 then Inr (Invalid (invalidate devdescr ''Invalid property: '' s))
      else
        and_then (at wds 1) (\<lambda>w1.
        and_then (at wds 4) (\<lambda>w4.
        and_then (at wds 5) (\<lambda>w5.
        and_then (at wds 0) (\<lambda>w0.
          let pd = (pd_fresh P)\<lparr>pd_name := [], valueString := [], cmdAction := [],
                     allowedValues := []\<rparr>;
              pd = pd\<lparr>isAction := True, pd_name := w1, cmdAction := w4\<rparr>;
              pd = (if c_str w5 = wtrue (words P) then pd\<lparr>isPreini := True\<rparr>
                    else if c_str w5 = wfalse (words P) then pd\<lparr>isPreini := False\<rparr>
                    else pd) in
          if c_str w0 = prop_str_act (words P) then
            string_property P s wds 6 ''Unable to determine read-only status '' devdescr pd
          else if c_str w0 = prop_float_act (words P) then float_property P s wds 6 devdescr pd
          else if c_str w0 = prop_int_act (words P) then integer_property P s wds 6 devdescr pd
          else Inr (Invalid (invalidate devdescr ''Unable to determine property type: '' s)))))))"

text \<open>
  The \<open>Name\<close> branch.  Its last assignment, \<open>devdescr.type = MM::GenericDevice\<close>, assigns
  an enumerator to a \<open>std::string\<close>: the only \<open>operator=\<close> that takes it is the one for a
  single \<open>char\<close>, so the type becomes the one-byte string holding the enumerator's number.
\<close>

definition name_line ::
  "('d, 'f) platform \<Rightarrow> string \<Rightarrow> string list \<Rightarrow> 'f mmdevicedescription \<Rightarrow> exn + 'f step" where
  "name_line P s wds devdescr =
     and_then (at wds 1) (\<lambda>w1.
       let devdescr = devdescr\<lparr>dd_name := w1\<rparr> in
       if strncmp_eq w1 (g_Keyword_CoreShutter (mm P)) then
         Inr (Continue (devdescr\<lparr>dd_type := g_Keyword_CoreShutter (mm P)\<rparr>))
       else if strncmp_eq w1 (g_Keyword_State (mm P)) then
         Inr (Continue (devdescr\<lparr>dd_type := g_Keyword_State (mm P)\<rparr>))
       else if strncmp_eq w1 ''Stage'' then
         Inr (Continue (devdescr\<lparr>dd_type := ''Stage''\<rparr>))
       else if strncmp_eq w1 (g_Keyword_CoreXYStage (mm P)) then
         Inr (Continue (devdescr\<lparr>dd_type := g_Keyword_CoreXYStage (mm P)\<rparr>))
       else if strncmp_eq w1 ''Generic'' then
         Inr (Continue (devdescr\<lparr>dd_type := [char_of (GenericDevice_enum (mm P))]\<rparr>))
       else Inr (Break (invalidate devdescr ''Unable to determine device type for '' s)))"

text \<open>The dispatch on the leading key of a line of at least two words.\<close>

definition keyed_line ::
  "('d, 'f) platform \<Rightarrow> string \<Rightarrow> string list \<Rightarrow> 'f mmdevicedescription \<Rightarrow> exn + 'f step" where
  "keyed_line P s wds devdescr =
     and_then (at wds 0) (\<lambda>w0.
       if c_str w0 = g_Keyword_Name (mm P) then name_line P s wds devdescr
       else if c_str w0 = g_Keyword_Description (mm P) then
         and_then (at wds 1) (\<lambda>w1. Inr (Continue (devdescr\<lparr>dd_description := w1\<rparr>)))
       else if c_str w0 = timeout (words P) then
         and_then (at wds 1) (\<lambda>w1.
           Inr (Continue (devdescr\<lparr>dd_timeout :=
                  MMTime_of_double P (times_1000 P (atof P (c_str w1)))\<rparr>)))
       else if c_str w0 = cmd (words P) then
         and_then (at wds 1) (\<lambda>w1.
         and_then (at wds 2) (\<lambda>w2.
           Inr (Continue (devdescr\<lparr>methods := methods devdescr @
                  [\<lparr>md_method = w1, md_command = w2\<rparr>]\<rparr>))))
       else if find_str w0 (prop_prefix (words P)) = Some 0 then
         and_then
           (if find_str w0 (act (words P)) = None
            then plain_property_line P s wds devdescr
            else action_property_line P s wds devdescr)
           (\<lambda>r. case r of
              Invalid d \<Rightarrow> Inr (Break d)
            | Property pd \<Rightarrow> Inr (Continue (devdescr\<lparr>properties := properties devdescr @ [pd]\<rparr>)))
       else Inr (Continue devdescr))"

text \<open>One round of the loop, for the line \<open>s\<close>.\<close>

definition setup_line ::
  "('d, 'f) platform \<Rightarrow> string \<Rightarrow> 'f mmdevicedescription \<Rightarrow> exn + 'f step" where
  "setup_line P s devdescr =
     (let wds = SplitStringIntoWords s (sepSetup (words P)) in
      if length wds < 2 then Inr (Break (invalidate devdescr ''Invalid string: '' s))
      else keyed_line P s wds devdescr)"

fun vectorstr_loop ::
  "('d, 'f) platform \<Rightarrow> string list \<Rightarrow> 'f mmdevicedescription \<Rightarrow> exn + 'f mmdevicedescription" where
  "vectorstr_loop P [] devdescr = Inr devdescr"
| "vectorstr_loop P (s # vs) devdescr =
     and_then (setup_line P s devdescr) (\<lambda>r. case r of
        Break d \<Rightarrow> Inr d
      | Continue d \<Rightarrow> vectorstr_loop P vs d)"

text \<open>
  A default-constructed \<open>mmdevicedescription\<close>: empty strings and vectors, the time zero.
  \<open>isValid\<close> is the one member the function sets before it reads it.
\<close>

definition VectorstrToDeviceDescription ::
  "('d, 'f) platform \<Rightarrow> string list \<Rightarrow> exn + 'f mmdevicedescription" where
  "VectorstrToDeviceDescription P vs =
     vectorstr_loop P vs
       \<lparr>dd_name = [], dd_type = [], dd_description = [], dd_timeout = 0, isValid = True,
        reasonWhyInvalid = [], methods = [], properties = []\<rparr>"


section \<open>The hub, its devices and its serial port\<close>

text \<open>
  The device objects the core hands out by label (\<open>GetDevice\<close>).  The adapter's five
  classes keep the same housekeeping members (C++ names end in an underscore, which a
  name cannot do here: \<open>dev_name\<close> is \<open>name_\<close>, \<open>dev_open\<close> is \<open>open_\<close>, \<open>position_um\<close> is
  \<open>position_um_\<close> and so on); a shutter adds \<open>open_\<close>, a stage and an XY stage their
  position and limits.  One record holds them all, \<open>dev_type\<close> telling the class;
  \<open>OtherDevice\<close> is a device of any other type.  \<open>dev_properties\<close> lists the names of the
  properties the device has created, which is what \<open>HasProperty\<close> asks.
\<close>

datatype DeviceType =
  ShutterDevice | StateDevice | StageDevice | XYStageDevice | GenericDevice | OtherDevice

record 'd device =
  dev_type :: DeviceType
  dev_name :: string
  dev_initialized :: bool
  dev_busy :: bool
  dev_timeout :: int
  dev_lastCommandTime :: int
  dev_updating :: bool
  dev_properties :: "string list"
  dev_open :: bool
  position_um :: 'd
  lowerLimit_um :: 'd
  upperLimit_um :: 'd
  positionX_um :: 'd
  positionY_um :: 'd
  lowerLimitX_um :: 'd
  upperLimitX_um :: 'd
  lowerLimitY_um :: 'd
  upperLimitY_um :: 'd

text \<open>
  The state the adapter works on: the global \<open>deviceDescriptionList\<close>, the device
  objects, the hub's members, and the world it talks to.
  \<^item> \<open>serial_in\<close>: the outcomes of the reads of the port still to come, each a result
    code and, when the code is \<open>DEVICE_OK\<close>, the line received (a port that stays silent
    is a read with another code).  A read beyond the list is \<open>EndOfScript\<close>.
  \<^item> \<open>serial_out\<close>: the result code of the n-th write; \<open>serial_sent\<close>: what was written.
  \<^item> \<open>clock\<close>: the value of the n-th reading of the clock (\<open>GetCurrentMMTime\<close>, in
    microseconds), \<open>clock_reads\<close> counting the readings so far.
  \<^item> \<open>property_changes\<close>: the calls of \<open>OnPropertyChanged\<close> (name and value), which the
    core answers with \<open>callback_ret\<close>; \<open>error_description\<close>: the hub's property
    \<open>Error Description\<close>; \<open>hub_error\<close> is \<open>error_\<close>.
  \<^item> \<open>lastPortCheck\<close> and \<open>svc_temp\<close>: the locals \<open>lastPortCheck\<close> and \<open>temp\<close> of
    \<open>BusyThread::svc\<close>, which live across its rounds.
\<close>

record ('d, 'f) hub =
  deviceDescriptionList :: "'f mmdevicedescription list"
  devices :: "string \<Rightarrow> 'd device option"
  hub_error :: int
  error_description :: string
  property_changes :: "(string \<times> string) list"
  callback_ret :: int
  serial_in :: "(int \<times> string) list"
  serial_out :: "nat \<Rightarrow> int"
  serial_sent :: "string list"
  clock :: "nat \<Rightarrow> int"
  clock_reads :: nat
  lastPortCheck :: int
  svc_temp :: string

definition GetCurrentMMTime :: "('d, 'f) hub \<Rightarrow> int \<times> ('d, 'f) hub" where
  "GetCurrentMMTime s = (clock s (clock_reads s), s\<lparr>clock_reads := Suc (clock_reads s)\<rparr>)"

text \<open>\<open>GetDevice(name.c_str())\<close>: the device loaded under that label, or the null pointer.\<close>

definition GetDevice :: "('d, 'f) hub \<Rightarrow> string \<Rightarrow> 'd device option" where
  "GetDevice s label = devices s (c_str label)"

definition update_device ::
  "('d, 'f) hub \<Rightarrow> string \<Rightarrow> ('d device \<Rightarrow> 'd device) \<Rightarrow> ('d, 'f) hub" where
  "update_device s label f =
     s\<lparr>devices := (devices s)(c_str label := map_option f (devices s (c_str label)))\<rparr>"

text \<open>
  \<open>OnPropertyChanged(name.c_str(), value.c_str())\<close> tells the core and returns its answer.
\<close>

definition OnPropertyChanged ::
  "('d, 'f) hub \<Rightarrow> string \<Rightarrow> string \<Rightarrow> int \<times> ('d, 'f) hub" where
  "OnPropertyChanged s pname pvalue =
     (callback_ret s, s\<lparr>property_changes := property_changes s @ [(c_str pname, c_str pvalue)]\<rparr>)"

subsection \<open>Serial communication\<close>

text \<open>\<open>UniHub::SendCommand\<close>: one write to the port.\<close>

definition SendCommand :: "('d, 'f) hub \<Rightarrow> string \<Rightarrow> int \<times> ('d, 'f) hub" where
  "SendCommand s command_string =
     (serial_out s (length (serial_sent s)), s\<lparr>serial_sent := serial_sent s @ [command_string]\<rparr>)"

text \<open>
  \<open>UniHub::ReceiveAnswer\<close>: one read of the port.  \<open>GetSerialAnswer\<close> assigns the answer
  only when it succeeds, so after a failure \<open>ans\<close> is what it was.
\<close>

definition ReceiveAnswer ::
  "('d, 'f) platform \<Rightarrow> ('d, 'f) hub \<Rightarrow> string \<Rightarrow> exn + (int \<times> string) \<times> ('d, 'f) hub" where
  "ReceiveAnswer P s ans =
     (case serial_in s of
        [] \<Rightarrow> Inl EndOfScript
      | (ret, a) # rest \<Rightarrow>
          Inr ((ret, if ret = DEVICE_OK (mm P) then a else ans), s\<lparr>serial_in := rest\<rparr>))"

text \<open>
  \<open>UniHub::ReceiveAndWaitForAnswer\<close> reads again and again until a read succeeds or
  the time is up.  How many reads that takes depends on the wall clock; the model takes
  the outcome of the whole call, code and answer, as one element of \<open>serial_in\<close>.
\<close>

definition ReceiveAndWaitForAnswer ::
  "('d, 'f) hub \<Rightarrow> exn + (int \<times> string) \<times> ('d, 'f) hub" where
  "ReceiveAndWaitForAnswer s =
     (case serial_in s of
        [] \<Rightarrow> Inl EndOfScript
      | (ret, a) # rest \<Rightarrow> Inr ((ret, a), s\<lparr>serial_in := rest\<rparr>))"

subsection \<open>\<open>UniHub::MakeAndSendOutputCommand\<close>\<close>

text \<open>
  The loop \<open>for (int ii = 0; ii < values.size() - 1; ii++)\<close>.  The bound is a \<open>size_t\<close>
  (64 bits), so for an empty vector it is \<open>2^64 - 1\<close>; \<open>values.at(ii)\<close> checks its index.
  (\<open>ii\<close> is an \<open>int\<close>; it stays below \<open>2^31\<close> as long as the vector does.)
\<close>

function output_values_loop ::
  "ushwords \<Rightarrow> string list \<Rightarrow> nat \<Rightarrow> nat \<Rightarrow> string \<Rightarrow> exn + string" where
  "output_values_loop W vals bound ii ss =
     (if ii < bound then
        (if ii < length vals
         then output_values_loop W vals bound (Suc ii) (ss @ vals ! ii @ [sepWithin W])
         else Inl OutOfRange)
      else Inr ss)"
  by pat_completeness auto
termination
  by (relation "measure (\<lambda>(W, vals, bound, ii, ss). length vals - ii)") auto

declare output_values_loop.simps [simp del]

definition size_minus_1 :: "'a list \<Rightarrow> nat" where
  "size_minus_1 v = unat ((word_of_nat (length v) :: 64 word) - 1)"

definition MakeAndSendOutputCommand ::
  "('d, 'f) platform \<Rightarrow> ('d, 'f) hub \<Rightarrow> string \<Rightarrow> string \<Rightarrow> string list \<Rightarrow>
   exn + int \<times> ('d, 'f) hub" where
  "MakeAndSendOutputCommand P s devicename command_token vals =
     (let ss = devicename @ [sepOut (words P)] @ command_token @ [sepOut (words P)] in
      and_then (output_values_loop (words P) vals (size_minus_1 vals) 0 ss) (\<lambda>ss.
      and_then (at vals (size_minus_1 vals)) (\<lambda>v.
        Inr (SendCommand s (ss @ v @ [sepEnd (words P)])))))"

subsection \<open>Schema Registry: lookups\<close>

fun device_index_loop :: "'f mmdevicedescription list \<Rightarrow> string \<Rightarrow> nat \<Rightarrow> int" where
  "device_index_loop [] devicename ii = - 1"
| "device_index_loop (d # ds) devicename ii =
     (if dd_name d = devicename then int ii else device_index_loop ds devicename (Suc ii))"

definition GetDeviceIndexFromName :: "('d, 'f) hub \<Rightarrow> string \<Rightarrow> int" where
  "GetDeviceIndexFromName s devicename = device_index_loop (deviceDescriptionList s) devicename 0"

text \<open>\<open>v.at(index)\<close> for an \<open>int\<close> index: \<open>-1\<close> becomes the largest \<open>size_t\<close> and throws.\<close>

definition at_int :: "'a list \<Rightarrow> int \<Rightarrow> exn + 'a" where
  "at_int v i = (if 0 \<le> i \<and> i < int (length v) then Inr (v ! nat i) else Inl OutOfRange)"

definition ConvertMethodToCommand ::
  "('d, 'f) hub \<Rightarrow> string \<Rightarrow> string \<Rightarrow> exn + string" where
  "ConvertMethodToCommand s deviceName methodName =
     and_then (at_int (deviceDescriptionList s) (GetDeviceIndexFromName s deviceName)) (\<lambda>d.
       case find (\<lambda>cd. md_method cd = methodName) (methods d) of
         Some cd \<Rightarrow> Inr (md_command cd)
       | None \<Rightarrow> Inr [])"

section \<open>Errors: \<open>UniHub::WriteError\<close> and its callers\<close>

definition error_text :: "usherrors \<Rightarrow> int \<Rightarrow> string" where
  "error_text E err =
     (if err = adp_version_mismatch E then
        ''Version number specified by the controller is not supported by this adapter (''
      else if err = adp_lost_communication E then ''Lost communication with the controller (''
      else if err = adp_string_not_recognized E then
        ''Unable to parse string returned by the controller (''
      else if err = adp_device_not_recognized E then ''Device was not recognized (''
      else if err = adp_device_command_not_recognized E then
        ''Device command was not recognized (''
      else if err = adp_device_command_value_not_allowed E then
        ''Device command value was not recognized (''
      else if err = ctr_device_not_recognized E then
        ''Device was not recognized by the controller (''
      else if err = ctr_device_command_not_recognized E then
        ''Device command was not recognized by the controller (''
      else if err = ctr_device_command_value_not_allowed E then
        ''Device command value not allowed by the controller (''
      else if err = ctr_device_timeout E then ''Controller reported timeout (''
      else ''Unknown error ('')"

text \<open>
  \<open>WriteError\<close> records the error in \<open>error_\<close> and in the two error properties of the
  hub, and returns the code.  (Its \<open>LogMessage\<close> leaves no trace in the state.)
\<close>

definition WriteError ::
  "('d, 'f) platform \<Rightarrow> ('d, 'f) hub \<Rightarrow> string \<Rightarrow> int \<Rightarrow> int \<times> ('d, 'f) hub" where
  "WriteError P s addonstr err =
     (let ss = ''USH error: '' @ error_text (errors P) err @ addonstr @ ''); error code ''
                 @ string_of_int err;
          s = s\<lparr>hub_error := err\<rparr>;
          s = snd (OnPropertyChanged s ''Error'' (string_of_int (hub_error s)));
          s = s\<lparr>error_description := c_str ss\<rparr>
      in (err, s))"

fun error_values_loop :: "string list \<Rightarrow> string" where
  "error_values_loop [] = []"
| "error_values_loop [v] = v"
| "error_values_loop (v # w # vs) = v @ '','' @ error_values_loop (w # vs)"

definition ReportErrorForDevice ::
  "('d, 'f) platform \<Rightarrow> ('d, 'f) hub \<Rightarrow> string \<Rightarrow> string \<Rightarrow> string list \<Rightarrow> int \<Rightarrow>
   int \<times> ('d, 'f) hub" where
  "ReportErrorForDevice P s devicename command_token vals err =
     WriteError P s (devicename @ '','' @ command_token @ '','' @ error_values_loop vals) err"

definition ReportTimeoutError ::
  "('d, 'f) platform \<Rightarrow> ('d, 'f) hub \<Rightarrow> string \<Rightarrow> int \<times> ('d, 'f) hub" where
  "ReportTimeoutError P s devname =
     (let s = s\<lparr>hub_error := adp_lost_communication (errors P)\<rparr>
      in WriteError P s devname (hub_error s))"

section \<open>Busy state: the hub's accessors\<close>

text \<open>
  \<open>UniHub::SetBusy\<close>, \<open>GetTimeout\<close>, \<open>SetTimeout\<close>, \<open>GetLastCommandTime\<close> and
  \<open>SetLastCommandTime\<close> look the device up, ask its type without testing the pointer,
  and act on the adapter's five classes only.  The members they reach (\<open>SetBusy\<close>,
  \<open>GetTimeout\<close>, ... of the device classes) are declared in \<open>ush.h\<close>; they are taken to
  read and write the member they name.
\<close>

definition UniHub_SetBusy :: "('d, 'f) hub \<Rightarrow> string \<Rightarrow> bool \<Rightarrow> exn + ('d, 'f) hub" where
  "UniHub_SetBusy s devicename val =
     (case GetDevice s devicename of
        None \<Rightarrow> Inl NullDereference
      | Some dev \<Rightarrow>
          (case dev_type dev of
             OtherDevice \<Rightarrow> Inr s
           | _ \<Rightarrow> Inr (update_device s devicename (\<lambda>d. d\<lparr>dev_busy := val\<rparr>))))"

definition UniHub_GetTimeout :: "('d, 'f) hub \<Rightarrow> string \<Rightarrow> exn + int" where
  "UniHub_GetTimeout s devicename =
     (case GetDevice s devicename of
        None \<Rightarrow> Inl NullDereference
      | Some dev \<Rightarrow> (case dev_type dev of OtherDevice \<Rightarrow> Inr 0 | _ \<Rightarrow> Inr (dev_timeout dev)))"

definition UniHub_SetTimeout :: "('d, 'f) hub \<Rightarrow> string \<Rightarrow> int \<Rightarrow> exn + ('d, 'f) hub" where
  "UniHub_SetTimeout s devicename val =
     (case GetDevice s devicename of
        None \<Rightarrow> Inl NullDereference
      | Some dev \<Rightarrow>
          (case dev_type dev of
             OtherDevice \<Rightarrow> Inr s
           | _ \<Rightarrow> Inr (update_device s devicename (\<lambda>d. d\<lparr>dev_timeout := val\<rparr>))))"

definition UniHub_GetLastCommandTime :: "('d, 'f) hub \<Rightarrow> string \<Rightarrow> exn + int" where
  "UniHub_GetLastCommandTime s devicename =
     (case GetDevice s devicename of
        None \<Rightarrow> Inl NullDereference
      | Some dev \<Rightarrow>
          (case dev_type dev of OtherDevice \<Rightarrow> Inr 0 | _ \<Rightarrow> Inr (dev_lastCommandTime dev)))"

definition UniHub_SetLastCommandTime ::
  "('d, 'f) hub \<Rightarrow> string \<Rightarrow> int \<Rightarrow> exn + ('d, 'f) hub" where
  "UniHub_SetLastCommandTime s devicename val =
     (case GetDevice s devicename of
        None \<Rightarrow> Inl NullDereference
      | Some dev \<Rightarrow>
          (case dev_type dev of
             OtherDevice \<Rightarrow> Inr s
           | _ \<Rightarrow> Inr (update_device s devicename (\<lambda>d. d\<lparr>dev_lastCommandTime := val\<rparr>))))"

text \<open>\<open>Busy()\<close> of the adapter's devices: \<open>if (!initialized_) return false; return GetBusy();\<close>\<close>

definition Busy :: "'d device \<Rightarrow> bool" where
  "Busy dev = (if \<not> dev_initialized dev then False else dev_busy dev)"

section \<open>Device methods reached from the hub\<close>

text \<open>The first index whose element satisfies \<open>p\<close>: the source's scans with \<open>break\<close>.\<close>

fun first_index :: "('a \<Rightarrow> bool) \<Rightarrow> 'a list \<Rightarrow> nat option" where
  "first_index p [] = None"
| "first_index p (x # xs) = (if p x then Some 0 else map_option Suc (first_index p xs))"

text \<open>\<open>deviceDescriptionList.at(index).properties.at(ii)\<close> assigned through \<open>f\<close>.\<close>

definition set_property ::
  "('d, 'f) hub \<Rightarrow> nat \<Rightarrow> nat \<Rightarrow> ('f mmpropertydescription \<Rightarrow> 'f mmpropertydescription) \<Rightarrow>
   exn + ('d, 'f) hub" where
  "set_property s index ii f =
     and_then (at (deviceDescriptionList s) index) (\<lambda>d.
     and_then (at (properties d) ii) (\<lambda>pd.
       Inr (s\<lparr>deviceDescriptionList :=
              (deviceDescriptionList s)[index := d\<lparr>properties := (properties d)[ii := f pd]\<rparr>]\<rparr>)))"

text \<open>
  \<open>UshShutter::SetOpen(bool open)\<close>.  The parameter is a \<open>bool\<close>, so in the test
  \<open>open != 0 && open != 1\<close> it is promoted to 0 or 1.
\<close>

definition SetOpen ::
  "('d, 'f) platform \<Rightarrow> ('d, 'f) hub \<Rightarrow> string \<Rightarrow> bool \<Rightarrow> exn + int \<times> ('d, 'f) hub" where
  "SetOpen P s label opn =
     (case GetDevice s label of
        None \<Rightarrow> Inl NullDereference
      | Some dev \<Rightarrow>
          if dev_updating dev then
            (let promoted = (if opn then 1 else 0 :: int) in
             if promoted \<noteq> 0 \<and> promoted \<noteq> 1
             then Inr (adp_device_command_value_not_allowed (errors P), s)
             else Inr (DEVICE_OK (mm P),
                       update_device s label (\<lambda>d. d\<lparr>dev_open := opn, dev_updating := False\<rparr>)))
          else
            (let vals = [string_of_int (if opn then 1 else 0)] in
             and_then (ConvertMethodToCommand s (dev_name dev) (set_open (words P))) (\<lambda>c.
               if length c = 0 then Inr (DEVICE_ERR (mm P), s)
               else if c_str c = not_supported (words P)
               then Inr (DEVICE_UNSUPPORTED_COMMAND (mm P), s)
               else
                 (let (now, s) = GetCurrentMMTime s;
                      s = update_device s label (\<lambda>d. d\<lparr>dev_lastCommandTime := now\<rparr>)
                  in and_then (MakeAndSendOutputCommand P s (dev_name dev) c vals) (\<lambda>(ret, s).
                       Inr (ret, update_device s label
                                   (\<lambda>d. d\<lparr>dev_open := opn, dev_busy := True\<rparr>)))))))"

text \<open>
  The scan for the property called \<open>pname\<close>, the assignment of its \<open>valueFloat\<close> and the
  notification, as \<open>UshStage::SetPositionUm\<close> and \<open>UshXYStage::SetPositionUm\<close> do them.
  When no property has the name, \<open>propertyIndex_\<close> stays \<open>(size_t)-1\<close> and \<open>at\<close> throws.
\<close>

definition update_position_property ::
  "('d, 'f) platform \<Rightarrow> ('d, 'f) hub \<Rightarrow> int \<Rightarrow> 'f mmdevicedescription \<Rightarrow> string \<Rightarrow> 'd \<Rightarrow>
   exn + ('d, 'f) hub" where
  "update_position_property P s index d pname pos =
     (case first_index (\<lambda>pd. pd_name pd = pname) (properties d) of
        None \<Rightarrow> Inl OutOfRange
      | Some ii \<Rightarrow>
          and_then (at_int (deviceDescriptionList s) index) (\<lambda>_.
          and_then (set_property s (nat index) ii (\<lambda>p. p\<lparr>valueFloat := float_of_double P pos\<rparr>))
            (\<lambda>s. Inr (snd (OnPropertyChanged s (pd_name (properties d ! ii))
                              (to_string_long_double P pos))))))"

definition Stage_SetPositionUm ::
  "('d, 'f) platform \<Rightarrow> ('d, 'f) hub \<Rightarrow> string \<Rightarrow> 'd \<Rightarrow> exn + int \<times> ('d, 'f) hub" where
  "Stage_SetPositionUm P s label pos =
     (case GetDevice s label of
        None \<Rightarrow> Inl NullDereference
      | Some dev \<Rightarrow>
          if dev_updating dev then
            (if double_less P pos (lowerLimit_um dev) \<or> double_less P (upperLimit_um dev) pos
             then Inr (adp_device_command_value_not_allowed (errors P), s)
             else
               (let s = update_device s label (\<lambda>d. d\<lparr>position_um := pos\<rparr>) in
                and_then
                  (if g_Keyword_Position (mm P) \<in> set (dev_properties dev) then
                     (let index = GetDeviceIndexFromName s (dev_name dev) in
                      and_then (at_int (deviceDescriptionList s) index) (\<lambda>d.
                        update_position_property P s index d (g_Keyword_Position (mm P)) pos))
                   else Inr s)
                  (\<lambda>s. Inr (DEVICE_OK (mm P),
                            update_device s label (\<lambda>d. d\<lparr>dev_updating := False\<rparr>)))))
          else
            (let vals = [to_string_long_long P pos] in
             and_then (ConvertMethodToCommand s (dev_name dev) (set_position_um (words P))) (\<lambda>c.
               if length c = 0 then Inr (DEVICE_ERR (mm P), s)
               else if c_str c = not_supported (words P)
               then Inr (DEVICE_UNSUPPORTED_COMMAND (mm P), s)
               else
                 (let (now, s) = GetCurrentMMTime s;
                      s = update_device s label (\<lambda>d. d\<lparr>dev_lastCommandTime := now\<rparr>)
                  in and_then (MakeAndSendOutputCommand P s (dev_name dev) c vals) (\<lambda>(ret, s).
                       Inr (ret, update_device s label
                                   (\<lambda>d. d\<lparr>position_um := pos, dev_busy := True\<rparr>)))))))"

definition XYStage_SetPositionUm ::
  "('d, 'f) platform \<Rightarrow> ('d, 'f) hub \<Rightarrow> string \<Rightarrow> 'd \<Rightarrow> 'd \<Rightarrow> exn + int \<times> ('d, 'f) hub" where
  "XYStage_SetPositionUm P s label posX posY =
     (case GetDevice s label of
        None \<Rightarrow> Inl NullDereference
      | Some dev \<Rightarrow>
          if dev_updating dev then
            (if double_less P posX (lowerLimitX_um dev) \<or> double_less P (upperLimitX_um dev) posX
                \<or> double_less P posY (lowerLimitY_um dev) \<or> double_less P (upperLimitY_um dev) posY
             then Inr (adp_device_command_value_not_allowed (errors P), s)
             else
               (let s = update_device s label (\<lambda>d. d\<lparr>positionX_um := posX, positionY_um := posY\<rparr>);
                    index = GetDeviceIndexFromName s (dev_name dev) in
                and_then (at_int (deviceDescriptionList s) index) (\<lambda>d.
                and_then
                  (if position_x (words P) \<in> set (dev_properties dev)
                   then update_position_property P s index d (position_x (words P)) posX
                   else Inr s) (\<lambda>s.
                and_then
                  (if position_y (words P) \<in> set (dev_properties dev)
                   then update_position_property P s index d (position_y (words P)) posY
                   else Inr s) (\<lambda>s.
                  Inr (DEVICE_OK (mm P),
                       update_device s label (\<lambda>d. d\<lparr>dev_updating := False\<rparr>)))))))
          else
            (let vals = [to_string_long_double P posX, to_string_long_double P posY] in
             and_then (ConvertMethodToCommand s (dev_name dev) (set_position_um (words P))) (\<lambda>c.
               if length c = 0 then Inr (DEVICE_ERR (mm P), s)
               else if c_str c = not_supported (words P)
               then Inr (DEVICE_UNSUPPORTED_COMMAND (mm P), s)
               else
                 (let (now, s) = GetCurrentMMTime s;
                      s = update_device s label (\<lambda>d. d\<lparr>dev_lastCommandTime := now\<rparr>)
                  in and_then (MakeAndSendOutputCommand P s (dev_name dev) c vals) (\<lambda>(ret, s).
                       Inr (ret, update_device s label
                                   (\<lambda>d. d\<lparr>positionX_um := posX, positionY_um := posY,
                                           dev_busy := True\<rparr>)))))))"

section \<open>Command Router, wire to logical: \<open>UniHub::ReportToDevice\<close>\<close>

text \<open>
  The function has one block per device type.  Every block starts with the same
  handling of the \<open>timeout\<close> pseudo-command and ends with the same scan of the
  properties; the blocks for shutters, stages and XY stages scan the methods in between.
\<close>

definition report_timeout ::
  "('d, 'f) platform \<Rightarrow> ('d, 'f) hub \<Rightarrow> string \<Rightarrow> string list \<Rightarrow> exn + int \<times> ('d, 'f) hub" where
  "report_timeout P s devicename vals =
     and_then (subscript vals 0) (\<lambda>v0.
       let v = times_1000 P (atof P (c_str v0));
           (now, s) = GetCurrentMMTime s;
           s = update_device s devicename (\<lambda>d. d\<lparr>dev_lastCommandTime := now\<rparr>);
           s = update_device s devicename (\<lambda>d. d\<lparr>dev_timeout := MMTime_of_double P v\<rparr>)
       in Inr (DEVICE_OK (mm P), s))"

text \<open>
  The scan \<open>for (jj ...) if (pd.allowedValues.at(jj).compare(vals[0]) == 0)\<close>: whether
  \<open>vals[0]\<close> is an allowed value.  \<open>vals[0]\<close> is read once per round.
\<close>

fun allowed_loop :: "string list \<Rightarrow> string list \<Rightarrow> exn + bool" where
  "allowed_loop [] vals = Inr False"
| "allowed_loop (a # as) vals =
     and_then (subscript vals 0) (\<lambda>v0. if a = v0 then Inr True else allowed_loop as vals)"

text \<open>
  The validation of the value against the property found, and the assignment to the
  cached value: \<open>None\<close> when the value is not allowed, else the state.
\<close>

definition validate_and_store ::
  "('d, 'f) platform \<Rightarrow> ('d, 'f) hub \<Rightarrow> nat \<Rightarrow> nat \<Rightarrow> 'f mmpropertydescription \<Rightarrow>
   string list \<Rightarrow> exn + ('d, 'f) hub option" where
  "validate_and_store P s index ii pd vals =
     (case pd_type pd of
        String \<Rightarrow>
          and_then (allowed_loop (allowedValues pd) vals) (\<lambda>found.
            if found then
              and_then (subscript vals 0) (\<lambda>v0.
              and_then (set_property s index ii (\<lambda>p. p\<lparr>valueString := v0\<rparr>)) (\<lambda>s.
                Inr (Some s)))
            else Inr None)
      | Integer \<Rightarrow>
          and_then (subscript vals 0) (\<lambda>v0.
            let v = atoi v0 in
            if v < lowerLimitInteger pd \<or> v > upperLimitInteger pd then Inr None
            else and_then (set_property s index ii (\<lambda>p. p\<lparr>valueInteger := v\<rparr>)) (\<lambda>s.
                   Inr (Some s)))
      | Float \<Rightarrow>
          and_then (subscript vals 0) (\<lambda>v0.
            let v = float_of_double P (atof P (c_str v0)) in
            if float_less P v (lowerLimitFloat pd) \<or> float_less P (upperLimitFloat pd) v
            then Inr None
            else and_then (set_property s index ii (\<lambda>p. p\<lparr>valueFloat := v\<rparr>)) (\<lambda>s.
                   Inr (Some s)))
      | Undef \<Rightarrow> Inr (Some s))"

text \<open>\<open>// report a property change\<close>, the same in all five blocks.\<close>

definition report_property ::
  "('d, 'f) platform \<Rightarrow> ('d, 'f) hub \<Rightarrow> nat \<Rightarrow> 'f mmdevicedescription \<Rightarrow> string \<Rightarrow> string \<Rightarrow>
   string list \<Rightarrow> exn + int \<times> ('d, 'f) hub" where
  "report_property P s index d devicename command_token vals =
     (case first_index (\<lambda>pd. cmdAction pd = command_token) (properties d) of
        None \<Rightarrow>
          Inr (ReportErrorForDevice P s devicename command_token vals
                 (adp_device_command_not_recognized (errors P)))
      | Some ii \<Rightarrow>
          (let pd = properties d ! ii in
           and_then (validate_and_store P s index ii pd vals) (\<lambda>r.
             case r of
               None \<Rightarrow>
                 Inr (ReportErrorForDevice P s devicename command_token vals
                        (adp_device_command_value_not_allowed (errors P)))
             | Some s \<Rightarrow>
                 and_then (subscript vals 0) (\<lambda>v0.
                   Inr (OnPropertyChanged s (pd_name pd) v0)))))"

text \<open>\<open>// report a method change\<close> of the three blocks that have one.\<close>

definition shutter_method ::
  "('d, 'f) platform \<Rightarrow> ('d, 'f) hub \<Rightarrow> string \<Rightarrow> mmmethoddescription \<Rightarrow> string list \<Rightarrow>
   exn + int \<times> ('d, 'f) hub" where
  "shutter_method P s devicename md vals =
     (if md_method md = set_open (words P) \<or> md_method md = get_open (words P) then
        (let s = update_device s devicename (\<lambda>d. d\<lparr>dev_updating := True\<rparr>) in
         and_then (subscript vals 0) (\<lambda>v0.
           SetOpen P s devicename (atoi v0 \<noteq> 0)))
      else Inr (DEVICE_OK (mm P), s))"

definition stage_method ::
  "('d, 'f) platform \<Rightarrow> ('d, 'f) hub \<Rightarrow> string \<Rightarrow> mmmethoddescription \<Rightarrow> string list \<Rightarrow>
   exn + int \<times> ('d, 'f) hub" where
  "stage_method P s devicename md vals =
     (if md_method md = set_position_um (words P) \<or> md_method md = get_position_um (words P)
         \<or> md_method md = home (words P) \<or> md_method md = stop (words P) then
        (let s = update_device s devicename (\<lambda>d. d\<lparr>dev_updating := True\<rparr>) in
         and_then (subscript vals 0) (\<lambda>v0.
           Stage_SetPositionUm P s devicename (atof P (c_str v0))))
      else Inr (DEVICE_OK (mm P), s))"

definition xystage_method ::
  "('d, 'f) platform \<Rightarrow> ('d, 'f) hub \<Rightarrow> string \<Rightarrow> mmmethoddescription \<Rightarrow> string list \<Rightarrow>
   exn + int \<times> ('d, 'f) hub" where
  "xystage_method P s devicename md vals =
     (if md_method md = set_position_um (words P) \<or> md_method md = get_position_um (words P)
         \<or> md_method md = home (words P) \<or> md_method md = stop (words P) then
        (let s = update_device s devicename (\<lambda>d. d\<lparr>dev_updating := True\<rparr>) in
         and_then (subscript vals 0) (\<lambda>v0.
         and_then (subscript vals 1) (\<lambda>v1.
           XYStage_SetPositionUm P s devicename (atof P (c_str v0)) (atof P (c_str v1)))))
      else Inr (DEVICE_OK (mm P), s))"

text \<open>
  One block of \<open>ReportToDevice\<close>.  \<open>on_method\<close> is the block's treatment of a method whose
  command matches, \<open>None\<close> for the two blocks (state devices, generic devices) that do
  not look at the methods.
\<close>

definition report_block ::
  "('d, 'f) platform \<Rightarrow> ('d, 'f) hub \<Rightarrow>
   (mmmethoddescription \<Rightarrow> string list \<Rightarrow> exn + int \<times> ('d, 'f) hub) option \<Rightarrow>
   string \<Rightarrow> string \<Rightarrow> string list \<Rightarrow> exn + int \<times> ('d, 'f) hub" where
  "report_block P s on_method devicename command_token vals =
     (let index = GetDeviceIndexFromName s devicename in
      and_then (at_int (deviceDescriptionList s) index) (\<lambda>d.
        if command_token = timeout (words P) then report_timeout P s devicename vals
        else
          (case (case on_method of
                   None \<Rightarrow> None
                 | Some m \<Rightarrow>
                     map_option (\<lambda>md. m md vals)
                       (find (\<lambda>md. md_command md = command_token) (methods d))) of
             Some r \<Rightarrow> r
           | None \<Rightarrow> report_property P s (nat index) d devicename command_token vals)))"

definition ReportToDevice ::
  "('d, 'f) platform \<Rightarrow> ('d, 'f) hub \<Rightarrow> string \<Rightarrow> string \<Rightarrow> string list \<Rightarrow>
   exn + int \<times> ('d, 'f) hub" where
  "ReportToDevice P s devicename command_token vals =
     (case GetDevice s devicename of
        None \<Rightarrow> Inl NullDereference
      | Some dev \<Rightarrow>
          (case dev_type dev of
             ShutterDevice \<Rightarrow>
               report_block P s (Some (shutter_method P s devicename)) devicename command_token vals
           | StateDevice \<Rightarrow> report_block P s None devicename command_token vals
           | StageDevice \<Rightarrow>
               report_block P s (Some (stage_method P s devicename)) devicename command_token vals
           | XYStageDevice \<Rightarrow>
               report_block P s (Some (xystage_method P s devicename)) devicename command_token vals
           | GenericDevice \<Rightarrow> report_block P s None devicename command_token vals
           | OtherDevice \<Rightarrow> Inr (DEVICE_ERR (mm P), s)))"

section \<open>Poll Loop: one round of \<open>BusyThread::svc\<close>\<close>

definition CheckIncomingCommand ::
  "('d, 'f) platform \<Rightarrow> ('d, 'f) hub \<Rightarrow> string list \<Rightarrow> exn + int" where
  "CheckIncomingCommand P s vs =
     (if length vs \<noteq> 3 then Inr (adp_string_not_recognized (errors P))
      else
        and_then (at vs 0) (\<lambda>devname.
          if GetDevice s devname = None then Inr (adp_device_not_recognized (errors P))
          else Inr (DEVICE_OK (mm P))))"

text \<open>
  \<open>// populate the list of busy devices\<close>: the devices (here their labels, as the core
  keeps one object per label) found under the names of the registry, in its order.
\<close>

fun busy_devices :: "('d, 'f) hub \<Rightarrow> 'f mmdevicedescription list \<Rightarrow> string list" where
  "busy_devices s [] = []"
| "busy_devices s (d # ds) =
     (case GetDevice s (dd_name d) of
        None \<Rightarrow> busy_devices s ds
      | Some dev \<Rightarrow>
          if Busy dev then c_str (dd_name d) # busy_devices s ds else busy_devices s ds)"

text \<open>
  \<open>// no communication received therefore check timeout values\<close>: the loop over the
  busy devices, left at the first that has timed out.  \<open>GetName\<close> copies \<open>name_\<close> into a
  C string (names are taken to fit its \<open>MM::MaxStrLength\<close> bytes).
\<close>

fun timeout_loop ::
  "('d, 'f) platform \<Rightarrow> ('d, 'f) hub \<Rightarrow> string list \<Rightarrow> exn + ('d, 'f) hub" where
  "timeout_loop P s [] = Inr s"
| "timeout_loop P s (label # rest) =
     (case devices s label of
        None \<Rightarrow> Inl NullDereference
      | Some dev \<Rightarrow>
          (let cname = c_str (dev_name dev);
               (now, s) = GetCurrentMMTime s in
           and_then (UniHub_GetLastCommandTime s cname) (\<lambda>last.
           and_then (UniHub_GetTimeout s cname) (\<lambda>tmo.
             if now - last > tmo then
               and_then (UniHub_SetBusy s cname False) (\<lambda>s.
                 Inr (snd (ReportTimeoutError P s cname)))
             else timeout_loop P s rest))))"

text \<open>\<open>// handle errors\<close>: what the firmware's code does to the busy state.\<close>

definition handle_errors ::
  "('d, 'f) platform \<Rightarrow> ('d, 'f) hub \<Rightarrow> string \<Rightarrow> string \<Rightarrow> int \<Rightarrow> exn + ('d, 'f) hub" where
  "handle_errors P s ans devicename err =
     (if err = ctr_ok (errors P) then UniHub_SetBusy s devicename False
      else if err = ctr_busy (errors P) then
        and_then (UniHub_SetBusy s devicename True) (\<lambda>s.
          let (now, s) = GetCurrentMMTime s in UniHub_SetLastCommandTime s devicename now)
      else
        and_then (UniHub_SetBusy s devicename False) (\<lambda>s. Inr (snd (WriteError P s ans err))))"

text \<open>\<open>// report values back to the device\<close>\<close>

definition report_values ::
  "('d, 'f) platform \<Rightarrow> ('d, 'f) hub \<Rightarrow> string \<Rightarrow> string \<Rightarrow> string list \<Rightarrow> int \<Rightarrow>
   exn + ('d, 'f) hub" where
  "report_values P s devicename command_token vals err =
     (if err = ctr_ok (errors P) \<or> err = ctr_busy (errors P) then
        (if length vals > 0
         then and_then (ReportToDevice P s devicename command_token vals) (\<lambda>(ret, s). Inr s)
         else Inr s)
      else Inr s)"

text \<open>\<open>// communication received from the serial device\<close>, for the answer \<open>ans\<close>.\<close>

definition data_received ::
  "('d, 'f) platform \<Rightarrow> ('d, 'f) hub \<Rightarrow> string \<Rightarrow> exn + ('d, 'f) hub" where
  "data_received P s ans =
     (let vs = SplitStringIntoWords ans (sepIn (words P)) in
      and_then (CheckIncomingCommand P s vs) (\<lambda>ret.
        if ret \<noteq> DEVICE_OK (mm P) then Inr (snd (WriteError P s ans ret))
        else
          and_then (subscript vs 0) (\<lambda>devicename.
          and_then (subscript vs 1) (\<lambda>command_token.
          and_then (subscript vs 2) (\<lambda>v2.
            let vals = SplitStringIntoWords v2 (sepWithin (words P)) in
            and_then (subscript vals 0) (\<lambda>strerr.
              let vals = tl vals in
              and_then (stoi strerr) (\<lambda>err.
              and_then (handle_errors P s ans devicename err) (\<lambda>s.
                report_values P s devicename command_token vals err))))))))"

text \<open>
  One round of the loop \<open>while (!pHub_->stopbusythread_)\<close>, after its \<open>Sleep(500)\<close>.
  \<open>intervalPortCheck\<close> is \<open>MM::MMTime(3e5)\<close>.
\<close>

definition intervalPortCheck :: int where
  "intervalPortCheck = 300000"

definition svc_round :: "('d, 'f) platform \<Rightarrow> ('d, 'f) hub \<Rightarrow> exn + ('d, 'f) hub" where
  "svc_round P s =
     (let listOfBusyDevices = busy_devices s (deviceDescriptionList s);
          (due, s) =
            (if length listOfBusyDevices > 0 then (True, s)
             else (let (now, s) = GetCurrentMMTime s
                   in (now - lastPortCheck s > intervalPortCheck, s)))
      in if due then
           (let (now, s) = GetCurrentMMTime s;
                s = s\<lparr>lastPortCheck := now\<rparr>
            in and_then (ReceiveAnswer P s (svc_temp s)) (\<lambda>((ret, temp), s).
                 let s = s\<lparr>svc_temp := temp\<rparr>;
                     ans = temp
                 in if ret \<noteq> DEVICE_OK (mm P) then timeout_loop P s listOfBusyDevices
                    else data_received P s ans))
         else Inr s)"

section \<open>Schema Builder: \<open>UniHub::PopulateDeviceDescriptionList\<close>\<close>

text \<open>
  \<open>// make the last device description\<close>, and the same two statements inside the loop:
  the lines gathered are converted and the description is appended to the registry.
\<close>

definition push_description ::
  "('d, 'f) platform \<Rightarrow> ('d, 'f) hub \<Rightarrow> string list \<Rightarrow> exn + ('d, 'f) hub" where
  "push_description P s device_vecstr =
     and_then (VectorstrToDeviceDescription P device_vecstr) (\<lambda>dd.
       Inr (s\<lparr>deviceDescriptionList := deviceDescriptionList s @ [dd]\<rparr>))"

text \<open>
  The \<open>while (ret == DEVICE_OK)\<close> loop with what follows it.  Each round starts from
  the outcome \<open>(ret, ans)\<close> of the last \<open>ReceiveAndWaitForAnswer\<close>, the head of the reads
  to come.  The loop ends when a read fails or answers \<open>device_list_end\<close>, and the
  function returns at once when a write fails.
\<close>

fun populate_loop ::
  "('d, 'f) platform \<Rightarrow> ('d, 'f) hub \<Rightarrow> (int \<times> string) list \<Rightarrow> string list \<Rightarrow>
   exn + int \<times> ('d, 'f) hub" where
  "populate_loop P s [] device_vecstr = Inl EndOfScript"
| "populate_loop P s ((ret, ans) # reads) device_vecstr =
     (let s = s\<lparr>serial_in := reads\<rparr> in
      if ret = DEVICE_OK (mm P) then
        (if ans = device_list_end (words P) then
           and_then (push_description P s device_vecstr) (\<lambda>s. Inr (ret, s))
         else
           (let wds = SplitStringIntoWords ans (sepSetup (words P)) in
            and_then (subscript wds 0) (\<lambda>w0.
            and_then
              (if w0 = g_Keyword_Name (mm P) then
                 (if length device_vecstr \<noteq> 0
                  then and_then (push_description P s device_vecstr) (\<lambda>s. Inr (s, []))
                  else Inr (s, device_vecstr))
               else Inr (s, device_vecstr))
              (\<lambda>(s, device_vecstr).
                 let device_vecstr = device_vecstr @ [ans];
                     (ret, s) = SendCommand s (device_list_continue (words P) @ [sepEnd (words P)])
                 in if ret \<noteq> DEVICE_OK (mm P) then Inr (ret, s)
                    else populate_loop P s reads device_vecstr))))
      else and_then (push_description P s device_vecstr) (\<lambda>s. Inr (ret, s)))"

definition PopulateDeviceDescriptionList ::
  "('d, 'f) platform \<Rightarrow> ('d, 'f) hub \<Rightarrow> exn + int \<times> ('d, 'f) hub" where
  "PopulateDeviceDescriptionList P s =
     (let (ret, s) = SendCommand s (device_list_start (words P) @ [sepEnd (words P)])
      in populate_loop P s (serial_in s) [])"

section \<open>A platform and a hub to evaluate on\<close>

text \<open>
  Concrete values for the parameters, used where a theorem is applied to an input:
  reserved words as the spec's examples write them (\<open>Name,Shutter1\<close>, \<open>list-end\<close>,
  \<open>set-open\<close>, ...), separators that differ from each other, error codes that differ
  from each other, and the keywords of the Micro-Manager API.  The numbers that occur in
  the examples are integers, which \<open>double\<close> and \<open>float\<close> hold exactly; the example
  platform reads and compares them as such.
\<close>

definition example_words :: ushwords where
  "example_words = \<lparr>sepSetup = CHR '','', sepWithin = CHR '';'', sepOut = CHR '':'',
     sepIn = CHR ''='', sepEnd = CHR 0x0A,
     device_list_start = ''list-start'', device_list_continue = ''list-continue'',
     device_list_end = ''list-end'', timeout = ''timeout'', cmd = ''CommandAction'',
     prop_prefix = ''Property'', act = ''Act'', prop_str = ''PropertyString'',
     prop_float = ''PropertyFloat'', prop_int = ''PropertyInteger'',
     prop_str_act = ''PropertyStringAct'', prop_float_act = ''PropertyFloatAct'',
     prop_int_act = ''PropertyIntegerAct'', wtrue = ''true'', wfalse = ''false'',
     set_open = ''set-open'', get_open = ''get-open'', set_position_um = ''set-position'',
     get_position_um = ''get-position'', home = ''home'', stop = ''stop'',
     not_supported = ''not-supported'', position_x = ''PositionX'',
     position_y = ''PositionY''\<rparr>"

definition example_errors :: usherrors where
  "example_errors = \<lparr>adp_version_mismatch = 101, adp_lost_communication = 102,
     adp_string_not_recognized = 103, adp_device_not_recognized = 104,
     adp_device_command_not_recognized = 105, adp_device_command_value_not_allowed = 106,
     ctr_ok = 0, ctr_busy = 1, ctr_device_not_recognized = 2,
     ctr_device_command_not_recognized = 3, ctr_device_command_value_not_allowed = 4,
     ctr_device_timeout = 5\<rparr>"

definition example_mm :: mmconstants where
  "example_mm = \<lparr>DEVICE_OK = 0, DEVICE_ERR = 1, DEVICE_UNSUPPORTED_COMMAND = 11,
     g_Keyword_Name = ''Name'', g_Keyword_Description = ''Description'',
     g_Keyword_CoreShutter = ''Shutter'', g_Keyword_State = ''State'',
     g_Keyword_CoreXYStage = ''XYStage'', g_Keyword_Position = ''Position'',
     GenericDevice_enum = 8\<rparr>"

definition example_pd :: "int mmpropertydescription" where
  "example_pd = \<lparr>pd_name = [], pd_type = Undef, valueString = [], valueInteger = 0,
     valueFloat = 0, isReadOnly = False, isAction = False, cmdAction = [], isPreini = False,
     allowedValues = [], lowerLimitInteger = 0, upperLimitInteger = 0, lowerLimitFloat = 0,
     upperLimitFloat = 0\<rparr>"

definition example_platform :: "(int, int) platform" where
  "example_platform = \<lparr>words = example_words, errors = example_errors, mm = example_mm,
     atof = (\<lambda>s. case strtol10 s of None \<Rightarrow> 0 | Some v \<Rightarrow> v),
     stof = (\<lambda>s. case strtol10 s of None \<Rightarrow> Inl InvalidArgument | Some v \<Rightarrow> Inr v),
     double_less = (<), float_less = (<), float_of_double = (\<lambda>x. x),
     times_1000 = (\<lambda>x. x * 1000), MMTime_of_double = (\<lambda>x. x),
     to_string_long_double = string_of_int, to_string_long_long = string_of_int,
     pd_fresh = example_pd\<rparr>"

text \<open>
  A registry with a shutter and a stage.  The shutter has the integer action property
  \<open>Speed\<close> (command \<open>SPD\<close>, limits 0 and 10) and the integer action property \<open>Gain\<close>
  (command \<open>GN\<close>) whose setup line gave the limits as \<open>10;1\<close>; the stage has the methods
  \<open>set-position\<close> (command \<open>P\<close>), \<open>home\<close> (command \<open>H\<close>) and \<open>fire\<close> (command \<open>F\<close>) and
  the float property \<open>Position\<close> with the limits 0 and 100.
\<close>

definition example_speed :: "int mmpropertydescription" where
  "example_speed = example_pd\<lparr>pd_name := ''Speed'', pd_type := Integer, valueInteger := 5,
     isAction := True, cmdAction := ''SPD'', lowerLimitInteger := 0, upperLimitInteger := 10\<rparr>"

definition example_gain :: "int mmpropertydescription" where
  "example_gain = example_pd\<lparr>pd_name := ''Gain'', pd_type := Integer, valueInteger := 5,
     isAction := True, cmdAction := ''GN'', lowerLimitInteger := 10, upperLimitInteger := 1\<rparr>"

definition example_position :: "int mmpropertydescription" where
  "example_position = example_pd\<lparr>pd_name := ''Position'', pd_type := Float, valueFloat := 50,
     lowerLimitFloat := 0, upperLimitFloat := 100\<rparr>"

definition example_registry :: "int mmdevicedescription list" where
  "example_registry =
     [\<lparr>dd_name = ''Shutter1'', dd_type = ''Shutter'', dd_description = ''test shutter'',
       dd_timeout = 200000, isValid = True, reasonWhyInvalid = [],
       methods = [\<lparr>md_method = ''set-open'', md_command = ''O''\<rparr>],
       properties = [example_speed, example_gain]\<rparr>,
      \<lparr>dd_name = ''Stage1'', dd_type = ''Stage'', dd_description = ''test stage'',
       dd_timeout = 200000, isValid = True, reasonWhyInvalid = [],
       methods = [\<lparr>md_method = ''set-position'', md_command = ''P''\<rparr>,
                  \<lparr>md_method = ''home'', md_command = ''H''\<rparr>,
                  \<lparr>md_method = ''fire'', md_command = ''F''\<rparr>],
       properties = [example_position]\<rparr>]"

definition example_device :: "int device" where
  "example_device = \<lparr>dev_type = ShutterDevice, dev_name = ''Shutter1'',
     dev_initialized = True, dev_busy = True, dev_timeout = 200000, dev_lastCommandTime = 0,
     dev_updating = False, dev_properties = [''Speed'', ''Gain''], dev_open = False,
     position_um = 0, lowerLimit_um = 0, upperLimit_um = 0, positionX_um = 0,
     positionY_um = 0, lowerLimitX_um = 0, upperLimitX_um = 0, lowerLimitY_um = 0,
     upperLimitY_um = 0\<rparr>"

text \<open>
  The stage as \<open>UshStage::Initialize\<close> leaves it: it has created its property
  \<open>Position\<close> and taken its limits from it.
\<close>

definition example_stage :: "int device" where
  "example_stage = example_device\<lparr>dev_type := StageDevice, dev_name := ''Stage1'',
     dev_properties := [''Position''], position_um := 50, lowerLimit_um := 0,
     upperLimit_um := 100\<rparr>"

text \<open>The serial port the hub talks through, a device of the core that is not the adapter's.\<close>

definition example_port :: "int device" where
  "example_port = example_device\<lparr>dev_type := OtherDevice, dev_name := ''COM1'',
     dev_busy := False, dev_timeout := 0, dev_properties := []\<rparr>"

text \<open>
  The hub with its port and with both devices busy since time 0 with a timeout of
  200 ms, a clock that reads \<open>now\<close> every time, and the reads \<open>rx\<close> to come.
\<close>

definition example_hub :: "int \<Rightarrow> (int \<times> string) list \<Rightarrow> (int, int) hub" where
  "example_hub now rx = \<lparr>deviceDescriptionList = example_registry,
     devices = [''Shutter1'' \<mapsto> example_device, ''Stage1'' \<mapsto> example_stage,
                ''COM1'' \<mapsto> example_port],
     hub_error = 0, error_description = ''none'', property_changes = [], callback_ret = 0,
     serial_in = rx, serial_out = (\<lambda>n. 0), serial_sent = [],
     clock = (\<lambda>n. now), clock_reads = 0, lastPortCheck = 0, svc_temp = []\<rparr>"

text \<open>The hub before discovery: no description, no device.\<close>

definition empty_hub :: "(int \<times> string) list \<Rightarrow> (int, int) hub" where
  "empty_hub rx = (example_hub 0 rx)\<lparr>deviceDescriptionList := [], devices := Map.empty\<rparr>"

lemmas example_defs =
  example_platform_def example_words_def example_errors_def example_mm_def example_pd_def
  example_speed_def example_gain_def example_position_def example_registry_def
  example_device_def example_stage_def example_port_def example_hub_def empty_hub_def

section \<open>Frame Codec: splitting and joining\<close>

text \<open>
  The encoding in the spec's words: the fields joined with the separator.  The source
  has no function of its own for it; \<open>MakeAndSendOutputCommand\<close> joins the values of a
  command with \<open>sepWithin\<close> in a loop (\<open>output_values_loop\<close>, compared with \<open>join_spec\<close>
  in \<open>output_values_loop_butlast\<close> and \<open>join_spec_butlast\<close>).
\<close>

fun join_spec :: "string list \<Rightarrow> char \<Rightarrow> string" where
  "join_spec [] sep = []"
| "join_spec [f] sep = f"
| "join_spec (f # g # fs) sep = f @ sep # join_spec (g # fs) sep"

lemma find_char_none: "sep \<notin> set (drop pos line) \<Longrightarrow> find_char line sep pos = None"
proof (induction line sep pos rule: find_char.induct)
  case (1 line sep pos)
  show ?case
  proof (cases "length line \<le> pos")
    case True
    then show ?thesis by (simp add: find_char.simps)
  next
    case False
    then have d: "drop pos line = line ! pos # drop (Suc pos) line"
      by (simp add: Cons_nth_drop_Suc)
    with "1.prems" have ne: "line ! pos \<noteq> sep" and rest: "sep \<notin> set (drop (Suc pos) line)"
      by auto
    from "1.IH" [OF False ne rest] False ne show ?thesis
      by (subst find_char.simps) simp
  qed
qed

lemma find_char_first:
  "sep \<notin> set w \<Longrightarrow>
   find_char (pre @ w @ sep # rest) sep (length pre) = Some (length pre + length w)"
proof (induction w arbitrary: pre)
  case Nil
  show ?case by (subst find_char.simps) simp
next
  case (Cons c w)
  then have ne: "c \<noteq> sep" and w: "sep \<notin> set w" by auto
  have "find_char ((pre @ [c]) @ w @ sep # rest) sep (length (pre @ [c])) =
        Some (length (pre @ [c]) + length w)"
    by (rule Cons.IH [OF w])
  then show ?case using ne
    by (subst find_char.simps) (simp add: nth_append)
qed

lemma split_loop_join:
  "ws \<noteq> [] \<Longrightarrow> sep \<notin> set w \<Longrightarrow> (\<forall>f \<in> set ws. sep \<notin> set f) \<Longrightarrow>
   split_loop (pre @ w @ sep # join_spec ws sep) sep (length pre) (length pre + length w) acc
     = acc @ w # ws"
proof (induction ws sep arbitrary: pre w acc rule: join_spec.induct)
  case (1 sep)
  then show ?case by simp
next
  case (2 f sep)
  have "find_char (pre @ w @ sep # f) sep (Suc (length pre + length w)) = None"
    using 2 by (intro find_char_none) simp
  then show ?case
    by (subst split_loop.simps) (simp add: substr_def)
next
  case (3 f g fs sep)
  have fnd: "find_char ((pre @ w @ [sep]) @ f @ sep # join_spec (g # fs) sep) sep
               (length (pre @ w @ [sep])) = Some (length (pre @ w @ [sep]) + length f)"
    using 3 by (intro find_char_first) simp
  have ih: "split_loop ((pre @ w @ [sep]) @ f @ sep # join_spec (g # fs) sep) sep
              (length (pre @ w @ [sep])) (length (pre @ w @ [sep]) + length f) (acc @ [w])
            = (acc @ [w]) @ f # g # fs"
    using 3 by (intro "3.IH") auto
  show ?case using fnd ih
    by (subst split_loop.simps) (simp add: substr_def)
qed

lemma split_join:
  "flds \<noteq> [] \<Longrightarrow> (\<forall>f \<in> set flds. sep \<notin> set f) \<Longrightarrow>
   SplitStringIntoWords (join_spec flds sep) sep = flds"
proof (induction flds sep rule: join_spec.induct)
  case (1 sep)
  then show ?case by simp
next
  case (2 f sep)
  then have "find_char f sep 0 = None" by (intro find_char_none) simp
  then show ?case by (simp add: SplitStringIntoWords_def)
next
  case (3 f g fs sep)
  have fnd: "find_char ([] @ f @ sep # join_spec (g # fs) sep) sep (length ([]::string))
               = Some (length ([]::string) + length f)"
    using 3 by (intro find_char_first) simp
  have lp: "split_loop ([] @ f @ sep # join_spec (g # fs) sep) sep (length ([]::string))
              (length ([]::string) + length f) [] = [] @ f # g # fs"
    using 3 by (intro split_loop_join) auto
  show ?case using fnd lp by (simp add: SplitStringIntoWords_def)
qed

lemma split_no_sep: "sep \<notin> set line \<Longrightarrow> SplitStringIntoWords line sep = [line]"
  by (simp add: SplitStringIntoWords_def find_char_none)

lemma split_loop_not_Nil: "split_loop line sep start pos2 acc \<noteq> []"
  by (induction line sep start pos2 acc rule: split_loop.induct)
     (subst split_loop.simps, simp add: Let_def split: option.splits)

lemma Split_not_Nil: "SplitStringIntoWords line sep \<noteq> []"
  by (simp add: SplitStringIntoWords_def split_loop_not_Nil split: option.splits)

lemma Split_empty: "SplitStringIntoWords [] sep = [[]]"
  by (simp add: SplitStringIntoWords_def find_char.simps)

text \<open>
  Claim C5 (Frame Codec round-trip), as the code has it.  For every non-empty sequence
  of fields none of which contains the separator, splitting the join of the fields on
  the separator returns the fields; a line without the separator splits into the one
  field that is the whole line; and empty fields at the start and at the end are kept.
  The sequence must not be empty: see \<open>C5_empty_sequence_counterexample\<close>.
\<close>

theorem C5_split_join_roundtrip:
  "(flds \<noteq> [] \<and> (\<forall>f \<in> set flds. sep \<notin> set f)
      \<longrightarrow> SplitStringIntoWords (join_spec flds sep) sep = flds)
   \<and> (sep \<notin> set line \<longrightarrow> SplitStringIntoWords line sep = [line])
   \<and> (sep \<notin> set w \<longrightarrow> SplitStringIntoWords (sep # w @ [sep]) sep = [[], w, []])"
proof (intro conjI impI)
  assume "flds \<noteq> [] \<and> (\<forall>f \<in> set flds. sep \<notin> set f)"
  then show "SplitStringIntoWords (join_spec flds sep) sep = flds"
    by (simp add: split_join)
next
  assume "sep \<notin> set line"
  then show "SplitStringIntoWords line sep = [line]" by (rule split_no_sep)
next
  assume "sep \<notin> set w"
  then have "SplitStringIntoWords (join_spec [[], w, []] sep) sep = [[], w, []]"
    by (intro split_join) auto
  then show "SplitStringIntoWords (sep # w @ [sep]) sep = [[], w, []]" by simp
qed

theorem C5_split_join_roundtrip_witness:
  "SplitStringIntoWords (join_spec [''Shutter1'', ''O'', [], ''1''] (CHR '','')) (CHR '','')
     = [''Shutter1'', ''O'', [], ''1'']
   \<and> SplitStringIntoWords ''list-end'' (CHR '','') = [''list-end'']
   \<and> SplitStringIntoWords '',ab,'' (CHR '','') = [[], ''ab'', []]"
  using C5_split_join_roundtrip [of "[''Shutter1'', ''O'', [], ''1'']" "CHR '',''" "''list-end''" "''ab''"]
  by simp

text \<open>
  The claim as stated, for all sequences, fails for the empty one: its join is the
  empty line, and the empty line splits into one empty field, not into none.
\<close>

theorem C5_empty_sequence_counterexample:
  "\<not> (\<forall>flds sep. (\<forall>f \<in> set flds. sep \<notin> set f)
         \<longrightarrow> SplitStringIntoWords (join_spec flds sep) sep = flds)"
proof
  assume "\<forall>flds sep. (\<forall>f \<in> set flds. sep \<notin> set f)
            \<longrightarrow> SplitStringIntoWords (join_spec flds sep) sep = flds"
  then have "(\<forall>f \<in> set ([] :: string list). CHR '','' \<notin> set f)
      \<longrightarrow> SplitStringIntoWords (join_spec [] (CHR '','')) (CHR '','') = []"
    by blast
  then show False by (simp add: Split_empty)
qed

section \<open>Outbound commands\<close>

lemma size_minus_1_nonempty:
  "vals \<noteq> [] \<Longrightarrow> length vals < 2 ^ 64 \<Longrightarrow> size_minus_1 vals = length vals - 1"
proof -
  assume ne: "vals \<noteq> []" and lt: "length vals < 2 ^ 64"
  have u: "unat (word_of_nat (length vals) :: 64 word) = length vals"
    using lt by (simp add: unsigned_of_nat take_bit_nat_eq_self)
  then have "(word_of_nat (length vals) :: 64 word) \<noteq> 0"
    using ne by (metis length_0_conv unat_0)
  then show ?thesis
    unfolding size_minus_1_def by (simp add: unat_minus_one u)
qed

lemma size_minus_1_empty: "size_minus_1 [] = 2 ^ 64 - 1"
  by (simp add: size_minus_1_def unsigned_minus_1_eq_mask mask_eq_exp_minus_1)

lemma output_values_loop_butlast:
  "ii \<le> length vals - 1 \<Longrightarrow>
   output_values_loop W vals (length vals - 1) ii ss =
     Inr (ss @ concat (map (\<lambda>v. v @ [sepWithin W]) (drop ii (butlast vals))))"
proof (induction W vals "length vals - 1" ii ss rule: output_values_loop.induct)
  case (1 W vals ii ss)
  show ?case
  proof (cases "ii < length vals - 1")
    case True
    then have lt: "ii < length vals" by simp
    have d: "drop ii (butlast vals) = vals ! ii # drop (Suc ii) (butlast vals)"
      using True by (simp add: Cons_nth_drop_Suc [symmetric] nth_butlast)
    from True lt "1.hyps" [OF True lt] show ?thesis
      by (subst output_values_loop.simps) (simp add: d)
  next
    case False
    with "1.prems" have "ii = length vals - 1" by simp
    then show ?thesis by (subst output_values_loop.simps) simp
  qed
qed

lemma join_spec_butlast:
  "vals \<noteq> [] \<Longrightarrow>
   join_spec vals sep = concat (map (\<lambda>v. v @ [sep]) (butlast vals)) @ last vals"
  by (induction vals sep rule: join_spec.induct) auto

lemma MakeAndSendOutputCommand_nonempty:
  assumes "vals \<noteq> []" "length vals < 2 ^ 64"
  shows "MakeAndSendOutputCommand P s devicename command_token vals =
     Inr (SendCommand s (devicename @ [sepOut (words P)] @ command_token @ [sepOut (words P)]
            @ join_spec vals (sepWithin (words P)) @ [sepEnd (words P)]))"
proof -
  have b: "size_minus_1 vals = length vals - 1"
    using assms by (rule size_minus_1_nonempty)
  have l: "at vals (length vals - 1) = Inr (last vals)"
    using assms(1) by (simp add: at_def last_conv_nth)
  have lp: "output_values_loop (words P) vals (length vals - 1) 0 ss =
      Inr (ss @ concat (map (\<lambda>v. v @ [sepWithin (words P)]) (butlast vals)))" for ss
    using output_values_loop_butlast [of 0 vals "words P" ss] by simp
  show ?thesis
    unfolding MakeAndSendOutputCommand_def b Let_def lp l
    by (simp add: and_then_def join_spec_butlast [OF assms(1)])
qed

lemma MakeAndSendOutputCommand_empty:
  "MakeAndSendOutputCommand P s devicename command_token [] = Inl OutOfRange"
  unfolding MakeAndSendOutputCommand_def size_minus_1_empty
  by (subst output_values_loop.simps) (simp add: and_then_def)

text \<open>
  Claim C10 (implicit precondition of outbound command formatting).  For a non-empty
  list of values (shorter than \<open>2^64\<close>, as every vector is) \<open>MakeAndSendOutputCommand\<close>
  sends exactly \<open>devicename sepOut command sepOut value1 sepWithin ... valueN sepEnd\<close>.
  For the empty list the loop bound \<open>values.size() - 1\<close> wraps to \<open>2^64 - 1\<close> and the
  first access \<open>values.at(0)\<close> is out of range: the call throws and sends nothing.  So
  the call returns if and only if the list is not empty.
\<close>

theorem C10_output_command_needs_a_value:
  "(vals \<noteq> [] \<and> length vals < 2 ^ 64 \<longrightarrow>
      MakeAndSendOutputCommand P s devicename command_token vals =
        Inr (SendCommand s (devicename @ [sepOut (words P)] @ command_token @ [sepOut (words P)]
               @ join_spec vals (sepWithin (words P)) @ [sepEnd (words P)])))
   \<and> size_minus_1 ([] :: string list) = 2 ^ 64 - 1
   \<and> at ([] :: string list) 0 = Inl OutOfRange
   \<and> MakeAndSendOutputCommand P s devicename command_token [] = Inl OutOfRange
   \<and> (length vals < 2 ^ 64 \<longrightarrow>
        ((\<exists>r. MakeAndSendOutputCommand P s devicename command_token vals = Inr r)
           \<longleftrightarrow> vals \<noteq> []))"
proof (intro conjI impI)
  assume "vals \<noteq> [] \<and> length vals < 2 ^ 64"
  then show "MakeAndSendOutputCommand P s devicename command_token vals =
        Inr (SendCommand s (devicename @ [sepOut (words P)] @ command_token @ [sepOut (words P)]
               @ join_spec vals (sepWithin (words P)) @ [sepEnd (words P)]))"
    by (simp add: MakeAndSendOutputCommand_nonempty)
next
  show "size_minus_1 ([] :: string list) = 2 ^ 64 - 1" by (rule size_minus_1_empty)
next
  show "at ([] :: string list) 0 = Inl OutOfRange" by (simp add: at_def)
next
  show "MakeAndSendOutputCommand P s devicename command_token [] = Inl OutOfRange"
    by (rule MakeAndSendOutputCommand_empty)
next
  assume lt: "length vals < 2 ^ 64"
  show "(\<exists>r. MakeAndSendOutputCommand P s devicename command_token vals = Inr r)
          \<longleftrightarrow> vals \<noteq> []"
  proof (cases "vals = []")
    case True
    then show ?thesis by (simp add: MakeAndSendOutputCommand_empty)
  next
    case False
    then show ?thesis using lt by (simp add: MakeAndSendOutputCommand_nonempty)
  qed
qed

theorem C10_output_command_needs_a_value_witness:
  "MakeAndSendOutputCommand example_platform (example_hub 0 []) ''Shutter1'' ''O'' [''1'', ''2'']
     = Inr (SendCommand (example_hub 0 []) (''Shutter1:O:1;2'' @ [CHR 0x0A]))
   \<and> (\<exists>r. MakeAndSendOutputCommand example_platform (example_hub 0 []) ''Shutter1'' ''O''
              [''1'', ''2''] = Inr r)
   \<and> MakeAndSendOutputCommand example_platform (example_hub 0 []) ''Shutter1'' ''O'' []
     = Inl OutOfRange"
  using C10_output_command_needs_a_value [where vals = "[''1'', ''2'']"
      and P = example_platform and s = "example_hub 0 []" and devicename = "''Shutter1''"
      and command_token = "''O''"]
  by (simp add: example_platform_def example_words_def)

section \<open>Schema Builder: what it produces\<close>

text \<open>
  Claim C6 (kind derivation), at the setup line \<open>Name,Generic1\<close>.  The name matches
  the fifth kind tag, \<open>Generic\<close>, and the description stays valid, but its type is not
  the tag: it is the single byte 8, the number of the enumerator \<open>MM::GenericDevice\<close>
  that the source assigns to the string.  (\<open>InitializeModuleData\<close> registers a generic
  device only when the type equals \<open>Generic\<close>.)
\<close>

theorem C6_generic_type_is_not_the_tag:
  "VectorstrToDeviceDescription example_platform [''Name,Generic1''] =
     Inr \<lparr>dd_name = ''Generic1'', dd_type = [CHR 0x08], dd_description = [], dd_timeout = 0,
          isValid = True, reasonWhyInvalid = [], methods = [], properties = []\<rparr>"
  by code_simp

text \<open>
  Claim C1 (Schema Builder totality), at the stream that holds no setup line: the
  firmware answers \<open>list-end\<close> at once.  No line has \<open>Name\<close> as its first field, and yet
  one description is appended: the empty one, marked valid.
\<close>

theorem C1_empty_stream_appends_a_description:
  "map_sum id (\<lambda>(ret, s). (ret, deviceDescriptionList s))
     (PopulateDeviceDescriptionList example_platform (empty_hub [(0, ''list-end'')])) =
   Inr (0, [\<lparr>dd_name = [], dd_type = [], dd_description = [], dd_timeout = 0,
             isValid = True, reasonWhyInvalid = [], methods = [], properties = []\<rparr>])"
  by code_simp

subsection \<open>Bounds of the properties\<close>

lemma and_then_Inr_iff:
  "and_then m f = Inr y \<longleftrightarrow> (\<exists>x. m = Inr x \<and> f x = Inr y)"
  by (cases m) (auto simp: and_then_def)

text \<open>
  The invariant of claim C9 on a description: a property that is not read-only has
  allowed values if it is a string, and a lower limit that is not above its upper limit
  if it is a number.
\<close>

definition bounds_invariant :: "('d, 'f) platform \<Rightarrow> 'f mmdevicedescription \<Rightarrow> bool" where
  "bounds_invariant P d =
     list_all (\<lambda>p. isReadOnly p \<or>
        (case pd_type p of
           String \<Rightarrow> allowedValues p \<noteq> []
         | Integer \<Rightarrow> lowerLimitInteger p \<le> upperLimitInteger p
         | Float \<Rightarrow> \<not> float_less P (upperLimitFloat p) (lowerLimitFloat p)
         | Undef \<Rightarrow> True))
       (properties d)"

text \<open>
  What the builder does guarantee.  \<open>limit_words P s li\<close> are the words, separated by
  \<open>sepWithin\<close>, of field \<open>li\<close> of the setup line \<open>s\<close>.  A property \<open>p\<close> is built from the
  setup line \<open>s\<close> when the line has five fields (seven for an action property), its
  second field is the name of \<open>p\<close>, and, unless \<open>p\<close> is read-only, its last field (field
  4, or 6 for an action property) holds the allowed values of a string property, or
  exactly two words that \<open>stoi\<close> or \<open>stof\<close> reads as the lower and the upper limit, in
  this order, of an integer or a float property.
\<close>

definition limit_words :: "('d, 'f) platform \<Rightarrow> string \<Rightarrow> nat \<Rightarrow> string list" where
  "limit_words P s li =
     SplitStringIntoWords (SplitStringIntoWords s (sepSetup (words P)) ! li) (sepWithin (words P))"

definition limits_field :: "'f mmpropertydescription \<Rightarrow> nat" where
  "limits_field p = (if isAction p then 6 else 4)"

definition integer_from :: "('d, 'f) platform \<Rightarrow> string \<Rightarrow> 'f mmpropertydescription \<Rightarrow> bool" where
  "integer_from P s p =
     (length (limit_words P s (limits_field p)) = 2
      \<and> stoi (limit_words P s (limits_field p) ! 0) = Inr (lowerLimitInteger p)
      \<and> stoi (limit_words P s (limits_field p) ! 1) = Inr (upperLimitInteger p))"

definition float_from :: "('d, 'f) platform \<Rightarrow> string \<Rightarrow> 'f mmpropertydescription \<Rightarrow> bool" where
  "float_from P s p =
     (length (limit_words P s (limits_field p)) = 2
      \<and> stof P (limit_words P s (limits_field p) ! 0) = Inr (lowerLimitFloat p)
      \<and> stof P (limit_words P s (limits_field p) ! 1) = Inr (upperLimitFloat p))"

definition built_from :: "('d, 'f) platform \<Rightarrow> string \<Rightarrow> 'f mmpropertydescription \<Rightarrow> bool" where
  "built_from P s p =
     (length (SplitStringIntoWords s (sepSetup (words P))) = limits_field p + 1
      \<and> pd_name p = SplitStringIntoWords s (sepSetup (words P)) ! 1
      \<and> (isReadOnly p
          \<or> (pd_type p = String \<and> allowedValues p = limit_words P s (limits_field p)
              \<and> allowedValues p \<noteq> [])
          \<or> (pd_type p = Integer \<and> integer_from P s p)
          \<or> (pd_type p = Float \<and> float_from P s p)))"

text \<open>
  The properties \<open>ps\<close> are built from the setup lines \<open>vs\<close>, one line each: there are
  lines of \<open>vs\<close>, as many as properties and in the order of \<open>vs\<close>, such that the first
  property is built from the first of them, the second from the second, and so on.
\<close>

definition built_from_lines ::
  "('d, 'f) platform \<Rightarrow> string list \<Rightarrow> 'f mmpropertydescription list \<Rightarrow> bool" where
  "built_from_lines P vs ps = (\<exists>src. subseq src vs \<and> list_all2 (built_from P) src ps)"

text \<open>What the typed branches keep of the property they are given, and what they set.\<close>

definition same_head :: "'f mmpropertydescription \<Rightarrow> 'f mmpropertydescription \<Rightarrow> bool" where
  "same_head p pd = (pd_name p = pd_name pd \<and> isAction p = isAction pd)"

lemma string_property_cases:
  assumes "string_property P s wds li msg devdescr pd = Inr (Property p)"
  shows "same_head p pd \<and>
     (isReadOnly p \<or>
      (pd_type p = String \<and> allowedValues p = SplitStringIntoWords (wds ! li) (sepWithin (words P))
       \<and> allowedValues p \<noteq> []))"
  using assms unfolding string_property_def and_then_def Let_def at_def same_head_def
  by (auto split: sum.splits if_splits simp: Split_not_Nil)

lemma integer_property_cases:
  assumes "integer_property P s wds li devdescr pd = Inr (Property p)"
  shows "same_head p pd \<and>
     (isReadOnly p \<or>
      (pd_type p = Integer \<and>
       length (SplitStringIntoWords (wds ! li) (sepWithin (words P))) = 2 \<and>
       stoi (SplitStringIntoWords (wds ! li) (sepWithin (words P)) ! 0) = Inr (lowerLimitInteger p) \<and>
       stoi (SplitStringIntoWords (wds ! li) (sepWithin (words P)) ! 1) = Inr (upperLimitInteger p)))"
  using assms unfolding integer_property_def and_then_def Let_def at_def same_head_def
  by (auto split: sum.splits if_splits)

lemma float_property_cases:
  assumes "float_property P s wds li devdescr pd = Inr (Property p)"
  shows "same_head p pd \<and>
     (isReadOnly p \<or>
      (pd_type p = Float \<and>
       length (SplitStringIntoWords (wds ! li) (sepWithin (words P))) = 2 \<and>
       stof P (SplitStringIntoWords (wds ! li) (sepWithin (words P)) ! 0) = Inr (lowerLimitFloat p) \<and>
       stof P (SplitStringIntoWords (wds ! li) (sepWithin (words P)) ! 1) = Inr (upperLimitFloat p)))"
  using assms unfolding float_property_def and_then_def Let_def at_def same_head_def
  by (auto split: sum.splits if_splits)

text \<open>A typed branch called on the words of \<open>s\<close> with the field index of its kind.\<close>

lemma typed_branch_built:
  assumes "string_property P s (SplitStringIntoWords s (sepSetup (words P))) li msg devdescr pd
             = Inr (Property p)
     \<or> float_property P s (SplitStringIntoWords s (sepSetup (words P))) li devdescr pd
          = Inr (Property p)
     \<or> integer_property P s (SplitStringIntoWords s (sepSetup (words P))) li devdescr pd
          = Inr (Property p)"
    and "length (SplitStringIntoWords s (sepSetup (words P))) = li + 1"
    and "pd_name pd = SplitStringIntoWords s (sepSetup (words P)) ! 1"
    and "li = (if isAction pd then 6 else 4)"
  shows "built_from P s p"
  using assms(1)
proof (elim disjE)
  assume "string_property P s (SplitStringIntoWords s (sepSetup (words P))) li msg devdescr pd
             = Inr (Property p)"
  from string_property_cases [OF this] assms(2,3,4) show ?thesis
    by (auto simp: built_from_def limits_field_def limit_words_def same_head_def)
next
  assume "float_property P s (SplitStringIntoWords s (sepSetup (words P))) li devdescr pd
             = Inr (Property p)"
  from float_property_cases [OF this] assms(2,3,4) show ?thesis
    by (auto simp: built_from_def float_from_def limits_field_def limit_words_def same_head_def)
next
  assume "integer_property P s (SplitStringIntoWords s (sepSetup (words P))) li devdescr pd
             = Inr (Property p)"
  from integer_property_cases [OF this] assms(2,3,4) show ?thesis
    by (auto simp: built_from_def integer_from_def limits_field_def limit_words_def same_head_def)
qed

lemma plain_property_line_ok:
  assumes "plain_property_line P s (SplitStringIntoWords s (sepSetup (words P))) devdescr
             = Inr (Property p)"
  shows "built_from P s p"
proof -
  define wds where "wds = SplitStringIntoWords s (sepSetup (words P))"
  define pd where "pd = (pd_fresh P)\<lparr>pd_name := [], valueString := [], cmdAction := [],
      allowedValues := []\<rparr>\<lparr>isAction := False, pd_name := wds ! 1\<rparr>"
  from assms have len: "length wds = 4 + 1"
    unfolding plain_property_line_def wds_def by (auto split: if_splits)
  then have w: "at wds 1 = Inr (wds ! 1)" "at wds 0 = Inr (wds ! 0)"
    by (simp_all add: at_def)
  from assms have br:
    "string_property P s wds 4 ''Unable to determine read-only status: '' devdescr pd
        = Inr (Property p)
     \<or> float_property P s wds 4 devdescr pd = Inr (Property p)
     \<or> integer_property P s wds 4 devdescr pd = Inr (Property p)"
    unfolding plain_property_line_def wds_def [symmetric] Let_def w
    using len by (auto simp: pd_def split: if_splits)
  have "pd_name pd = wds ! 1" "(4::nat) = (if isAction pd then 6 else 4)"
    by (simp_all add: pd_def)
  with br len show ?thesis
    unfolding wds_def by (intro typed_branch_built)
qed

lemma action_property_line_ok:
  assumes "action_property_line P s (SplitStringIntoWords s (sepSetup (words P))) devdescr
             = Inr (Property p)"
  shows "built_from P s p"
proof -
  define wds where "wds = SplitStringIntoWords s (sepSetup (words P))"
  define pd0 where "pd0 = (pd_fresh P)\<lparr>pd_name := [], valueString := [], cmdAction := [],
      allowedValues := []\<rparr>\<lparr>isAction := True, pd_name := wds ! 1, cmdAction := wds ! 4\<rparr>"
  define pd where "pd = (if c_str (wds ! 5) = wtrue (words P) then pd0\<lparr>isPreini := True\<rparr>
      else if c_str (wds ! 5) = wfalse (words P) then pd0\<lparr>isPreini := False\<rparr> else pd0)"
  from assms have len: "length wds = 6 + 1"
    unfolding action_property_line_def wds_def by (auto split: if_splits)
  then have w: "at wds 1 = Inr (wds ! 1)" "at wds 0 = Inr (wds ! 0)"
      "at wds 4 = Inr (wds ! 4)" "at wds 5 = Inr (wds ! 5)"
    by (simp_all add: at_def)
  from assms have br:
    "string_property P s wds 6 ''Unable to determine read-only status '' devdescr pd
        = Inr (Property p)
     \<or> float_property P s wds 6 devdescr pd = Inr (Property p)
     \<or> integer_property P s wds 6 devdescr pd = Inr (Property p)"
    unfolding action_property_line_def wds_def [symmetric] Let_def w
    using len by (auto simp: pd_def pd0_def split: if_splits)
  have "pd_name pd = wds ! 1" "(6::nat) = (if isAction pd then 6 else 4)"
    by (simp_all add: pd_def pd0_def)
  with br len show ?thesis
    unfolding wds_def by (intro typed_branch_built)
qed

text \<open>A line that marks the description invalid leaves its properties and methods alone.\<close>

lemma string_property_Invalid:
  "string_property P s wds li msg devdescr pd = Inr (Invalid d) \<Longrightarrow> d = invalidate devdescr msg s"
  unfolding string_property_def and_then_def Let_def
  by (auto split: sum.splits if_splits)

lemma float_property_Invalid:
  "float_property P s wds li devdescr pd = Inr (Invalid d) \<Longrightarrow> \<exists>msg. msg \<noteq> [] \<and> d = invalidate devdescr msg s"
  unfolding float_property_def and_then_def Let_def
  by (auto split: sum.splits if_splits)

lemma integer_property_Invalid:
  "integer_property P s wds li devdescr pd = Inr (Invalid d) \<Longrightarrow> \<exists>msg. msg \<noteq> [] \<and> d = invalidate devdescr msg s"
  unfolding integer_property_def and_then_def Let_def
  by (auto split: sum.splits if_splits)

lemma plain_property_line_Invalid:
  "plain_property_line P s wds devdescr = Inr (Invalid d) \<Longrightarrow>
   \<exists>msg. msg \<noteq> [] \<and> d = invalidate devdescr msg s"
  unfolding plain_property_line_def and_then_def Let_def
  by (auto split: sum.splits if_splits
           dest: string_property_Invalid float_property_Invalid integer_property_Invalid)

lemma action_property_line_Invalid:
  "action_property_line P s wds devdescr = Inr (Invalid d) \<Longrightarrow>
   \<exists>msg. msg \<noteq> [] \<and> d = invalidate devdescr msg s"
  unfolding action_property_line_def and_then_def Let_def
  by (auto split: sum.splits if_splits
           dest: string_property_Invalid float_property_Invalid integer_property_Invalid)

text \<open>The description a round of the loop ends with.\<close>

definition step_descr :: "'f step \<Rightarrow> 'f mmdevicedescription" where
  "step_descr r = (case r of Continue d \<Rightarrow> d | Break d \<Rightarrow> d)"

lemma name_line_cases:
  "name_line P s wds devdescr = Inr r \<Longrightarrow>
   (\<exists>d. r = Continue d \<and> properties d = properties devdescr \<and> isValid d = isValid devdescr
        \<and> reasonWhyInvalid d = reasonWhyInvalid devdescr)
   \<or> (\<exists>w1. r = Break (invalidate (devdescr\<lparr>dd_name := w1\<rparr>) ''Unable to determine device type for '' s))"
  unfolding name_line_def and_then_def Let_def
  by (auto split: sum.splits if_splits)


text \<open>
  What one round does to the description: it goes on with validity and reason as they
  were and at most one property more, a property that is fine; or it leaves the loop
  with the description marked invalid and a reason that is not empty.
\<close>

definition continues ::
  "('d, 'f) platform \<Rightarrow> string \<Rightarrow> 'f mmdevicedescription \<Rightarrow> 'f step \<Rightarrow> bool" where
  "continues P s devdescr r =
     (\<exists>d. r = Continue d \<and> isValid d = isValid devdescr
        \<and> reasonWhyInvalid d = reasonWhyInvalid devdescr
        \<and> (properties d = properties devdescr
            \<or> (\<exists>p. properties d = properties devdescr @ [p] \<and> built_from P s p)))"

definition breaks :: "string \<Rightarrow> 'f mmdevicedescription \<Rightarrow> 'f step \<Rightarrow> bool" where
  "breaks s devdescr r =
     (\<exists>d0 msg. r = Break (invalidate d0 msg s) \<and> msg \<noteq> []
        \<and> properties d0 = properties devdescr)"

lemma property_branch_cases:
  assumes "and_then
             (if find_str w0 (act (words P)) = None
              then plain_property_line P s (SplitStringIntoWords s (sepSetup (words P))) devdescr
              else action_property_line P s (SplitStringIntoWords s (sepSetup (words P))) devdescr)
             (\<lambda>r. case r of
                Invalid d \<Rightarrow> Inr (Break d)
              | Property pd \<Rightarrow> Inr (Continue (devdescr\<lparr>properties := properties devdescr @ [pd]\<rparr>)))
           = Inr r"
  shows "continues P s devdescr r \<or> breaks s devdescr r"
proof (cases "if find_str w0 (act (words P)) = None
              then plain_property_line P s (SplitStringIntoWords s (sepSetup (words P))) devdescr
              else action_property_line P s (SplitStringIntoWords s (sepSetup (words P))) devdescr")
  case (Inl e)
  with assms show ?thesis by (simp add: and_then_def)
next
  case (Inr x)
  show ?thesis
  proof (cases x)
    case (Property pd)
    have "built_from P s pd"
      using Inr unfolding Property
      by (auto split: if_splits intro: plain_property_line_ok action_property_line_ok)
    moreover from assms Inr Property
    have "r = Continue (devdescr\<lparr>properties := properties devdescr @ [pd]\<rparr>)"
      by (simp add: and_then_def)
    ultimately show ?thesis by (auto simp: continues_def)
  next
    case (Invalid d)
    with Inr have "\<exists>msg. msg \<noteq> [] \<and> d = invalidate devdescr msg s"
      by (auto split: if_splits
               dest: plain_property_line_Invalid action_property_line_Invalid)
    moreover from assms Inr Invalid have "r = Break d" by (simp add: and_then_def)
    ultimately show ?thesis by (auto simp: breaks_def)
  qed
qed

lemma keyed_line_cases:
  assumes "keyed_line P s (SplitStringIntoWords s (sepSetup (words P))) devdescr = Inr r"
    and "\<not> length (SplitStringIntoWords s (sepSetup (words P))) < 2"
  shows "continues P s devdescr r \<or> breaks s devdescr r"
proof -
  define wds where "wds = SplitStringIntoWords s (sepSetup (words P))"
  have len: "0 < length wds" "1 < length wds"
    using assms(2) unfolding wds_def by linarith+
  have w0: "at wds 0 = Inr (wds ! 0)" and w1: "at wds (Suc 0) = Inr (wds ! Suc 0)"
    unfolding at_def using len by (simp_all del: length_greater_0_conv)
  have kl: "keyed_line P s wds devdescr = Inr r"
    using assms(1) by (simp add: wds_def)
  consider
      (name) "c_str (wds ! 0) = g_Keyword_Name (mm P)"
    | (descr) "c_str (wds ! 0) \<noteq> g_Keyword_Name (mm P)"
        "c_str (wds ! 0) = g_Keyword_Description (mm P)"
    | (tmo) "c_str (wds ! 0) \<noteq> g_Keyword_Name (mm P)"
        "c_str (wds ! 0) \<noteq> g_Keyword_Description (mm P)"
        "c_str (wds ! 0) = timeout (words P)"
    | (command) "c_str (wds ! 0) \<noteq> g_Keyword_Name (mm P)"
        "c_str (wds ! 0) \<noteq> g_Keyword_Description (mm P)"
        "c_str (wds ! 0) \<noteq> timeout (words P)" "c_str (wds ! 0) = cmd (words P)"
    | (property) "c_str (wds ! 0) \<noteq> g_Keyword_Name (mm P)"
        "c_str (wds ! 0) \<noteq> g_Keyword_Description (mm P)"
        "c_str (wds ! 0) \<noteq> timeout (words P)" "c_str (wds ! 0) \<noteq> cmd (words P)"
        "find_str (wds ! 0) (prop_prefix (words P)) = Some 0"
    | (other) "c_str (wds ! 0) \<noteq> g_Keyword_Name (mm P)"
        "c_str (wds ! 0) \<noteq> g_Keyword_Description (mm P)"
        "c_str (wds ! 0) \<noteq> timeout (words P)" "c_str (wds ! 0) \<noteq> cmd (words P)"
        "find_str (wds ! 0) (prop_prefix (words P)) \<noteq> Some 0"
    by blast
  then show ?thesis
  proof cases
    case name
    with kl have "name_line P s wds devdescr = Inr r"
      by (simp add: keyed_line_def w0 and_then_def)
    from name_line_cases [OF this] show ?thesis
      unfolding continues_def breaks_def by fastforce
  next
    case descr
    with kl show ?thesis by (auto simp: keyed_line_def w0 w1 and_then_def continues_def)
  next
    case tmo
    with kl show ?thesis by (auto simp: keyed_line_def w0 w1 and_then_def continues_def)
  next
    case command
    with kl show ?thesis
      by (auto simp: keyed_line_def w0 w1 and_then_def continues_def split: sum.splits)
  next
    case property
    with kl have
      "and_then
         (if find_str (wds ! 0) (act (words P)) = None
          then plain_property_line P s wds devdescr
          else action_property_line P s wds devdescr)
         (\<lambda>r. case r of
            Invalid d \<Rightarrow> Inr (Break d)
          | Property pd \<Rightarrow> Inr (Continue (devdescr\<lparr>properties := properties devdescr @ [pd]\<rparr>)))
       = Inr r"
      by (simp add: keyed_line_def w0)
    then show ?thesis unfolding wds_def by (rule property_branch_cases)
  next
    case other
    with kl show ?thesis by (auto simp: keyed_line_def w0 and_then_def continues_def)
  qed
qed

lemma setup_line_cases:
  assumes "setup_line P s devdescr = Inr r"
  shows "continues P s devdescr r \<or> breaks s devdescr r"
proof (cases "length (SplitStringIntoWords s (sepSetup (words P))) < 2")
  case True
  with assms have "r = Break (invalidate devdescr ''Invalid string: '' s)"
    by (simp add: setup_line_def Let_def)
  then show ?thesis unfolding breaks_def by blast
next
  case False
  with assms have "keyed_line P s (SplitStringIntoWords s (sepSetup (words P))) devdescr = Inr r"
    by (simp add: setup_line_def Let_def)
  then show ?thesis using False by (rule keyed_line_cases)
qed

lemma vectorstr_loop_invariant:
  assumes "vectorstr_loop P ls d = Inr d'"
    and "isValid d \<or> reasonWhyInvalid d \<noteq> []"
  shows "(\<exists>ps. properties d' = properties d @ ps \<and> built_from_lines P ls ps)
         \<and> (isValid d' \<or> reasonWhyInvalid d' \<noteq> [])"
  using assms
proof (induction ls arbitrary: d)
  case Nil
  then show ?case by (simp add: built_from_lines_def)
next
  case (Cons s ls)
  from Cons.prems(1) obtain r where r: "setup_line P s d = Inr r"
    and rest: "(case r of Break d \<Rightarrow> Inr d | Continue d \<Rightarrow> vectorstr_loop P ls d) = Inr d'"
    by (auto simp: and_then_Inr_iff)
  from setup_line_cases [OF r] show ?case
  proof
    assume "continues P s d r"
    then obtain d1 where d1: "r = Continue d1" "isValid d1 = isValid d"
        "reasonWhyInvalid d1 = reasonWhyInvalid d"
      and pr: "properties d1 = properties d
               \<or> (\<exists>p. properties d1 = properties d @ [p] \<and> built_from P s p)"
      unfolding continues_def by auto
    from rest d1(1) have "vectorstr_loop P ls d1 = Inr d'" by simp
    from Cons.IH [OF this] d1(2,3) Cons.prems(2)
    obtain ps src where ps: "properties d' = properties d1 @ ps" "subseq src ls"
        "list_all2 (built_from P) src ps"
      and v: "isValid d' \<or> reasonWhyInvalid d' \<noteq> []"
      unfolding built_from_lines_def by auto
    from pr show ?thesis
    proof
      assume "properties d1 = properties d"
      with ps have "properties d' = properties d @ ps" "subseq src (s # ls)"
          "list_all2 (built_from P) src ps"
        by (simp_all add: subseq_Cons2_iff list_emb_Cons)
      with v show ?thesis unfolding built_from_lines_def by blast
    next
      assume "\<exists>p. properties d1 = properties d @ [p] \<and> built_from P s p"
      then obtain p where "properties d1 = properties d @ [p]" "built_from P s p" by blast
      with ps have "properties d' = properties d @ (p # ps)" "subseq (s # src) (s # ls)"
          "list_all2 (built_from P) (s # src) (p # ps)"
        by simp_all
      with v show ?thesis unfolding built_from_lines_def by blast
    qed
  next
    assume "breaks s d r"
    then obtain d0 msg where "r = Break (invalidate d0 msg s)" "msg \<noteq> []"
        "properties d0 = properties d"
      unfolding breaks_def by auto
    with rest have "properties d' = properties d @ []" "subseq [] (s # ls)"
        "list_all2 (built_from P) [] []" "isValid d' \<or> reasonWhyInvalid d' \<noteq> []"
      by (auto simp: invalidate_def)
    then show ?thesis unfolding built_from_lines_def by blast
  qed
qed

lemma VectorstrToDeviceDescription_invariant:
  assumes "VectorstrToDeviceDescription P vs = Inr d"
  shows "built_from_lines P vs (properties d) \<and> (isValid d \<or> reasonWhyInvalid d \<noteq> [])"
  using vectorstr_loop_invariant [OF assms [unfolded VectorstrToDeviceDescription_def]]
  by simp

lemma built_from_lines_member:
  assumes "built_from_lines P vs ps" and "p \<in> set ps"
  shows "\<exists>s \<in> set vs. built_from P s p"
proof -
  from assms(1) obtain src where src: "subseq src vs" "list_all2 (built_from P) src ps"
    unfolding built_from_lines_def by blast
  from assms(2) obtain i where i: "i < length ps" "p = ps ! i"
    by (auto simp: in_set_conv_nth)
  with src(2) have "src ! i \<in> set src" "built_from P (src ! i) p"
    by (simp_all add: list_all2_conv_all_nth)
  moreover from src(1) have "x \<in> set vs" if "x \<in> set src" for x
    using that by (auto elim: list_emb_set)
  ultimately show ?thesis by blast
qed


text \<open>
  Claim C9 (descriptor bounds invariant), as the code has it.  In every description
  the Schema Builder produces from the setup lines \<open>vs\<close>, the properties are built from
  lines of \<open>vs\<close>, one line each and in their order (\<open>built_from_lines\<close>).  So each
  property \<open>p\<close> has its own setup line \<open>s\<close>, whose second field is its name, and if \<open>p\<close> is
  not read-only then: a string property has a non-empty list of allowed values; an
  integer or a float property has as its limits the two words of the last field of
  \<open>s\<close>, the first read as the lower and the second as the upper limit.  The builder does
  not compare the two, so the lower limit is at most the upper one only where the line
  has them in that order: see \<open>C9_limits_in_the_wrong_order_counterexample\<close>.
\<close>

theorem C9_bounds_of_built_properties:
  assumes "VectorstrToDeviceDescription P vs = Inr d"
  shows "built_from_lines P vs (properties d)
     \<and> (\<forall>p \<in> set (properties d). \<exists>s \<in> set vs. built_from P s p \<and>
           (\<not> isReadOnly p \<longrightarrow>
              (pd_type p = String \<longrightarrow> allowedValues p \<noteq> [])
              \<and> (pd_type p = Integer \<longrightarrow> integer_from P s p)
              \<and> (pd_type p = Float \<longrightarrow> float_from P s p)))"
proof (intro conjI ballI)
  from VectorstrToDeviceDescription_invariant [OF assms]
  show b: "built_from_lines P vs (properties d)" by simp
  fix p assume "p \<in> set (properties d)"
  from built_from_lines_member [OF b this] obtain s where "s \<in> set vs" "built_from P s p"
    by blast
  then show "\<exists>s \<in> set vs. built_from P s p \<and>
           (\<not> isReadOnly p \<longrightarrow>
              (pd_type p = String \<longrightarrow> allowedValues p \<noteq> [])
              \<and> (pd_type p = Integer \<longrightarrow> integer_from P s p)
              \<and> (pd_type p = Float \<longrightarrow> float_from P s p))"
    by (intro bexI [of _ s]) (auto simp: built_from_def)
qed

text \<open>
  Two properties in one description: each has the limits of its own line, \<open>Speed\<close> 0
  and 10, \<open>Gain\<close> 10 and 1, and neither is built from the line of the other.
\<close>

theorem C9_bounds_of_built_properties_witness:
  "built_from_lines example_platform
     [''Name,Shutter1'', ''PropertyIntegerAct,Speed,5,false,SPD,false,0;10'',
      ''PropertyIntegerAct,Gain,5,false,GN,false,10;1'']
     [example_speed, example_gain]
   \<and> built_from example_platform ''PropertyIntegerAct,Speed,5,false,SPD,false,0;10'' example_speed
   \<and> built_from example_platform ''PropertyIntegerAct,Gain,5,false,GN,false,10;1'' example_gain
   \<and> \<not> built_from example_platform ''PropertyIntegerAct,Gain,5,false,GN,false,10;1'' example_speed
   \<and> \<not> built_from example_platform ''PropertyIntegerAct,Speed,5,false,SPD,false,0;10'' example_gain"
proof -
  have built: "VectorstrToDeviceDescription example_platform
      [''Name,Shutter1'', ''PropertyIntegerAct,Speed,5,false,SPD,false,0;10'',
       ''PropertyIntegerAct,Gain,5,false,GN,false,10;1''] =
    Inr \<lparr>dd_name = ''Shutter1'', dd_type = ''Shutter'', dd_description = [], dd_timeout = 0,
         isValid = True, reasonWhyInvalid = [], methods = [],
         properties = [example_speed, example_gain]\<rparr>"
    by code_simp
  have own: "built_from example_platform
      ''PropertyIntegerAct,Speed,5,false,SPD,false,0;10'' example_speed"
    "built_from example_platform ''PropertyIntegerAct,Gain,5,false,GN,false,10;1'' example_gain"
    by code_simp+
  have cross: "\<not> built_from example_platform
      ''PropertyIntegerAct,Gain,5,false,GN,false,10;1'' example_speed"
    "\<not> built_from example_platform
      ''PropertyIntegerAct,Speed,5,false,SPD,false,0;10'' example_gain"
    by code_simp+
  from C9_bounds_of_built_properties [OF built] own cross show ?thesis by simp
qed

text \<open>
  The setup line \<open>PropertyIntegerAct,Gain,5,false,GN,false,10;1\<close> gives a property that
  is not read-only with the lower limit 10 and the upper limit 1: the invariant as the
  claim states it does not hold of the description built.
\<close>

theorem C9_limits_in_the_wrong_order_counterexample:
  "\<not> (\<forall>vs d. VectorstrToDeviceDescription example_platform vs = Inr d
         \<longrightarrow> bounds_invariant example_platform d)"
proof
  assume all: "\<forall>vs d. VectorstrToDeviceDescription example_platform vs = Inr d
         \<longrightarrow> bounds_invariant example_platform d"
  have built: "VectorstrToDeviceDescription example_platform
      [''Name,Shutter1'', ''PropertyIntegerAct,Gain,5,false,GN,false,10;1''] =
    Inr \<lparr>dd_name = ''Shutter1'', dd_type = ''Shutter'', dd_description = [], dd_timeout = 0,
         isValid = True, reasonWhyInvalid = [], methods = [], properties = [example_gain]\<rparr>"
    by code_simp
  from all built have "bounds_invariant example_platform
     \<lparr>dd_name = ''Shutter1'', dd_type = ''Shutter'', dd_description = [], dd_timeout = 0,
      isValid = True, reasonWhyInvalid = [], methods = [], properties = [example_gain]\<rparr>"
    by blast
  then show False
    by (simp add: bounds_invariant_def example_gain_def example_pd_def)
qed


subsection \<open>How many descriptions are appended\<close>

text \<open>
  For a firmware that answers at least one line, the loop of
  \<open>PopulateDeviceDescriptionList\<close> appends one description for every line whose first
  field is \<open>Name\<close> and that comes after a group that is not empty, and one more after
  the loop; each of them is marked valid or carries a reason.  When the first line is a
  \<open>Name\<close> line this is the number of \<open>Name\<close> lines.  When there is no line at all it
  is one.
\<close>

definition is_name_line :: "('d, 'f) platform \<Rightarrow> string \<Rightarrow> bool" where
  "is_name_line P l = (hd (SplitStringIntoWords l (sepSetup (words P))) = g_Keyword_Name (mm P))"

text \<open>The reads of a firmware that answers the lines and then \<open>device_list_end\<close>.\<close>

definition script :: "('d, 'f) platform \<Rightarrow> string list \<Rightarrow> (int \<times> string) list" where
  "script P lines =
     map (\<lambda>l. (DEVICE_OK (mm P), l)) lines @ [(DEVICE_OK (mm P), device_list_end (words P))]"

text \<open>
  The number of descriptions the loop appends for the lines to come, \<open>filled\<close> telling
  whether the group of lines collected so far is not empty.
\<close>

fun appended :: "('d, 'f) platform \<Rightarrow> bool \<Rightarrow> string list \<Rightarrow> nat" where
  "appended P filled [] = 1"
| "appended P filled (l # ls) = (if is_name_line P l \<and> filled then 1 else 0) + appended P True ls"

lemma appended_filled: "appended P True ls = length (filter (is_name_line P) ls) + 1"
  by (induction ls) simp_all

lemma appended_Name_first:
  "lines \<noteq> [] \<Longrightarrow> is_name_line P (hd lines) \<Longrightarrow>
   appended P False lines = length (filter (is_name_line P) lines)"
  by (cases lines) (simp_all add: appended_filled)

lemma subscript_0: "subscript (SplitStringIntoWords l sep) 0 = Inr (hd (SplitStringIntoWords l sep))"
  using Split_not_Nil [of l sep]
  by (cases "SplitStringIntoWords l sep") (simp_all add: subscript_def)

lemma push_description_result:
  assumes "push_description P s vec = Inr s'"
  shows "\<exists>d. s' = s\<lparr>deviceDescriptionList := deviceDescriptionList s @ [d]\<rparr>
           \<and> (isValid d \<or> reasonWhyInvalid d \<noteq> [])"
  using assms VectorstrToDeviceDescription_invariant [of P vec]
  by (auto simp: push_description_def and_then_Inr_iff)

lemma populate_loop_step:
  assumes w: "\<forall>n. serial_out s n = DEVICE_OK (mm P)"
    and l: "l \<noteq> device_list_end (words P)"
  shows "populate_loop P s ((DEVICE_OK (mm P), l) # reads) vec =
     (if is_name_line P l \<and> vec \<noteq> [] then
        and_then (push_description P (s\<lparr>serial_in := reads\<rparr>) vec) (\<lambda>s1.
          populate_loop P
            (snd (SendCommand s1 (device_list_continue (words P) @ [sepEnd (words P)])))
            reads [l])
      else
        populate_loop P
          (snd (SendCommand (s\<lparr>serial_in := reads\<rparr>)
                  (device_list_continue (words P) @ [sepEnd (words P)])))
          reads (vec @ [l]))"
proof (cases "push_description P (s\<lparr>serial_in := reads\<rparr>) vec")
  case (Inl e)
  then show ?thesis
    using w l by (simp add: Let_def subscript_0 is_name_line_def SendCommand_def)
next
  case (Inr s1)
  from push_description_result [OF Inr] have "serial_out s1 = serial_out s" by auto
  with w have "\<forall>n. serial_out s1 n = DEVICE_OK (mm P)" by simp
  with Inr show ?thesis
    using w l by (simp add: Let_def subscript_0 is_name_line_def SendCommand_def)
qed

lemma populate_loop_count:
  assumes "\<forall>n. serial_out s n = DEVICE_OK (mm P)"
    and "device_list_end (words P) \<notin> set lines"
    and "populate_loop P s (script P lines @ later) vec = Inr (ret, s')"
  shows "ret = DEVICE_OK (mm P)
     \<and> (\<exists>new. deviceDescriptionList s' = deviceDescriptionList s @ new
           \<and> length new = appended P (vec \<noteq> []) lines
           \<and> (\<forall>d \<in> set new. isValid d \<or> reasonWhyInvalid d \<noteq> []))"
  using assms
proof (induction lines arbitrary: s vec)
  case Nil
  then obtain s1 where p: "push_description P (s\<lparr>serial_in := later\<rparr>) vec = Inr s1"
    and r: "ret = DEVICE_OK (mm P)" "s' = s1"
    by (auto simp: script_def Let_def and_then_Inr_iff)
  from push_description_result [OF p] r show ?case by auto
next
  case (Cons l ls)
  from Cons.prems(2) have l: "l \<noteq> device_list_end (words P)"
    and ls: "device_list_end (words P) \<notin> set ls" by auto
  let ?s0 = "s\<lparr>serial_in := script P ls @ later\<rparr>"
  have sc: "script P (l # ls) @ later = (DEVICE_OK (mm P), l) # (script P ls @ later)"
    by (simp add: script_def)
  note step = populate_loop_step [OF Cons.prems(1) l, of "script P ls @ later" vec]
  show ?case
  proof (cases "is_name_line P l \<and> vec \<noteq> []")
    case True
    with Cons.prems(3) obtain s1 where p: "push_description P ?s0 vec = Inr s1"
      and rest: "populate_loop P
         (snd (SendCommand s1 (device_list_continue (words P) @ [sepEnd (words P)])))
         (script P ls @ later) [l] = Inr (ret, s')"
      unfolding sc step by (auto simp: and_then_Inr_iff)
    from push_description_result [OF p] obtain d
      where s1: "s1 = ?s0\<lparr>deviceDescriptionList := deviceDescriptionList ?s0 @ [d]\<rparr>"
        and d: "isValid d \<or> reasonWhyInvalid d \<noteq> []" by blast
    let ?s2 = "snd (SendCommand s1 (device_list_continue (words P) @ [sepEnd (words P)]))"
    have w: "\<forall>n. serial_out ?s2 n = DEVICE_OK (mm P)"
      using Cons.prems(1) by (simp add: s1 SendCommand_def)
    have dl: "deviceDescriptionList ?s2 = deviceDescriptionList s @ [d]"
      by (simp add: s1 SendCommand_def)
    from Cons.IH [OF w ls rest] obtain new where
      "ret = DEVICE_OK (mm P)" "deviceDescriptionList s' = deviceDescriptionList ?s2 @ new"
      "length new = appended P True ls" "\<forall>d \<in> set new. isValid d \<or> reasonWhyInvalid d \<noteq> []"
      by auto
    with True d dl show ?thesis
      by (intro conjI exI [of _ "d # new"]) auto
  next
    case False
    let ?s2 = "snd (SendCommand ?s0 (device_list_continue (words P) @ [sepEnd (words P)]))"
    from False Cons.prems(3) have rest: "populate_loop P ?s2 (script P ls @ later) (vec @ [l])
        = Inr (ret, s')"
      unfolding sc step by auto
    have w: "\<forall>n. serial_out ?s2 n = DEVICE_OK (mm P)"
      using Cons.prems(1) by (simp add: SendCommand_def)
    have dl: "deviceDescriptionList ?s2 = deviceDescriptionList s"
      by (simp add: SendCommand_def)
    from Cons.IH [OF w ls rest] False dl show ?thesis by auto
  qed
qed

lemma PopulateDeviceDescriptionList_count:
  assumes "\<forall>n. serial_out s n = DEVICE_OK (mm P)"
    and "device_list_end (words P) \<notin> set lines"
    and "serial_in s = script P lines @ later"
    and "PopulateDeviceDescriptionList P s = Inr (ret, s')"
  shows "ret = DEVICE_OK (mm P)
     \<and> (\<exists>new. deviceDescriptionList s' = deviceDescriptionList s @ new
           \<and> length new = appended P False lines
           \<and> (\<forall>d \<in> set new. isValid d \<or> reasonWhyInvalid d \<noteq> []))"
proof -
  let ?s1 = "snd (SendCommand s (device_list_start (words P) @ [sepEnd (words P)]))"
  have w: "\<forall>n. serial_out ?s1 n = DEVICE_OK (mm P)"
    using assms(1) by (simp add: SendCommand_def)
  have "populate_loop P ?s1 (script P lines @ later) [] = Inr (ret, s')"
    using assms(3,4)
    by (simp add: PopulateDeviceDescriptionList_def SendCommand_def Let_def)
  from populate_loop_count [OF w assms(2) this] show ?thesis
    by (simp add: SendCommand_def)
qed


lemma PopulateDeviceDescriptionList_Name_first:
  assumes "\<forall>n. serial_out s n = DEVICE_OK (mm P)"
    and "device_list_end (words P) \<notin> set lines"
    and "serial_in s = script P lines @ later"
    and "lines \<noteq> []" and "is_name_line P (hd lines)"
    and "PopulateDeviceDescriptionList P s = Inr (ret, s')"
  shows "ret = DEVICE_OK (mm P)
     \<and> (\<exists>new. deviceDescriptionList s' = deviceDescriptionList s @ new
           \<and> length new = length (filter (is_name_line P) lines)
           \<and> (\<forall>d \<in> set new. isValid d \<or> reasonWhyInvalid d \<noteq> []))"
  using PopulateDeviceDescriptionList_count [OF assms(1,2,3,6)]
  by (simp add: appended_Name_first [OF assms(4,5)])

lemma PopulateDeviceDescriptionList_no_line:
  assumes "\<forall>n. serial_out s n = DEVICE_OK (mm P)"
    and "serial_in s = script P [] @ later"
    and "PopulateDeviceDescriptionList P s = Inr (ret, s')"
  shows "\<exists>d. deviceDescriptionList s' = deviceDescriptionList s @ [d]"
proof -
  from PopulateDeviceDescriptionList_count [OF assms(1) _ assms(2,3)]
  obtain new where "deviceDescriptionList s' = deviceDescriptionList s @ new" "length new = 1"
    by auto
  then show ?thesis by (cases new) auto
qed

text \<open>Two devices described in three lines: the two descriptions are appended.\<close>

lemma PopulateDeviceDescriptionList_example:
  "map_sum id (\<lambda>(ret, s). (ret, map dd_name (deviceDescriptionList s),
                               map dd_type (deviceDescriptionList s),
                               map isValid (deviceDescriptionList s)))
     (PopulateDeviceDescriptionList example_platform
        (empty_hub (script example_platform
                      [''Name,Shutter1'', ''Description,a shutter'', ''Name,Stage1'']))) =
   Inr (0, [''Shutter1'', ''Stage1''], [''Shutter'', ''Stage''], [True, True])"
  by code_simp


section \<open>Poll Loop: inbound frames\<close>

lemma WriteError_result [simp]:
  "fst (WriteError P s addonstr err) = err"
  "hub_error (snd (WriteError P s addonstr err)) = err"
  "deviceDescriptionList (snd (WriteError P s addonstr err)) = deviceDescriptionList s"
  "devices (snd (WriteError P s addonstr err)) = devices s"
  by (simp_all add: WriteError_def OnPropertyChanged_def Let_def)

text \<open>
  A round reads the port when a device is busy or the last read is more than
  \<open>intervalPortCheck\<close> ago.
\<close>

definition reads_port :: "('d, 'f) hub \<Rightarrow> bool" where
  "reads_port s =
     (if busy_devices s (deviceDescriptionList s) = []
      then clock s (clock_reads s) - lastPortCheck s > intervalPortCheck
      else True)"

text \<open>
  The state in which the answer of such a round is interpreted: the read is taken off
  \<open>serial_in\<close>, the clock has been read, and the locals of the thread are set.
\<close>

definition after_read ::
  "('d, 'f) platform \<Rightarrow> ('d, 'f) hub \<Rightarrow> ('d, 'f) hub" where
  "after_read P s =
     (let n = (if busy_devices s (deviceDescriptionList s) = [] then Suc (clock_reads s)
               else clock_reads s)
      in s\<lparr>clock_reads := Suc n, lastPortCheck := clock s n, serial_in := tl (serial_in s),
           svc_temp := (case hd (serial_in s) of (ret, a) \<Rightarrow>
                          if ret = DEVICE_OK (mm P) then a else svc_temp s)\<rparr>)"

lemma after_read_same [simp]:
  "deviceDescriptionList (after_read P s) = deviceDescriptionList s"
  "devices (after_read P s) = devices s"
  "hub_error (after_read P s) = hub_error s"
  "clock (after_read P s) = clock s"
  by (simp_all add: after_read_def Let_def)

lemma svc_round_received:
  assumes "reads_port s" and "serial_in s = (DEVICE_OK (mm P), ans) # rest"
  shows "svc_round P s = data_received P (after_read P s) ans"
  using assms
  by (simp add: svc_round_def reads_port_def after_read_def GetCurrentMMTime_def
        ReceiveAnswer_def Let_def split: if_splits)

lemma svc_round_no_answer:
  assumes "reads_port s" and "serial_in s = (ret, a) # rest" and "ret \<noteq> DEVICE_OK (mm P)"
  shows "svc_round P s =
     timeout_loop P (after_read P s) (busy_devices s (deviceDescriptionList s))"
  using assms
  by (simp add: svc_round_def reads_port_def after_read_def GetCurrentMMTime_def
        ReceiveAnswer_def Let_def split: if_splits)

lemma svc_round_idle:
  "\<not> reads_port s \<Longrightarrow> svc_round P s = Inr (s\<lparr>clock_reads := Suc (clock_reads s)\<rparr>)"
  by (simp add: svc_round_def reads_port_def GetCurrentMMTime_def Let_def split: if_splits)

lemma data_received_bad_format:
  assumes "length (SplitStringIntoWords ans (sepIn (words P))) \<noteq> 3"
    and "adp_string_not_recognized (errors P) \<noteq> DEVICE_OK (mm P)"
  shows "data_received P s ans =
     Inr (snd (WriteError P s ans (adp_string_not_recognized (errors P))))"
  using assms by (simp add: data_received_def CheckIncomingCommand_def Let_def)

lemma data_received_unknown_device:
  assumes "length (SplitStringIntoWords ans (sepIn (words P))) = 3"
    and "GetDevice s (SplitStringIntoWords ans (sepIn (words P)) ! 0) = None"
    and "adp_device_not_recognized (errors P) \<noteq> DEVICE_OK (mm P)"
  shows "data_received P s ans =
     Inr (snd (WriteError P s ans (adp_device_not_recognized (errors P))))"
  using assms by (simp add: data_received_def CheckIncomingCommand_def Let_def at_def)

lemma GetDevice_after_read [simp]: "GetDevice (after_read P s) label = GetDevice s label"
  by (simp add: GetDevice_def)

text \<open>
  Claim C7 (inbound frame validation), as the code has it.  Take a round that reads the
  port and receives the frame \<open>ans\<close>, split on \<open>sepIn\<close> into \<open>vs\<close>.  If \<open>vs\<close> does not have
  three fields, the round records the error "string not recognized"; if it has three
  and the first is not the label of a device loaded in the core (\<open>GetDevice\<close> finds
  none), the error "device not recognized".  In both cases nothing else is done with
  the frame: the registry and every device, its busy state included, are as before.
  (The two error codes are taken to differ from \<open>DEVICE_OK\<close>.)  A frame of three fields
  whose first is the label of any device of the core passes the test, which asks the
  core, not the registry: see \<open>C7_frame_naming_the_port_accepted_counterexample\<close>.
\<close>

theorem C7_rejected_frames_change_nothing:
  assumes "reads_port s" and "serial_in s = (DEVICE_OK (mm P), ans) # rest"
    and "vs = SplitStringIntoWords ans (sepIn (words P))"
    and "adp_string_not_recognized (errors P) \<noteq> DEVICE_OK (mm P)"
    and "adp_device_not_recognized (errors P) \<noteq> DEVICE_OK (mm P)"
  shows "(length vs \<noteq> 3 \<longrightarrow>
            (\<exists>s'. svc_round P s = Inr s'
               \<and> hub_error s' = adp_string_not_recognized (errors P)
               \<and> deviceDescriptionList s' = deviceDescriptionList s
               \<and> devices s' = devices s))
       \<and> (length vs = 3 \<and> GetDevice s (vs ! 0) = None \<longrightarrow>
            (\<exists>s'. svc_round P s = Inr s'
               \<and> hub_error s' = adp_device_not_recognized (errors P)
               \<and> deviceDescriptionList s' = deviceDescriptionList s
               \<and> devices s' = devices s))
       \<and> (length vs = 3 \<and> GetDevice s (vs ! 0) \<noteq> None \<longrightarrow>
            CheckIncomingCommand P (after_read P s) vs = Inr (DEVICE_OK (mm P)))"
proof (intro conjI impI)
  assume "length vs \<noteq> 3"
  then have "svc_round P s =
      Inr (snd (WriteError P (after_read P s) ans (adp_string_not_recognized (errors P))))"
    using assms by (simp add: svc_round_received data_received_bad_format)
  then show "\<exists>s'. svc_round P s = Inr s'
               \<and> hub_error s' = adp_string_not_recognized (errors P)
               \<and> deviceDescriptionList s' = deviceDescriptionList s
               \<and> devices s' = devices s"
    by simp
next
  assume "length vs = 3 \<and> GetDevice s (vs ! 0) = None"
  then have "svc_round P s =
      Inr (snd (WriteError P (after_read P s) ans (adp_device_not_recognized (errors P))))"
    using assms by (simp add: svc_round_received data_received_unknown_device)
  then show "\<exists>s'. svc_round P s = Inr s'
               \<and> hub_error s' = adp_device_not_recognized (errors P)
               \<and> deviceDescriptionList s' = deviceDescriptionList s
               \<and> devices s' = devices s"
    by simp
next
  assume "length vs = 3 \<and> GetDevice s (vs ! 0) \<noteq> None"
  then show "CheckIncomingCommand P (after_read P s) vs = Inr (DEVICE_OK (mm P))"
    by (auto simp: CheckIncomingCommand_def at_def)
qed

theorem C7_rejected_frames_change_nothing_witness:
  "(\<exists>s'. svc_round example_platform (example_hub 1000 [(0, ''Shutter1=SPD'')]) = Inr s'
      \<and> hub_error s' = 103
      \<and> deviceDescriptionList s' = example_registry
      \<and> devices s' = [''Shutter1'' \<mapsto> example_device, ''Stage1'' \<mapsto> example_stage,
                       ''COM1'' \<mapsto> example_port])
   \<and> (\<exists>s'. svc_round example_platform (example_hub 1000 [(0, ''Ghost=X=0'')]) = Inr s'
      \<and> hub_error s' = 104
      \<and> deviceDescriptionList s' = example_registry
      \<and> devices s' = [''Shutter1'' \<mapsto> example_device, ''Stage1'' \<mapsto> example_stage,
                       ''COM1'' \<mapsto> example_port])"
proof -
  have busy: "reads_port (example_hub 1000 rx)" for rx
    by (simp add: reads_port_def example_hub_def example_registry_def GetDevice_def
          c_str_def Busy_def example_device_def)
  have split1: "SplitStringIntoWords ''Shutter1=SPD'' (sepIn (words example_platform))
      = [''Shutter1'', ''SPD'']"
    by code_simp
  have split2: "SplitStringIntoWords ''Ghost=X=0'' (sepIn (words example_platform))
      = [''Ghost'', ''X'', ''0'']"
    by code_simp
  have ghost: "GetDevice (example_hub 1000 [(0, ''Ghost=X=0'')]) ''Ghost'' = None"
    by (simp add: GetDevice_def example_hub_def c_str_def)
  have codes: "adp_string_not_recognized (errors example_platform) = 103"
    "adp_device_not_recognized (errors example_platform) = 104"
    "DEVICE_OK (mm example_platform) = 0"
    by (simp_all add: example_platform_def example_errors_def example_mm_def)
  show ?thesis
    using C7_rejected_frames_change_nothing [where P = example_platform
        and s = "example_hub 1000 [(0, ''Shutter1=SPD'')]" and ans = "''Shutter1=SPD''"
        and rest = "[]" and vs = "[''Shutter1'', ''SPD'']"]
      C7_rejected_frames_change_nothing [where P = example_platform
        and s = "example_hub 1000 [(0, ''Ghost=X=0'')]" and ans = "''Ghost=X=0''"
        and rest = "[]" and vs = "[''Ghost'', ''X'', ''0'']"]
      busy split1 split2 ghost
    by (simp add: codes) (simp add: example_hub_def)
qed

text \<open>
  The claim as stated has every frame rejected whose first field names no known
  instrument.  \<open>COM1\<close> is the label of the serial port: it is no instrument of the
  registry, but it is a device of the core, so the frame \<open>COM1=X=0\<close> passes the test.
  The round records no error (\<open>hub_error\<close> stays 0, not 104) and goes on to handle the
  frame as one of an instrument.
\<close>

theorem C7_frame_naming_the_port_accepted_counterexample:
  "''COM1'' \<notin> set (map dd_name (deviceDescriptionList (example_hub 1000 [(0, ''COM1=X=0'')])))
   \<and> GetDeviceIndexFromName (example_hub 1000 [(0, ''COM1=X=0'')]) ''COM1'' = - 1
   \<and> CheckIncomingCommand example_platform (example_hub 1000 [(0, ''COM1=X=0'')])
         (SplitStringIntoWords ''COM1=X=0'' (sepIn (words example_platform)))
       = Inr (DEVICE_OK example_mm)
   \<and> map_sum id hub_error
         (svc_round example_platform (example_hub 1000 [(0, ''COM1=X=0'')])) = Inr 0
   \<and> adp_device_not_recognized example_errors = 104"
  by code_simp


section \<open>Poll Loop: timeouts\<close>

text \<open>
  The instruments of the registry are the adapter's own devices: the device the core
  has under the name of a description, if it has one, is of one of the adapter's five
  classes and has that name, as \<open>CreateDevice\<close> makes it.  Nothing is asked of the other
  devices of the core, such as the serial port.
\<close>

definition own_devices :: "('d, 'f) hub \<Rightarrow> bool" where
  "own_devices s =
     list_all (\<lambda>d. case GetDevice s (dd_name d) of
                     None \<Rightarrow> True
                   | Some dev \<Rightarrow> c_str (dev_name dev) = c_str (dd_name d)
                                \<and> dev_type dev \<noteq> OtherDevice)
       (deviceDescriptionList s)"

text \<open>The device under \<open>label\<close> is one of the adapter's, loaded under its name.\<close>

definition own_label :: "('d, 'f) hub \<Rightarrow> string \<Rightarrow> bool" where
  "own_label s label =
     (case devices s label of
        None \<Rightarrow> False
      | Some dev \<Rightarrow> c_str (dev_name dev) = label \<and> dev_type dev \<noteq> OtherDevice)"

text \<open>
  The device under \<open>label\<close> has timed out at the n-th reading of the clock: the time
  that reading shows is more than the device's timeout after its last command.
\<close>

definition expired :: "('d, 'f) hub \<Rightarrow> nat \<Rightarrow> string \<Rightarrow> bool" where
  "expired s n label =
     (case devices s label of
        None \<Rightarrow> False
      | Some dev \<Rightarrow> clock s n - dev_lastCommandTime dev > dev_timeout dev)"

lemma c_str_idem [simp]: "c_str (c_str x) = c_str x"
  by (simp add: c_str_def takeWhile_idem)

lemma busy_devices_exist:
  "label \<in> set (busy_devices s ds) \<Longrightarrow> \<exists>dev. devices s label = Some dev \<and> Busy dev"
  by (induction ds) (auto simp: GetDevice_def split: option.splits if_splits)

lemma busy_devices_names:
  "label \<in> set (busy_devices s ds) \<Longrightarrow>
   \<exists>d \<in> set ds. label = c_str (dd_name d) \<and> GetDevice s (dd_name d) \<noteq> None"
  by (induction ds) (auto split: option.splits if_splits)

lemma busy_devices_own:
  assumes "own_devices s" and "label \<in> set (busy_devices s (deviceDescriptionList s))"
  shows "own_label s label"
proof -
  from busy_devices_names [OF assms(2)] obtain d dev
    where d: "d \<in> set (deviceDescriptionList s)" "label = c_str (dd_name d)"
      "GetDevice s (dd_name d) = Some dev"
    by auto
  with assms(1) have "c_str (dev_name dev) = c_str (dd_name d) \<and> dev_type dev \<noteq> OtherDevice"
    by (auto simp: own_devices_def list_all_iff)
  with d show ?thesis by (simp add: own_label_def GetDevice_def)
qed

lemma own_devices_lookup:
  assumes "own_label s label" and "devices s label = Some dev"
  shows "GetDevice s (c_str (dev_name dev)) = Some dev" and "dev_type dev \<noteq> OtherDevice"
    and "c_str label = label"
proof -
  from assms have l: "c_str (dev_name dev) = label" and t: "dev_type dev \<noteq> OtherDevice"
    by (auto simp: own_label_def)
  from l show "c_str label = label" by (metis c_str_idem)
  with l assms(2) show "GetDevice s (c_str (dev_name dev)) = Some dev"
    by (simp add: GetDevice_def)
  from t show "dev_type dev \<noteq> OtherDevice" .
qed

lemma timeout_loop_step:
  assumes "own_label s label" and "devices s label = Some dev"
  shows "timeout_loop P s (label # lob) =
     (if clock s (clock_reads s) - dev_lastCommandTime dev > dev_timeout dev
      then Inr (snd (ReportTimeoutError P
                  (update_device (s\<lparr>clock_reads := Suc (clock_reads s)\<rparr>) label
                     (\<lambda>d. d\<lparr>dev_busy := False\<rparr>)) label))
      else timeout_loop P (s\<lparr>clock_reads := Suc (clock_reads s)\<rparr>) lob)"
proof -
  note lk = own_devices_lookup [OF assms]
  have g: "GetDevice (s\<lparr>clock_reads := Suc (clock_reads s)\<rparr>) label = Some dev"
    using assms(2) lk(3) by (simp add: GetDevice_def)
  have l: "c_str (dev_name dev) = label"
    using assms by (auto simp: own_label_def)
  have u: "update_device s' (c_str (dev_name dev)) f = update_device s' label f" for s' f
    by (simp add: update_device_def l lk(3))
  show ?thesis
    using assms(2) lk(2)
    by (cases "dev_type dev")
       (simp_all add: GetCurrentMMTime_def UniHub_GetLastCommandTime_def
          UniHub_GetTimeout_def UniHub_SetBusy_def g u l Let_def)
qed

lemma expired_clock_reads [simp]: "expired (s\<lparr>clock_reads := n\<rparr>) k label = expired s k label"
  by (simp add: expired_def split: option.splits)

lemma own_label_clock_reads [simp]: "own_label (s\<lparr>clock_reads := n\<rparr>) l = own_label s l"
  by (simp add: own_label_def)

lemma timeout_loop_none:
  assumes "\<forall>l \<in> set lob. own_label s l" and "\<forall>l \<in> set lob. devices s l \<noteq> None"
    and "\<forall>j < length lob. \<not> expired s (clock_reads s + j) (lob ! j)"
  shows "timeout_loop P s lob = Inr (s\<lparr>clock_reads := clock_reads s + length lob\<rparr>)"
  using assms
proof (induction lob arbitrary: s)
  case Nil
  then show ?case by simp
next
  case (Cons label lob)
  from Cons.prems(2) obtain dev where dev: "devices s label = Some dev" by auto
  from Cons.prems(1) have own: "own_label s label" by simp
  from Cons.prems(3) have "\<not> expired s (clock_reads s + 0) ((label # lob) ! 0)" by blast
  with dev have ne: "\<not> clock s (clock_reads s) - dev_lastCommandTime dev > dev_timeout dev"
    by (simp add: expired_def)
  have later: "\<forall>j < length lob.
      \<not> expired (s\<lparr>clock_reads := Suc (clock_reads s)\<rparr>)
          (clock_reads (s\<lparr>clock_reads := Suc (clock_reads s)\<rparr>) + j) (lob ! j)"
  proof (intro allI impI)
    fix j assume "j < length lob"
    then have "\<not> expired s (clock_reads s + Suc j) ((label # lob) ! Suc j)"
      using Cons.prems(3) by (metis Suc_less_eq length_Cons)
    then show "\<not> expired (s\<lparr>clock_reads := Suc (clock_reads s)\<rparr>)
          (clock_reads (s\<lparr>clock_reads := Suc (clock_reads s)\<rparr>) + j) (lob ! j)"
      by simp
  qed
  have "timeout_loop P (s\<lparr>clock_reads := Suc (clock_reads s)\<rparr>) lob =
      Inr (s\<lparr>clock_reads := Suc (clock_reads s)\<rparr>
             \<lparr>clock_reads := clock_reads (s\<lparr>clock_reads := Suc (clock_reads s)\<rparr>) + length lob\<rparr>)"
    using Cons.prems(1,2) later by (intro Cons.IH) simp_all
  then show ?case
    using ne by (simp add: timeout_loop_step [OF own dev] del: timeout_loop.simps)
qed

lemma timeout_loop_first:
  assumes "\<forall>l \<in> set lob. own_label s l" and "\<forall>l \<in> set lob. devices s l \<noteq> None"
    and "i < length lob"
    and "\<forall>j < i. \<not> expired s (clock_reads s + j) (lob ! j)"
    and "expired s (clock_reads s + i) (lob ! i)"
  shows "timeout_loop P s lob =
     Inr (snd (ReportTimeoutError P
            (update_device (s\<lparr>clock_reads := Suc (clock_reads s + i)\<rparr>) (lob ! i)
               (\<lambda>d. d\<lparr>dev_busy := False\<rparr>)) (lob ! i)))"
  using assms
proof (induction lob arbitrary: s i)
  case Nil
  then show ?case by simp
next
  case (Cons label lob)
  from Cons.prems(2) obtain dev where dev: "devices s label = Some dev" by auto
  from Cons.prems(1) have own: "own_label s label" by simp
  show ?case
  proof (cases i)
    case 0
    with Cons.prems(5) dev
    have "clock s (clock_reads s) - dev_lastCommandTime dev > dev_timeout dev"
      by (simp add: expired_def)
    then show ?thesis
      using 0 by (simp add: timeout_loop_step [OF own dev] del: timeout_loop.simps)
  next
    case (Suc k)
    from Cons.prems(4) Suc have "\<not> expired s (clock_reads s + 0) ((label # lob) ! 0)"
      by blast
    with dev have ne: "\<not> clock s (clock_reads s) - dev_lastCommandTime dev > dev_timeout dev"
      by (simp add: expired_def)
    have earlier: "\<forall>j < k.
        \<not> expired (s\<lparr>clock_reads := Suc (clock_reads s)\<rparr>)
            (clock_reads (s\<lparr>clock_reads := Suc (clock_reads s)\<rparr>) + j) (lob ! j)"
    proof (intro allI impI)
      fix j assume "j < k"
      then have "\<not> expired s (clock_reads s + Suc j) ((label # lob) ! Suc j)"
        using Cons.prems(4) Suc by (metis Suc_less_eq)
      then show "\<not> expired (s\<lparr>clock_reads := Suc (clock_reads s)\<rparr>)
            (clock_reads (s\<lparr>clock_reads := Suc (clock_reads s)\<rparr>) + j) (lob ! j)"
        by simp
    qed
    have here: "expired (s\<lparr>clock_reads := Suc (clock_reads s)\<rparr>)
        (clock_reads (s\<lparr>clock_reads := Suc (clock_reads s)\<rparr>) + k) (lob ! k)"
      using Cons.prems(5) Suc by simp
    have "timeout_loop P (s\<lparr>clock_reads := Suc (clock_reads s)\<rparr>) lob =
        Inr (snd (ReportTimeoutError P
              (update_device
                 (s\<lparr>clock_reads := Suc (clock_reads s)\<rparr>
                    \<lparr>clock_reads := Suc (clock_reads (s\<lparr>clock_reads := Suc (clock_reads s)\<rparr>) + k)\<rparr>)
                 (lob ! k) (\<lambda>d. d\<lparr>dev_busy := False\<rparr>)) (lob ! k)))"
      using Cons.prems(1,2,3) Suc earlier here by (intro Cons.IH) simp_all
    then show ?thesis
      using ne Suc by (simp add: timeout_loop_step [OF own dev] del: timeout_loop.simps)
  qed
qed

lemma ReportTimeoutError_result [simp]:
  "hub_error (snd (ReportTimeoutError P s devname)) = adp_lost_communication (errors P)"
  "deviceDescriptionList (snd (ReportTimeoutError P s devname)) = deviceDescriptionList s"
  "devices (snd (ReportTimeoutError P s devname)) = devices s"
  by (simp_all add: ReportTimeoutError_def Let_def)

lemma own_label_after_read [simp]: "own_label (after_read P s) l = own_label s l"
  by (simp add: own_label_def)

lemma expired_after_read [simp]: "expired (after_read P s) n label = expired s n label"
  by (simp add: expired_def split: option.splits)

lemma clock_reads_after_read:
  "busy_devices s (deviceDescriptionList s) \<noteq> [] \<Longrightarrow>
   clock_reads (after_read P s) = Suc (clock_reads s)"
  by (simp add: after_read_def Let_def)

text \<open>
  Claim C8 (one timeout per poll cycle), as the code has it.  Take a round in which the
  read of the port fails, in a hub whose instruments are the adapter's own devices
  (\<open>own_devices\<close>; the core may hold any other devices besides); \<open>lob\<close> are its busy
  devices in the order of the registry, and the device at position \<open>j\<close> is tested against the
  reading of the clock numbered \<open>clock_reads s + 1 + j\<close>.
  \<^item> If the device at position \<open>i\<close> has timed out at its reading (the time elapsed since
    its last command is greater than its timeout, not merely equal) and none before it
    has, the round marks that device not busy and records "lost communication"; every
    other device, timed out or not, is as before, and so is the registry.
  \<^item> If none has timed out at its reading, no device changes.
\<close>

theorem C8_first_timed_out_device_only:
  assumes "own_devices s"
    and "serial_in s = (ret, a) # rest" and "ret \<noteq> DEVICE_OK (mm P)"
    and "lob = busy_devices s (deviceDescriptionList s)"
  shows "(i < length lob
          \<and> (\<forall>j < i. \<not> expired s (clock_reads s + 1 + j) (lob ! j))
          \<and> expired s (clock_reads s + 1 + i) (lob ! i)
          \<longrightarrow> (\<exists>s' dev. svc_round P s = Inr s' \<and> devices s (lob ! i) = Some dev
                  \<and> devices s' = (devices s)(lob ! i \<mapsto> dev\<lparr>dev_busy := False\<rparr>)
                  \<and> hub_error s' = adp_lost_communication (errors P)
                  \<and> deviceDescriptionList s' = deviceDescriptionList s))
       \<and> (lob \<noteq> [] \<and> (\<forall>j < length lob. \<not> expired s (clock_reads s + 1 + j) (lob ! j))
          \<longrightarrow> (\<exists>s'. svc_round P s = Inr s' \<and> devices s' = devices s
                  \<and> hub_error s' = hub_error s
                  \<and> deviceDescriptionList s' = deviceDescriptionList s))"
proof (intro conjI impI)
  assume h: "i < length lob
          \<and> (\<forall>j < i. \<not> expired s (clock_reads s + 1 + j) (lob ! j))
          \<and> expired s (clock_reads s + 1 + i) (lob ! i)"
  then have ne: "busy_devices s (deviceDescriptionList s) \<noteq> []"
    using assms(4) by auto
  then have rp: "reads_port s" by (simp add: reads_port_def)
  have ex: "\<forall>l \<in> set lob. devices (after_read P s) l \<noteq> None"
    using assms(4) busy_devices_exist by fastforce
  have own: "\<forall>l \<in> set lob. own_label (after_read P s) l"
    using assms(1,4) busy_devices_own by fastforce
  from h ex obtain dev where dev: "devices s (lob ! i) = Some dev"
    by (metis after_read_same(2) nth_mem option.exhaust)
  have lbl: "c_str (lob ! i) = lob ! i"
    using own_devices_lookup(3) [OF _ dev] own h by simp
  have "timeout_loop P (after_read P s) lob =
     Inr (snd (ReportTimeoutError P
            (update_device ((after_read P s)\<lparr>clock_reads := Suc (clock_reads (after_read P s) + i)\<rparr>)
               (lob ! i) (\<lambda>d. d\<lparr>dev_busy := False\<rparr>)) (lob ! i)))"
    using h own ex by (intro timeout_loop_first) (simp_all add: clock_reads_after_read [OF ne])
  then have "svc_round P s =
     Inr (snd (ReportTimeoutError P
            (update_device ((after_read P s)\<lparr>clock_reads := Suc (clock_reads (after_read P s) + i)\<rparr>)
               (lob ! i) (\<lambda>d. d\<lparr>dev_busy := False\<rparr>)) (lob ! i)))"
    using svc_round_no_answer [OF rp assms(2,3)] assms(4) by simp
  then show "\<exists>s' dev. svc_round P s = Inr s' \<and> devices s (lob ! i) = Some dev
                  \<and> devices s' = (devices s)(lob ! i \<mapsto> dev\<lparr>dev_busy := False\<rparr>)
                  \<and> hub_error s' = adp_lost_communication (errors P)
                  \<and> deviceDescriptionList s' = deviceDescriptionList s"
    using dev by (simp add: update_device_def lbl)
next
  assume h: "lob \<noteq> [] \<and> (\<forall>j < length lob. \<not> expired s (clock_reads s + 1 + j) (lob ! j))"
  then have ne: "busy_devices s (deviceDescriptionList s) \<noteq> []"
    using assms(4) by auto
  then have rp: "reads_port s" by (simp add: reads_port_def)
  have ex: "\<forall>l \<in> set lob. devices (after_read P s) l \<noteq> None"
    using assms(4) busy_devices_exist by fastforce
  have own: "\<forall>l \<in> set lob. own_label (after_read P s) l"
    using assms(1,4) busy_devices_own by fastforce
  have "timeout_loop P (after_read P s) lob =
     Inr ((after_read P s)\<lparr>clock_reads := clock_reads (after_read P s) + length lob\<rparr>)"
    using h own ex by (intro timeout_loop_none) (simp_all add: clock_reads_after_read [OF ne])
  then have "svc_round P s =
     Inr ((after_read P s)\<lparr>clock_reads := clock_reads (after_read P s) + length lob\<rparr>)"
    using svc_round_no_answer [OF rp assms(2,3)] assms(4) by simp
  then show "\<exists>s'. svc_round P s = Inr s' \<and> devices s' = devices s
                  \<and> hub_error s' = hub_error s
                  \<and> deviceDescriptionList s' = deviceDescriptionList s"
    by simp
qed


lemma example_hub_own: "own_devices (example_hub now rx)"
  by (simp add: own_devices_def example_hub_def example_registry_def example_device_def
        example_stage_def GetDevice_def c_str_def)

lemma example_hub_busy:
  "busy_devices (example_hub now rx) (deviceDescriptionList (example_hub now rx))
     = [''Shutter1'', ''Stage1'']"
  by (simp add: example_hub_def example_registry_def GetDevice_def c_str_def Busy_def
        example_device_def example_stage_def)

theorem C8_first_timed_out_device_only_witness:
  "\<exists>s' dev. svc_round example_platform (example_hub 200001 [(17, [])]) = Inr s'
      \<and> devices (example_hub 200001 [(17, [])]) ''Shutter1'' = Some dev
      \<and> devices s' = (devices (example_hub 200001 [(17, [])]))
                        (''Shutter1'' \<mapsto> dev\<lparr>dev_busy := False\<rparr>)
      \<and> hub_error s' = 102
      \<and> deviceDescriptionList s' = example_registry"
proof -
  have e: "expired (example_hub 200001 [(17, [])])
             (clock_reads (example_hub 200001 [(17, [])]) + 1 + 0) ''Shutter1''"
    by (simp add: expired_def example_hub_def example_device_def)
  show ?thesis
    using C8_first_timed_out_device_only [where P = example_platform
        and s = "example_hub 200001 [(17, [])]" and ret = 17 and a = "[]" and rest = "[]"
        and lob = "[''Shutter1'', ''Stage1'']" and i = 0]
      example_hub_own [of 200001 "[(17, [])]"] example_hub_busy [of 200001 "[(17, [])]"] e
    by (simp add: example_platform_def example_mm_def example_errors_def)
       (simp add: example_hub_def)
qed

text \<open>
  The claim as stated also has every busy device whose deadline has passed cleared by
  the first round without an answer at or after the deadline.  With the shutter and the
  stage both busy since time 0 with a timeout of 200000, the stage is still busy after
  the round at time 200001, in which the shutter is cleared; and at time 200000, the
  deadline itself, the round clears neither.
\<close>

theorem C8_deadline_passed_and_still_busy_counterexample:
  "\<not> (\<forall>now label. 200000 \<le> now \<and> (label = ''Shutter1'' \<or> label = ''Stage1'') \<longrightarrow>
         map_sum id (\<lambda>s'. map_option dev_busy (devices s' label))
           (svc_round example_platform (example_hub now [(17, [])])) = Inr (Some False))
   \<and> map_sum id (\<lambda>s'. (map_option dev_busy (devices s' ''Shutter1''),
                        map_option dev_busy (devices s' ''Stage1'')))
        (svc_round example_platform (example_hub 200001 [(17, [])]))
      = Inr (Some False, Some True)
   \<and> map_sum id (\<lambda>s'. (map_option dev_busy (devices s' ''Shutter1''),
                        map_option dev_busy (devices s' ''Stage1'')))
        (svc_round example_platform (example_hub 200000 [(17, [])]))
      = Inr (Some True, Some True)"
proof (intro conjI notI)
  assume "\<forall>now label. 200000 \<le> now \<and> (label = ''Shutter1'' \<or> label = ''Stage1'') \<longrightarrow>
         map_sum id (\<lambda>s'. map_option dev_busy (devices s' label))
           (svc_round example_platform (example_hub now [(17, [])])) = Inr (Some False)"
  then have "map_sum id (\<lambda>s'. map_option dev_busy (devices s' ''Stage1''))
           (svc_round example_platform (example_hub 200001 [(17, [])])) = Inr (Some False)"
    by simp
  moreover have "map_sum id (\<lambda>s'. map_option dev_busy (devices s' ''Stage1''))
           (svc_round example_platform (example_hub 200001 [(17, [])])) = Inr (Some True)"
    by code_simp
  ultimately show False by simp
next
  show "map_sum id (\<lambda>s'. (map_option dev_busy (devices s' ''Shutter1''),
                        map_option dev_busy (devices s' ''Stage1'')))
        (svc_round example_platform (example_hub 200001 [(17, [])]))
      = Inr (Some False, Some True)"
    by code_simp
next
  show "map_sum id (\<lambda>s'. (map_option dev_busy (devices s' ''Shutter1''),
                        map_option dev_busy (devices s' ''Stage1'')))
        (svc_round example_platform (example_hub 200000 [(17, [])]))
      = Inr (Some True, Some True)"
    by code_simp
qed

section \<open>Poll Loop: forwarding the values of a frame\<close>

lemma UniHub_SetBusy_same:
  "UniHub_SetBusy s label v = Inr s' \<Longrightarrow>
   deviceDescriptionList s' = deviceDescriptionList s \<and> hub_error s' = hub_error s"
  by (auto simp: UniHub_SetBusy_def update_device_def split: option.splits DeviceType.splits)

lemma data_received_valid:
  assumes "vs = SplitStringIntoWords ans (sepIn (words P))" and "length vs = 3"
    and "GetDevice s (vs ! 0) \<noteq> None"
    and "vals = SplitStringIntoWords (vs ! 2) (sepWithin (words P))"
    and "stoi (vals ! 0) = Inr err"
  shows "data_received P s ans =
     and_then (handle_errors P s ans (vs ! 0) err)
       (\<lambda>s. report_values P s (vs ! 0) (vs ! 1) (tl vals) err)"
proof -
  have ne: "vals \<noteq> []"
    using Split_not_Nil [of "vs ! 2" "sepWithin (words P)"] assms(4) by simp
  have chk: "CheckIncomingCommand P s vs = Inr (DEVICE_OK (mm P))"
    using assms(2,3) by (auto simp: CheckIncomingCommand_def at_def)
  show ?thesis
    unfolding data_received_def Let_def assms(1) [symmetric] chk
    using assms(2) ne assms(5)
    by (simp add: subscript_def assms(4) [symmetric])
qed

text \<open>
  Claim C2 (poll-loop value forwarding), as the code has it.  Take a round that reads
  the port and receives a frame \<open>ans\<close> of three fields \<open>vs\<close> whose first names a device;
  \<open>vals\<close> are the values of the third field, the first of them the firmware's error
  code \<open>err\<close>, and \<open>s1\<close> is the state in which the frame is interpreted.
  \<^item> If the code is \<open>ctr_ok\<close> or \<open>ctr_busy\<close> and values remain after it, the round handles
    the code and then forwards the remaining values to \<open>ReportToDevice\<close>.
  \<^item> If the code is any other, the round clears the busy state and records the error,
    and that is all: the values are not forwarded, and the registry is as before.
  \<^item> If no value remains, the round only handles the code.
\<close>

theorem C2_values_forwarded_on_ok_and_busy_only:
  assumes "reads_port s" and "serial_in s = (DEVICE_OK (mm P), ans) # rest"
    and "vs = SplitStringIntoWords ans (sepIn (words P))" and "length vs = 3"
    and "GetDevice s (vs ! 0) \<noteq> None"
    and "vals = SplitStringIntoWords (vs ! 2) (sepWithin (words P))"
    and "stoi (vals ! 0) = Inr err"
    and "s1 = after_read P s"
  shows "((err = ctr_ok (errors P) \<or> err = ctr_busy (errors P)) \<and> tl vals \<noteq> [] \<longrightarrow>
            svc_round P s =
              and_then (handle_errors P s1 ans (vs ! 0) err) (\<lambda>s2.
                and_then (ReportToDevice P s2 (vs ! 0) (vs ! 1) (tl vals)) (\<lambda>(ret, s3). Inr s3)))
       \<and> (err \<noteq> ctr_ok (errors P) \<and> err \<noteq> ctr_busy (errors P) \<longrightarrow>
            svc_round P s =
              and_then (UniHub_SetBusy s1 (vs ! 0) False) (\<lambda>s2. Inr (snd (WriteError P s2 ans err)))
            \<and> (\<forall>s'. svc_round P s = Inr s' \<longrightarrow>
                  deviceDescriptionList s' = deviceDescriptionList s \<and> hub_error s' = err))
       \<and> (tl vals = [] \<longrightarrow> svc_round P s = handle_errors P s1 ans (vs ! 0) err)"
proof -
  have dr: "svc_round P s =
     and_then (handle_errors P s1 ans (vs ! 0) err)
       (\<lambda>s. report_values P s (vs ! 0) (vs ! 1) (tl vals) err)"
    unfolding svc_round_received [OF assms(1,2)] assms(8)
    using assms(3-7) by (intro data_received_valid) simp_all
  have same: "and_then m Inr = m" for m :: "exn + ('d, 'f) hub"
    by (cases m) simp_all
  have len: "Suc 0 < length vals \<longleftrightarrow> tl vals \<noteq> []"
    by (cases vals) auto
  have a: "(err = ctr_ok (errors P) \<or> err = ctr_busy (errors P)) \<and> tl vals \<noteq> [] \<longrightarrow>
            svc_round P s =
              and_then (handle_errors P s1 ans (vs ! 0) err) (\<lambda>s2.
                and_then (ReportToDevice P s2 (vs ! 0) (vs ! 1) (tl vals)) (\<lambda>(ret, s3). Inr s3))"
    by (auto simp: dr report_values_def len)
  have b1: "svc_round P s =
              and_then (UniHub_SetBusy s1 (vs ! 0) False) (\<lambda>s2. Inr (snd (WriteError P s2 ans err)))"
    if "err \<noteq> ctr_ok (errors P) \<and> err \<noteq> ctr_busy (errors P)"
  proof -
    from that have "svc_round P s = handle_errors P s1 ans (vs ! 0) err"
      by (simp add: dr report_values_def same len)
    with that show ?thesis by (simp add: handle_errors_def)
  qed
  have b2: "deviceDescriptionList s' = deviceDescriptionList s \<and> hub_error s' = err"
    if "err \<noteq> ctr_ok (errors P) \<and> err \<noteq> ctr_busy (errors P)" and "svc_round P s = Inr s'"
    for s'
  proof -
    from b1 [OF that(1)] that(2)
    have "and_then (UniHub_SetBusy s1 (vs ! 0) False)
            (\<lambda>s2. Inr (snd (WriteError P s2 ans err))) = Inr s'"
      by simp
    then obtain s2 where
      s2: "UniHub_SetBusy s1 (vs ! 0) False = Inr s2" and s': "s' = snd (WriteError P s2 ans err)"
      by (auto simp: and_then_Inr_iff)
    from UniHub_SetBusy_same [OF s2] s' show ?thesis by (simp add: assms(8))
  qed
  have c: "tl vals = [] \<longrightarrow> svc_round P s = handle_errors P s1 ans (vs ! 0) err"
    by (auto simp: dr report_values_def same cong: if_cong)
  from a b1 b2 c show ?thesis by blast
qed

lemma example_hub_reads: "reads_port (example_hub now rx)"
  by (simp add: reads_port_def example_hub_busy)

theorem C2_values_forwarded_on_ok_and_busy_only_witness:
  "svc_round example_platform (example_hub 1000 [(0, ''Shutter1=SPD=0;7'')]) =
     and_then (handle_errors example_platform
                 (after_read example_platform (example_hub 1000 [(0, ''Shutter1=SPD=0;7'')]))
                 ''Shutter1=SPD=0;7'' ''Shutter1'' 0) (\<lambda>s2.
       and_then (ReportToDevice example_platform s2 ''Shutter1'' ''SPD'' [''7''])
         (\<lambda>(ret, s3). Inr s3))"
proof -
  have vs: "SplitStringIntoWords ''Shutter1=SPD=0;7'' (sepIn (words example_platform))
      = [''Shutter1'', ''SPD'', ''0;7'']"
    by code_simp
  have vals: "SplitStringIntoWords ''0;7'' (sepWithin (words example_platform)) = [''0'', ''7'']"
    by code_simp
  have err: "stoi ''0'' = Inr 0" by code_simp
  have dev: "GetDevice (example_hub 1000 [(0, ''Shutter1=SPD=0;7'')]) ''Shutter1'' \<noteq> None"
    by (simp add: GetDevice_def example_hub_def c_str_def)
  show ?thesis
    using C2_values_forwarded_on_ok_and_busy_only [where P = example_platform
        and s = "example_hub 1000 [(0, ''Shutter1=SPD=0;7'')]" and ans = "''Shutter1=SPD=0;7''"
        and rest = "[]" and vs = "[''Shutter1'', ''SPD'', ''0;7'']" and vals = "[''0'', ''7'']"
        and err = 0
        and ?s1.0 = "after_read example_platform (example_hub 1000 [(0, ''Shutter1=SPD=0;7'')])"]
      example_hub_reads [of 1000 "[(0, ''Shutter1=SPD=0;7'')]"] vs vals err dev
    by (simp add: example_platform_def example_mm_def example_errors_def)
       (simp add: example_hub_def)
qed

text \<open>
  The claim as stated has the remaining values forwarded whatever the error code.  The
  frame \<open>Shutter1=SPD=5;7\<close> carries the code 5, which is neither \<open>ctr_ok\<close> nor \<open>ctr_busy\<close>,
  and the value 7 for the property \<open>Speed\<close>, which is within its limits: the round does
  not do what forwarding the value would do, and the cached value stays 5.
\<close>

theorem C2_error_frame_values_dropped_counterexample:
  "svc_round example_platform (example_hub 1000 [(0, ''Shutter1=SPD=5;7'')]) \<noteq>
     and_then (handle_errors example_platform
                 (after_read example_platform (example_hub 1000 [(0, ''Shutter1=SPD=5;7'')]))
                 ''Shutter1=SPD=5;7'' ''Shutter1'' 5) (\<lambda>s2.
       and_then (ReportToDevice example_platform s2 ''Shutter1'' ''SPD'' [''7''])
         (\<lambda>(ret, s3). Inr s3))
   \<and> map_sum id (\<lambda>s'. map valueInteger (properties (deviceDescriptionList s' ! 0)))
        (svc_round example_platform (example_hub 1000 [(0, ''Shutter1=SPD=5;7'')]))
      = Inr [5, 5]"
proof (intro conjI notI)
  assume eq: "svc_round example_platform (example_hub 1000 [(0, ''Shutter1=SPD=5;7'')]) =
     and_then (handle_errors example_platform
                 (after_read example_platform (example_hub 1000 [(0, ''Shutter1=SPD=5;7'')]))
                 ''Shutter1=SPD=5;7'' ''Shutter1'' 5) (\<lambda>s2.
       and_then (ReportToDevice example_platform s2 ''Shutter1'' ''SPD'' [''7''])
         (\<lambda>(ret, s3). Inr s3))"
  have l: "map_sum id (\<lambda>s'. map valueInteger (properties (deviceDescriptionList s' ! 0)))
        (svc_round example_platform (example_hub 1000 [(0, ''Shutter1=SPD=5;7'')]))
      = Inr [5, 5]"
    by code_simp
  have r: "map_sum id (\<lambda>s'. map valueInteger (properties (deviceDescriptionList s' ! 0)))
        (and_then (handle_errors example_platform
                 (after_read example_platform (example_hub 1000 [(0, ''Shutter1=SPD=5;7'')]))
                 ''Shutter1=SPD=5;7'' ''Shutter1'' 5) (\<lambda>s2.
           and_then (ReportToDevice example_platform s2 ''Shutter1'' ''SPD'' [''7''])
             (\<lambda>(ret, s3). Inr s3)))
      = Inr [7, 5]"
    by code_simp
  from l r eq show False by simp
next
  show "map_sum id (\<lambda>s'. map valueInteger (properties (deviceDescriptionList s' ! 0)))
        (svc_round example_platform (example_hub 1000 [(0, ''Shutter1=SPD=5;7'')]))
      = Inr [5, 5]"
    by code_simp
qed


section \<open>Command Router: inbound updates\<close>



lemma first_index_less: "first_index p xs = Some ii \<Longrightarrow> ii < length xs"
  by (induction xs arbitrary: ii) (auto split: if_splits)

lemma at_int_nat: "index < length v \<Longrightarrow> at_int v (int index) = Inr (v ! index)"
  by (simp add: at_int_def)


lemma report_block_to_method:
  assumes "GetDeviceIndexFromName s devicename = int index"
    and "index < length (deviceDescriptionList s)"
    and "command_token \<noteq> timeout (words P)"
    and "find (\<lambda>md. md_command md = command_token)
           (methods (deviceDescriptionList s ! index)) = Some md"
  shows "report_block P s (Some m) devicename command_token vals = m md vals"
  using assms by (simp add: report_block_def Let_def at_int_nat)


lemma set_property_Inr:
  assumes "index < length (deviceDescriptionList s)"
    and "ii < length (properties (deviceDescriptionList s ! index))"
  shows "set_property s index ii f =
     Inr (s\<lparr>deviceDescriptionList := (deviceDescriptionList s)
            [index := (deviceDescriptionList s ! index)
               \<lparr>properties := (properties (deviceDescriptionList s ! index))
                  [ii := f (properties (deviceDescriptionList s ! index) ! ii)]\<rparr>]\<rparr>)"
  using assms by (simp add: set_property_def at_def)


lemma OnPropertyChanged_result [simp]:
  "fst (OnPropertyChanged s pname pvalue) = callback_ret s"
  "deviceDescriptionList (snd (OnPropertyChanged s pname pvalue)) = deviceDescriptionList s"
  "devices (snd (OnPropertyChanged s pname pvalue)) = devices s"
  by (simp_all add: OnPropertyChanged_def)

lemma ReportErrorForDevice_result [simp]:
  "fst (ReportErrorForDevice P s devicename command_token vals err) = err"
  "deviceDescriptionList (snd (ReportErrorForDevice P s devicename command_token vals err))
     = deviceDescriptionList s"
  "devices (snd (ReportErrorForDevice P s devicename command_token vals err)) = devices s"
  by (simp_all add: ReportErrorForDevice_def)

lemma set_property_callback_ret:
  "set_property s index ii f = Inr s' \<Longrightarrow> callback_ret s' = callback_ret s"
  by (auto simp: set_property_def and_then_Inr_iff)










text \<open>A number within \<open>int\<close> is read by \<open>atoi\<close> as itself.\<close>

lemma int_of_long_in_range: "INT_MIN \<le> n \<Longrightarrow> n \<le> INT_MAX \<Longrightarrow> int_of_long n = n"
  by (simp add: int_of_long_def INT_MIN_def INT_MAX_def)

lemma atoi_in_range:
  assumes "strtol10 v0 = Some n" and "INT_MIN \<le> n" and "n \<le> INT_MAX"
  shows "atoi v0 = n"
proof -
  from assms(2,3) have "max LONG_MIN (min LONG_MAX n) = n"
    by (simp add: INT_MIN_def INT_MAX_def LONG_MIN_def LONG_MAX_def)
  with assms show ?thesis by (simp add: atoi_def strtol_def int_of_long_in_range)
qed








text \<open>
  \<open>ReportToDevice\<close> finds a method for the command of the report: the device is loaded
  and of type \<open>ty\<close>, its name is found in the registry, the command is not the \<open>timeout\<close>
  pseudo-command, and \<open>md\<close> is the first method of the description with this command.
\<close>

definition routed_to_method ::
  "('d, 'f) platform \<Rightarrow> ('d, 'f) hub \<Rightarrow> string \<Rightarrow> string \<Rightarrow> DeviceType \<Rightarrow>
   mmmethoddescription \<Rightarrow> bool" where
  "routed_to_method P s devicename command_token ty md =
     (case GetDevice s devicename of
        None \<Rightarrow> False
      | Some dev \<Rightarrow>
          dev_type dev = ty \<and> command_token \<noteq> timeout (words P)
          \<and> (case at_int (deviceDescriptionList s) (GetDeviceIndexFromName s devicename) of
                Inl e \<Rightarrow> False
              | Inr d \<Rightarrow> find (\<lambda>md. md_command md = command_token) (methods d) = Some md))"

definition open_names :: "('d, 'f) platform \<Rightarrow> string set" where
  "open_names P = {set_open (words P), get_open (words P)}"

definition position_names :: "('d, 'f) platform \<Rightarrow> string set" where
  "position_names P =
     {set_position_um (words P), get_position_um (words P), home (words P), stop (words P)}"

text \<open>The tests of \<open>UshStage::SetPositionUm\<close> and \<open>UshXYStage::SetPositionUm\<close>.\<close>

definition outside_limits :: "('d, 'f) platform \<Rightarrow> 'd device \<Rightarrow> 'd \<Rightarrow> bool" where
  "outside_limits P dev pos =
     (double_less P pos (lowerLimit_um dev) \<or> double_less P (upperLimit_um dev) pos)"

definition outside_limits_xy :: "('d, 'f) platform \<Rightarrow> 'd device \<Rightarrow> 'd \<Rightarrow> 'd \<Rightarrow> bool" where
  "outside_limits_xy P dev posX posY =
     (double_less P posX (lowerLimitX_um dev) \<or> double_less P (upperLimitX_um dev) posX
      \<or> double_less P posY (lowerLimitY_um dev) \<or> double_less P (upperLimitY_um dev) posY)"

text \<open>
  The device has created its properties from its description
  (\<open>CreatePropertyBasedOnDescription\<close> in \<open>Initialize\<close>): if it has the property \<open>pname\<close>,
  its description in the registry has a property of that name.
\<close>

definition property_registered ::
  "('d, 'f) hub \<Rightarrow> 'd device \<Rightarrow> string \<Rightarrow> bool" where
  "property_registered s dev pname =
     (if pname \<in> set (dev_properties dev) then
        (case at_int (deviceDescriptionList s) (GetDeviceIndexFromName s (dev_name dev)) of
           Inl e \<Rightarrow> False
         | Inr d \<Rightarrow> first_index (\<lambda>pd. pd_name pd = pname) (properties d) \<noteq> None)
      else True)"

lemma GetDevice_update_device [simp]:
  "GetDevice (update_device s label f) label = map_option f (GetDevice s label)"
  by (simp add: GetDevice_def update_device_def)

lemma update_device_registry [simp]:
  "deviceDescriptionList (update_device s label f) = deviceDescriptionList s"
  by (simp add: update_device_def)

lemma GetDeviceIndexFromName_update_device [simp]:
  "GetDeviceIndexFromName (update_device s label f) n = GetDeviceIndexFromName s n"
  by (simp add: GetDeviceIndexFromName_def)

lemma property_registered_update_device [simp]:
  "property_registered (update_device s label f) dev pname = property_registered s dev pname"
  by (simp add: property_registered_def)

lemma ReportToDevice_to_method:
  assumes "routed_to_method P s devicename command_token ty md"
  shows "ReportToDevice P s devicename command_token vals =
     (case ty of
        ShutterDevice \<Rightarrow> shutter_method P s devicename md vals
      | StageDevice \<Rightarrow> stage_method P s devicename md vals
      | XYStageDevice \<Rightarrow> xystage_method P s devicename md vals
      | OtherDevice \<Rightarrow> Inr (DEVICE_ERR (mm P), s)
      | _ \<Rightarrow> ReportToDevice P s devicename command_token vals)"
  using assms
  by (auto simp: routed_to_method_def ReportToDevice_def report_block_def Let_def
      split: option.splits sum.splits DeviceType.splits)

text \<open>
  A state device and a generic device: the methods are not looked at, the report goes
  to the scan of the properties whatever they are.
\<close>

lemma ReportToDevice_no_methods:
  assumes "GetDevice s devicename = Some dev"
    and "dev_type dev = StateDevice \<or> dev_type dev = GenericDevice"
    and "command_token \<noteq> timeout (words P)"
    and "at_int (deviceDescriptionList s) (GetDeviceIndexFromName s devicename) = Inr d"
  shows "ReportToDevice P s devicename command_token vals =
     report_property P s (nat (GetDeviceIndexFromName s devicename)) d devicename
       command_token vals"
  using assms by (auto simp: ReportToDevice_def report_block_def Let_def)

lemma report_property_unknown:
  assumes "first_index (\<lambda>pd. cmdAction pd = command_token) (properties d) = None"
  shows "\<exists>s'. report_property P s index d devicename command_token vals
           = Inr (adp_device_command_not_recognized (errors P), s')
         \<and> deviceDescriptionList s' = deviceDescriptionList s \<and> devices s' = devices s"
proof -
  have "report_property P s index d devicename command_token vals =
      Inr (ReportErrorForDevice P s devicename command_token vals
             (adp_device_command_not_recognized (errors P)))"
    using assms by (simp add: report_property_def)
  then show ?thesis
    by (metis ReportErrorForDevice_result prod.collapse)
qed

lemma update_position_property_devices:
  "update_position_property P s index d pname pos = Inr s' \<Longrightarrow> devices s' = devices s"
  unfolding update_position_property_def set_property_def and_then_def OnPropertyChanged_def
  by (auto split: option.splits sum.splits)

lemma update_position_property_GetDevice:
  "update_position_property P s index d pname pos = Inr s' \<Longrightarrow>
   GetDevice s' label = GetDevice s label"
  by (simp add: GetDevice_def update_position_property_devices)

text \<open>
  The update of a position property succeeds when the description the device was found
  under is still at its index, with as many properties, and has one of that name.
\<close>

lemma update_position_property_Inr:
  assumes "at_int (deviceDescriptionList s) index = Inr d0"
    and "length (properties d0) = length (properties d)"
    and "first_index (\<lambda>pd. pd_name pd = pname) (properties d) \<noteq> None"
  shows "\<exists>s' d1. update_position_property P s index d pname pos = Inr s'
           \<and> at_int (deviceDescriptionList s') index = Inr d1
           \<and> length (properties d1) = length (properties d0)"
proof -
  from assms(3) obtain ii where ii: "first_index (\<lambda>pd. pd_name pd = pname) (properties d) = Some ii"
    by auto
  from first_index_less [OF ii] assms(2) have l: "ii < length (properties d0)" by simp
  from assms(1) have idx: "0 \<le> index" "nat index < length (deviceDescriptionList s)"
    and d0: "d0 = deviceDescriptionList s ! nat index"
    by (auto simp: at_int_def split: if_splits)
  from l d0 have l': "ii < length (properties (deviceDescriptionList s ! nat index))" by simp
  show ?thesis
    using idx l' d0
    by (simp add: update_position_property_def ii assms(1)
          set_property_Inr [OF idx(2) l'] at_int_def)
qed

lemma SetOpen_updating:
  assumes "GetDevice s label = Some dev" and "dev_updating dev"
  shows "SetOpen P s label opn =
     Inr (DEVICE_OK (mm P), update_device s label (\<lambda>d. d\<lparr>dev_open := opn, dev_updating := False\<rparr>))"
  using assms by (simp add: SetOpen_def)

lemma Stage_SetPositionUm_refused:
  assumes "GetDevice s label = Some dev" and "dev_updating dev"
    and "outside_limits P dev pos"
  shows "Stage_SetPositionUm P s label pos =
     Inr (adp_device_command_value_not_allowed (errors P), s)"
  using assms by (auto simp: Stage_SetPositionUm_def outside_limits_def)

lemma Stage_SetPositionUm_applied:
  assumes "GetDevice s label = Some dev" and "dev_updating dev"
    and "\<not> outside_limits P dev pos"
    and "Stage_SetPositionUm P s label pos = Inr (ret, s')"
  shows "ret = DEVICE_OK (mm P) \<and> map_option position_um (GetDevice s' label) = Some pos"
  using assms
  unfolding Stage_SetPositionUm_def outside_limits_def and_then_def Let_def
  by (auto split: sum.splits if_splits dest!: update_position_property_GetDevice [where label = label])

lemma Stage_SetPositionUm_returns:
  assumes "GetDevice s label = Some dev" and "dev_updating dev"
    and "\<not> outside_limits P dev pos"
    and "property_registered s dev (g_Keyword_Position (mm P))"
  shows "\<exists>s'. Stage_SetPositionUm P s label pos = Inr (DEVICE_OK (mm P), s')"
proof (cases "g_Keyword_Position (mm P) \<in> set (dev_properties dev)")
  case False
  with assms(1,2,3) show ?thesis
    by (auto simp: Stage_SetPositionUm_def outside_limits_def Let_def)
next
  case True
  let ?s1 = "update_device s label (\<lambda>d. d\<lparr>position_um := pos\<rparr>)"
  from True assms(4) obtain d where
    d: "at_int (deviceDescriptionList ?s1) (GetDeviceIndexFromName ?s1 (dev_name dev)) = Inr d"
    and fi: "first_index (\<lambda>pd. pd_name pd = g_Keyword_Position (mm P)) (properties d) \<noteq> None"
    by (auto simp: property_registered_def split: sum.splits)
  from update_position_property_Inr [OF d refl fi, of P pos] obtain s2 where
    "update_position_property P ?s1 (GetDeviceIndexFromName ?s1 (dev_name dev)) d
       (g_Keyword_Position (mm P)) pos = Inr s2"
    by blast
  with True assms(1,2,3) d show ?thesis
    by (auto simp: Stage_SetPositionUm_def outside_limits_def Let_def)
qed

lemma XYStage_SetPositionUm_refused:
  assumes "GetDevice s label = Some dev" and "dev_updating dev"
    and "outside_limits_xy P dev posX posY"
  shows "XYStage_SetPositionUm P s label posX posY =
     Inr (adp_device_command_value_not_allowed (errors P), s)"
  using assms by (auto simp: XYStage_SetPositionUm_def outside_limits_xy_def)

lemma XYStage_SetPositionUm_applied:
  assumes "GetDevice s label = Some dev" and "dev_updating dev"
    and "\<not> outside_limits_xy P dev posX posY"
    and "XYStage_SetPositionUm P s label posX posY = Inr (ret, s')"
  shows "ret = DEVICE_OK (mm P)
     \<and> map_option (\<lambda>d. (positionX_um d, positionY_um d)) (GetDevice s' label) = Some (posX, posY)"
  using assms
  unfolding XYStage_SetPositionUm_def outside_limits_xy_def and_then_def Let_def
  by (auto split: sum.splits if_splits dest!: update_position_property_GetDevice [where label = label])

lemma XYStage_SetPositionUm_returns:
  assumes g: "GetDevice s label = Some dev" and u: "dev_updating dev"
    and n: "\<not> outside_limits_xy P dev posX posY"
    and d: "at_int (deviceDescriptionList s) (GetDeviceIndexFromName s (dev_name dev)) = Inr d"
    and px: "property_registered s dev (position_x (words P))"
    and py: "property_registered s dev (position_y (words P))"
  shows "\<exists>s'. XYStage_SetPositionUm P s label posX posY = Inr (DEVICE_OK (mm P), s')"
proof -
  let ?s1 = "update_device s label (\<lambda>d. d\<lparr>positionX_um := posX, positionY_um := posY\<rparr>)"
  let ?i = "GetDeviceIndexFromName s (dev_name dev)"
  have d1: "at_int (deviceDescriptionList ?s1) ?i = Inr d" using d by simp
  obtain s2 d2 where
    s2: "(if position_x (words P) \<in> set (dev_properties dev)
          then update_position_property P ?s1 ?i d (position_x (words P)) posX
          else Inr ?s1) = Inr s2"
    and d2: "at_int (deviceDescriptionList s2) ?i = Inr d2"
      "length (properties d2) = length (properties d)"
  proof (cases "position_x (words P) \<in> set (dev_properties dev)")
    case True
    with px d have "first_index (\<lambda>pd. pd_name pd = position_x (words P)) (properties d) \<noteq> None"
      by (simp add: property_registered_def)
    from update_position_property_Inr [OF d1 refl this, of P posX] True that show ?thesis
      by auto
  next
    case False
    with d1 that show ?thesis by auto
  qed
  obtain s3 where
    s3: "(if position_y (words P) \<in> set (dev_properties dev)
          then update_position_property P s2 ?i d (position_y (words P)) posY
          else Inr s2) = Inr s3"
  proof (cases "position_y (words P) \<in> set (dev_properties dev)")
    case True
    with py d have "first_index (\<lambda>pd. pd_name pd = position_y (words P)) (properties d) \<noteq> None"
      by (simp add: property_registered_def)
    from update_position_property_Inr [OF d2(1) d2(2) this, of P posY] True that show ?thesis
      by auto
  next
    case False
    with that show ?thesis by auto
  qed
  have "XYStage_SetPositionUm P s label posX posY =
      Inr (DEVICE_OK (mm P), update_device s3 label (\<lambda>d. d\<lparr>dev_updating := False\<rparr>))"
    unfolding XYStage_SetPositionUm_def Let_def
    using g u n d s2 s3 by (auto simp: outside_limits_xy_def split: if_splits)
  then show ?thesis by blast
qed

text \<open>
  Claim C3, amended.  When \<open>ReportToDevice\<close> finds a method with the command of the
  report, the device changes only if the method is one of the names of its block: the
  open methods (set and get) for a shutter, the position methods (set and get), home
  and stop for a stage and for an XY stage.  For any other method name the report is
  answered with \<open>DEVICE_OK\<close> and nothing changes.
  \<^item> For the open methods the payload 0 closes the shutter and the payload 1 opens it.
    (Nothing is said here of other payloads.)
  \<^item> For the position methods, and for home and stop in the same way, the payload is
    the new position: a payload outside the limits of the stage is answered with the
    error "device command value not allowed" and the position stays as it was; a
    payload inside the limits becomes the position, the answer being \<open>DEVICE_OK\<close>, for a
    stage whose properties are those of its description.
  \<^item> A state device and a generic device have no such block: their methods are not
    looked at, and the report is treated as one for a property, answered with the
    error "device command not recognized", nothing changing, when no property has the
    command.
\<close>

theorem C3_payload_of_home_and_stop_checked_like_a_position:
  assumes "routed_to_method P s devicename command_token ty md"
    and "GetDevice s devicename = Some dev"
  shows "(ty = ShutterDevice \<and> md_method md \<notin> open_names P \<longrightarrow>
            ReportToDevice P s devicename command_token vals = Inr (DEVICE_OK (mm P), s))
       \<and> ((ty = StageDevice \<or> ty = XYStageDevice) \<and> md_method md \<notin> position_names P \<longrightarrow>
            ReportToDevice P s devicename command_token vals = Inr (DEVICE_OK (mm P), s))
       \<and> (ty = ShutterDevice \<and> md_method md \<in> open_names P
            \<and> (atoi v0 = 0 \<or> atoi v0 = 1) \<longrightarrow>
            (\<exists>s'. ReportToDevice P s devicename command_token (v0 # rest)
                     = Inr (DEVICE_OK (mm P), s')
               \<and> map_option dev_open (GetDevice s' devicename) = Some (atoi v0 = 1)))
       \<and> (ty = StageDevice \<and> md_method md \<in> position_names P
            \<and> pos = atof P (c_str v0) \<longrightarrow>
            (if outside_limits P dev pos
             then \<exists>s'. ReportToDevice P s devicename command_token (v0 # rest)
                          = Inr (adp_device_command_value_not_allowed (errors P), s')
                    \<and> map_option position_um (GetDevice s' devicename) = Some (position_um dev)
                    \<and> deviceDescriptionList s' = deviceDescriptionList s
             else property_registered s dev (g_Keyword_Position (mm P)) \<longrightarrow>
                    (\<exists>s'. ReportToDevice P s devicename command_token (v0 # rest)
                             = Inr (DEVICE_OK (mm P), s')
                       \<and> map_option position_um (GetDevice s' devicename) = Some pos)))
       \<and> (ty = XYStageDevice \<and> md_method md \<in> position_names P
            \<and> posX = atof P (c_str v0) \<and> posY = atof P (c_str v1) \<longrightarrow>
            (if outside_limits_xy P dev posX posY
             then \<exists>s'. ReportToDevice P s devicename command_token (v0 # v1 # rest)
                          = Inr (adp_device_command_value_not_allowed (errors P), s')
                    \<and> map_option (\<lambda>d. (positionX_um d, positionY_um d)) (GetDevice s' devicename)
                        = Some (positionX_um dev, positionY_um dev)
                    \<and> deviceDescriptionList s' = deviceDescriptionList s
             else dev_name dev = devicename
                    \<and> property_registered s dev (position_x (words P))
                    \<and> property_registered s dev (position_y (words P)) \<longrightarrow>
                    (\<exists>s'. ReportToDevice P s devicename command_token (v0 # v1 # rest)
                             = Inr (DEVICE_OK (mm P), s')
                       \<and> map_option (\<lambda>d. (positionX_um d, positionY_um d))
                             (GetDevice s' devicename) = Some (posX, posY))))
       \<and> ((ty = StateDevice \<or> ty = GenericDevice) \<longrightarrow>
            (\<exists>d. at_int (deviceDescriptionList s) (GetDeviceIndexFromName s devicename) = Inr d
               \<and> ReportToDevice P s devicename command_token vals
                   = report_property P s (nat (GetDeviceIndexFromName s devicename)) d
                       devicename command_token vals
               \<and> (first_index (\<lambda>pd. cmdAction pd = command_token) (properties d) = None \<longrightarrow>
                    (\<exists>s'. ReportToDevice P s devicename command_token vals
                             = Inr (adp_device_command_not_recognized (errors P), s')
                       \<and> deviceDescriptionList s' = deviceDescriptionList s
                       \<and> devices s' = devices s))))"
proof -
  let ?s = "update_device s devicename (\<lambda>d. d\<lparr>dev_updating := True\<rparr>)"
  let ?dev = "dev\<lparr>dev_updating := True\<rparr>"
  have g: "GetDevice ?s devicename = Some ?dev" and u: "dev_updating ?dev"
    using assms(2) by simp_all
  note rtd = ReportToDevice_to_method [OF assms(1)]
  have shutter_other: "ty = ShutterDevice \<and> md_method md \<notin> open_names P \<longrightarrow>
      ReportToDevice P s devicename command_token vals = Inr (DEVICE_OK (mm P), s)"
    by (auto simp: rtd shutter_method_def open_names_def)
  have stage_other: "(ty = StageDevice \<or> ty = XYStageDevice) \<and> md_method md \<notin> position_names P \<longrightarrow>
      ReportToDevice P s devicename command_token vals = Inr (DEVICE_OK (mm P), s)"
    by (auto simp: rtd stage_method_def xystage_method_def position_names_def)
  have shutter: "ty = ShutterDevice \<and> md_method md \<in> open_names P
            \<and> (atoi v0 = 0 \<or> atoi v0 = 1) \<longrightarrow>
      (\<exists>s'. ReportToDevice P s devicename command_token (v0 # rest) = Inr (DEVICE_OK (mm P), s')
         \<and> map_option dev_open (GetDevice s' devicename) = Some (atoi v0 = 1))"
  proof
    assume a: "ty = ShutterDevice \<and> md_method md \<in> open_names P
            \<and> (atoi v0 = 0 \<or> atoi v0 = 1)"
    then have "ReportToDevice P s devicename command_token (v0 # rest) =
        SetOpen P ?s devicename (atoi v0 \<noteq> 0)"
      by (auto simp: rtd shutter_method_def open_names_def Let_def subscript_def)
    moreover from a have "(atoi v0 \<noteq> 0) = (atoi v0 = 1)" by auto
    ultimately show "\<exists>s'. ReportToDevice P s devicename command_token (v0 # rest)
                        = Inr (DEVICE_OK (mm P), s')
         \<and> map_option dev_open (GetDevice s' devicename) = Some (atoi v0 = 1)"
      using assms(2) by (simp add: SetOpen_updating [OF g u])
  qed
  have stage: "ty = StageDevice \<and> md_method md \<in> position_names P \<and> pos = atof P (c_str v0) \<longrightarrow>
      (if outside_limits P dev pos
       then \<exists>s'. ReportToDevice P s devicename command_token (v0 # rest)
                    = Inr (adp_device_command_value_not_allowed (errors P), s')
              \<and> map_option position_um (GetDevice s' devicename) = Some (position_um dev)
              \<and> deviceDescriptionList s' = deviceDescriptionList s
       else property_registered s dev (g_Keyword_Position (mm P)) \<longrightarrow>
              (\<exists>s'. ReportToDevice P s devicename command_token (v0 # rest)
                       = Inr (DEVICE_OK (mm P), s')
                 \<and> map_option position_um (GetDevice s' devicename) = Some pos))"
  proof
    assume a: "ty = StageDevice \<and> md_method md \<in> position_names P \<and> pos = atof P (c_str v0)"
    then have r: "ReportToDevice P s devicename command_token (v0 # rest) =
        Stage_SetPositionUm P ?s devicename pos"
      by (auto simp: rtd stage_method_def position_names_def Let_def subscript_def)
    have o: "outside_limits P ?dev pos = outside_limits P dev pos"
      by (simp add: outside_limits_def)
    show "if outside_limits P dev pos
       then \<exists>s'. ReportToDevice P s devicename command_token (v0 # rest)
                    = Inr (adp_device_command_value_not_allowed (errors P), s')
              \<and> map_option position_um (GetDevice s' devicename) = Some (position_um dev)
              \<and> deviceDescriptionList s' = deviceDescriptionList s
       else property_registered s dev (g_Keyword_Position (mm P)) \<longrightarrow>
              (\<exists>s'. ReportToDevice P s devicename command_token (v0 # rest)
                       = Inr (DEVICE_OK (mm P), s')
                 \<and> map_option position_um (GetDevice s' devicename) = Some pos)"
    proof (cases "outside_limits P dev pos")
      case True
      with o have "outside_limits P ?dev pos" by simp
      from Stage_SetPositionUm_refused [OF g u this] True assms(2) show ?thesis
        by (simp add: r)
    next
      case False
      with o have n: "\<not> outside_limits P ?dev pos" by simp
      have "\<exists>s'. ReportToDevice P s devicename command_token (v0 # rest)
                       = Inr (DEVICE_OK (mm P), s')
                 \<and> map_option position_um (GetDevice s' devicename) = Some pos"
        if pr: "property_registered s dev (g_Keyword_Position (mm P))"
      proof -
        from pr have "property_registered ?s ?dev (g_Keyword_Position (mm P))"
          by (simp add: property_registered_def)
        from Stage_SetPositionUm_returns [OF g u n this] obtain s' where
          s': "Stage_SetPositionUm P ?s devicename pos = Inr (DEVICE_OK (mm P), s')" by blast
        from Stage_SetPositionUm_applied [OF g u n s'] s' show ?thesis
          by (simp add: r)
      qed
      with False show ?thesis by simp
    qed
  qed
  have xystage: "ty = XYStageDevice \<and> md_method md \<in> position_names P
            \<and> posX = atof P (c_str v0) \<and> posY = atof P (c_str v1) \<longrightarrow>
            (if outside_limits_xy P dev posX posY
             then \<exists>s'. ReportToDevice P s devicename command_token (v0 # v1 # rest)
                          = Inr (adp_device_command_value_not_allowed (errors P), s')
                    \<and> map_option (\<lambda>d. (positionX_um d, positionY_um d)) (GetDevice s' devicename)
                        = Some (positionX_um dev, positionY_um dev)
                    \<and> deviceDescriptionList s' = deviceDescriptionList s
             else dev_name dev = devicename
                    \<and> property_registered s dev (position_x (words P))
                    \<and> property_registered s dev (position_y (words P)) \<longrightarrow>
                    (\<exists>s'. ReportToDevice P s devicename command_token (v0 # v1 # rest)
                             = Inr (DEVICE_OK (mm P), s')
                       \<and> map_option (\<lambda>d. (positionX_um d, positionY_um d))
                             (GetDevice s' devicename) = Some (posX, posY)))"
  proof
    assume a: "ty = XYStageDevice \<and> md_method md \<in> position_names P
            \<and> posX = atof P (c_str v0) \<and> posY = atof P (c_str v1)"
    then have r: "ReportToDevice P s devicename command_token (v0 # v1 # rest) =
        XYStage_SetPositionUm P ?s devicename posX posY"
      by (auto simp: rtd xystage_method_def position_names_def Let_def subscript_def)
    have o: "outside_limits_xy P ?dev posX posY = outside_limits_xy P dev posX posY"
      by (simp add: outside_limits_xy_def)
    show "if outside_limits_xy P dev posX posY
             then \<exists>s'. ReportToDevice P s devicename command_token (v0 # v1 # rest)
                          = Inr (adp_device_command_value_not_allowed (errors P), s')
                    \<and> map_option (\<lambda>d. (positionX_um d, positionY_um d)) (GetDevice s' devicename)
                        = Some (positionX_um dev, positionY_um dev)
                    \<and> deviceDescriptionList s' = deviceDescriptionList s
             else dev_name dev = devicename
                    \<and> property_registered s dev (position_x (words P))
                    \<and> property_registered s dev (position_y (words P)) \<longrightarrow>
                    (\<exists>s'. ReportToDevice P s devicename command_token (v0 # v1 # rest)
                             = Inr (DEVICE_OK (mm P), s')
                       \<and> map_option (\<lambda>d. (positionX_um d, positionY_um d))
                             (GetDevice s' devicename) = Some (posX, posY))"
    proof (cases "outside_limits_xy P dev posX posY")
      case True
      with o have "outside_limits_xy P ?dev posX posY" by simp
      from XYStage_SetPositionUm_refused [OF g u this] True assms(2) show ?thesis
        by (simp add: r)
    next
      case False
      with o have n: "\<not> outside_limits_xy P ?dev posX posY" by simp
      have "\<exists>s'. ReportToDevice P s devicename command_token (v0 # v1 # rest)
                             = Inr (DEVICE_OK (mm P), s')
                       \<and> map_option (\<lambda>d. (positionX_um d, positionY_um d))
                             (GetDevice s' devicename) = Some (posX, posY)"
        if pr: "dev_name dev = devicename
                    \<and> property_registered s dev (position_x (words P))
                    \<and> property_registered s dev (position_y (words P))"
      proof -
        from assms(1,2) pr obtain d where
          d: "at_int (deviceDescriptionList ?s) (GetDeviceIndexFromName ?s (dev_name ?dev)) = Inr d"
          by (auto simp: routed_to_method_def split: sum.splits)
        from pr have px: "property_registered ?s ?dev (position_x (words P))"
          and py: "property_registered ?s ?dev (position_y (words P))"
          by (auto simp: property_registered_def)
        from XYStage_SetPositionUm_returns [OF g u n d px py] obtain s' where
          s': "XYStage_SetPositionUm P ?s devicename posX posY = Inr (DEVICE_OK (mm P), s')"
          by blast
        from XYStage_SetPositionUm_applied [OF g u n s'] s' show ?thesis
          by (simp add: r)
      qed
      with False show ?thesis by simp
    qed
  qed
  have other: "(ty = StateDevice \<or> ty = GenericDevice) \<longrightarrow>
            (\<exists>d. at_int (deviceDescriptionList s) (GetDeviceIndexFromName s devicename) = Inr d
               \<and> ReportToDevice P s devicename command_token vals
                   = report_property P s (nat (GetDeviceIndexFromName s devicename)) d
                       devicename command_token vals
               \<and> (first_index (\<lambda>pd. cmdAction pd = command_token) (properties d) = None \<longrightarrow>
                    (\<exists>s'. ReportToDevice P s devicename command_token vals
                             = Inr (adp_device_command_not_recognized (errors P), s')
                       \<and> deviceDescriptionList s' = deviceDescriptionList s
                       \<and> devices s' = devices s)))"
  proof
    assume ty: "ty = StateDevice \<or> ty = GenericDevice"
    from assms obtain d where
      d: "at_int (deviceDescriptionList s) (GetDeviceIndexFromName s devicename) = Inr d"
      and t: "dev_type dev = ty" and c: "command_token \<noteq> timeout (words P)"
      by (auto simp: routed_to_method_def split: sum.splits)
    from ty t have "dev_type dev = StateDevice \<or> dev_type dev = GenericDevice" by simp
    note r = ReportToDevice_no_methods [OF assms(2) this c d, of vals]
    from d r report_property_unknown [of command_token d P s
        "nat (GetDeviceIndexFromName s devicename)" devicename vals]
    show "\<exists>d. at_int (deviceDescriptionList s) (GetDeviceIndexFromName s devicename) = Inr d
               \<and> ReportToDevice P s devicename command_token vals
                   = report_property P s (nat (GetDeviceIndexFromName s devicename)) d
                       devicename command_token vals
               \<and> (first_index (\<lambda>pd. cmdAction pd = command_token) (properties d) = None \<longrightarrow>
                    (\<exists>s'. ReportToDevice P s devicename command_token vals
                             = Inr (adp_device_command_not_recognized (errors P), s')
                       \<and> deviceDescriptionList s' = deviceDescriptionList s
                       \<and> devices s' = devices s))"
      by auto
  qed
  from shutter_other stage_other shutter stage xystage other show ?thesis
    by (intro conjI)
qed

lemma example_routed_home:
  "routed_to_method example_platform (example_hub 1000 []) ''Stage1'' ''H'' StageDevice
     \<lparr>md_method = ''home'', md_command = ''H''\<rparr>"
  by code_simp

lemma example_routed_fire:
  "routed_to_method example_platform (example_hub 1000 []) ''Stage1'' ''F'' StageDevice
     \<lparr>md_method = ''fire'', md_command = ''F''\<rparr>"
  by code_simp

lemma example_stage_loaded: "GetDevice (example_hub 1000 []) ''Stage1'' = Some example_stage"
  by code_simp

lemma example_home_names:
  "''home'' \<in> position_names example_platform" "''fire'' \<notin> position_names example_platform"
  by (simp_all add: position_names_def example_platform_def example_words_def)

lemma example_outside:
  "outside_limits example_platform example_stage (atof example_platform (c_str ''500''))"
  "\<not> outside_limits example_platform example_stage (atof example_platform (c_str ''70''))"
  by code_simp+

lemma example_stage_registered:
  "property_registered (example_hub 1000 []) example_stage
     (g_Keyword_Position (mm example_platform))"
  by code_simp

text \<open>
  The stage \<open>Stage1\<close> is at 50, has the property \<open>Position\<close> with the limits 0 and 100,
  which are its own limits, and the methods home (command \<open>H\<close>) and fire (command \<open>F\<close>).
  A report of \<open>H\<close> with 500 is refused and the stage stays at 50, a report of \<open>H\<close> with
  70 puts it at 70, a report of \<open>F\<close> changes nothing.
\<close>

theorem C3_payload_of_home_and_stop_checked_like_a_position_witness:
  "routed_to_method example_platform (example_hub 1000 []) ''Stage1'' ''H'' StageDevice
     \<lparr>md_method = ''home'', md_command = ''H''\<rparr>
   \<and> GetDevice (example_hub 1000 []) ''Stage1'' = Some example_stage
   \<and> (\<exists>s'. ReportToDevice example_platform (example_hub 1000 []) ''Stage1'' ''H'' [''500'']
              = Inr (adp_device_command_value_not_allowed example_errors, s')
         \<and> map_option position_um (GetDevice s' ''Stage1'') = Some 50)
   \<and> (\<exists>s'. ReportToDevice example_platform (example_hub 1000 []) ''Stage1'' ''H'' [''70'']
              = Inr (DEVICE_OK example_mm, s')
         \<and> map_option position_um (GetDevice s' ''Stage1'') = Some 70)
   \<and> ReportToDevice example_platform (example_hub 1000 []) ''Stage1'' ''F'' [''70'']
       = Inr (DEVICE_OK example_mm, example_hub 1000 [])"
proof -
  have p: "position_um example_stage = 50"
    by (simp add: example_stage_def)
  have a: "atof example_platform (c_str ''70'') = 70" by code_simp
  have e: "errors example_platform = example_errors" "mm example_platform = example_mm"
    by (simp_all add: example_platform_def)
  from C3_payload_of_home_and_stop_checked_like_a_position
         [OF example_routed_home example_stage_loaded,
          where pos = "atof example_platform (c_str ''500'')" and ?v0.0 = "''500''"
            and rest = "[]"]
  have 1: "\<exists>s'. ReportToDevice example_platform (example_hub 1000 []) ''Stage1'' ''H'' [''500'']
              = Inr (adp_device_command_value_not_allowed example_errors, s')
         \<and> map_option position_um (GetDevice s' ''Stage1'') = Some 50"
    by (auto simp: example_home_names example_outside p e)
  from C3_payload_of_home_and_stop_checked_like_a_position
         [OF example_routed_home example_stage_loaded,
          where pos = "atof example_platform (c_str ''70'')" and ?v0.0 = "''70''"
            and rest = "[]"]
  have "\<exists>s'. ReportToDevice example_platform (example_hub 1000 []) ''Stage1'' ''H'' [''70'']
                 = Inr (DEVICE_OK example_mm, s')
            \<and> map_option position_um (GetDevice s' ''Stage1'')
                = Some (atof example_platform (c_str ''70''))"
    using example_stage_registered
    by (simp add: example_home_names example_outside e)
  then have 2: "\<exists>s'. ReportToDevice example_platform (example_hub 1000 []) ''Stage1'' ''H'' [''70'']
              = Inr (DEVICE_OK example_mm, s')
         \<and> map_option position_um (GetDevice s' ''Stage1'') = Some 70"
    unfolding a by blast
  from C3_payload_of_home_and_stop_checked_like_a_position
         [OF example_routed_fire example_stage_loaded, where vals = "[''70'']"]
  have 3: "ReportToDevice example_platform (example_hub 1000 []) ''Stage1'' ''F'' [''70'']
       = Inr (DEVICE_OK example_mm, example_hub 1000 [])"
    by (simp add: example_home_names e)
  from example_routed_home example_stage_loaded 1 2 3 show ?thesis by (intro conjI)
qed

text \<open>
  Claim C3 as the specification states it does not hold: it is not the case that home
  takes any numeric payload.  The payload 500 of a home report for \<open>Stage1\<close>, whose
  limits are 0 and 100, is refused with error 106 and the stage stays at 50, in the
  device and in the \<open>Position\<close> property of the registry.
\<close>

theorem C3_home_payload_outside_the_limits_refused_counterexample:
  "\<not> (\<forall>v0. map_sum id (\<lambda>(ret, s'). (ret, map_option position_um (GetDevice s' ''Stage1'')))
           (ReportToDevice example_platform (example_hub 1000 []) ''Stage1'' ''H'' [v0])
         = Inr (DEVICE_OK example_mm, Some (atof example_platform (c_str v0))))
   \<and> find (\<lambda>md. md_command md = ''H'') (methods (example_registry ! 1))
       = Some \<lparr>md_method = home example_words, md_command = ''H''\<rparr>
   \<and> atof example_platform (c_str ''500'') = 500
   \<and> map_sum id (\<lambda>(ret, s'). (ret, map_option position_um (GetDevice s' ''Stage1''),
                                  map valueFloat (properties (deviceDescriptionList s' ! 1))))
        (ReportToDevice example_platform (example_hub 1000 []) ''Stage1'' ''H'' [''500''])
      = Inr (adp_device_command_value_not_allowed example_errors, Some 50, [50])
   \<and> map_sum id (\<lambda>(ret, s'). (ret, map_option position_um (GetDevice s' ''Stage1''),
                                  map valueFloat (properties (deviceDescriptionList s' ! 1))))
        (ReportToDevice example_platform (example_hub 1000 []) ''Stage1'' ''H'' [''70''])
      = Inr (DEVICE_OK example_mm, Some 70, [70])"
proof (intro conjI notI)
  show "map_sum id (\<lambda>(ret, s'). (ret, map_option position_um (GetDevice s' ''Stage1''),
                                  map valueFloat (properties (deviceDescriptionList s' ! 1))))
        (ReportToDevice example_platform (example_hub 1000 []) ''Stage1'' ''H'' [''500''])
      = Inr (adp_device_command_value_not_allowed example_errors, Some 50, [50])"
    by code_simp
  show "map_sum id (\<lambda>(ret, s'). (ret, map_option position_um (GetDevice s' ''Stage1''),
                                  map valueFloat (properties (deviceDescriptionList s' ! 1))))
        (ReportToDevice example_platform (example_hub 1000 []) ''Stage1'' ''H'' [''70''])
      = Inr (DEVICE_OK example_mm, Some 70, [70])"
    by code_simp
  show "atof example_platform (c_str ''500'') = 500" by code_simp
  show "find (\<lambda>md. md_command md = ''H'') (methods (example_registry ! 1))
       = Some \<lparr>md_method = home example_words, md_command = ''H''\<rparr>"
    by code_simp
  have r: "map_sum id (\<lambda>(ret, s'). (ret, map_option position_um (GetDevice s' ''Stage1'')))
        (ReportToDevice example_platform (example_hub 1000 []) ''Stage1'' ''H'' [''500''])
      = Inr (adp_device_command_value_not_allowed example_errors, Some 50)"
    by code_simp
  assume "\<forall>v0. map_sum id (\<lambda>(ret, s'). (ret, map_option position_um (GetDevice s' ''Stage1'')))
           (ReportToDevice example_platform (example_hub 1000 []) ''Stage1'' ''H'' [v0])
         = Inr (DEVICE_OK example_mm, Some (atof example_platform (c_str v0)))"
  then have "map_sum id (\<lambda>(ret, s'). (ret, map_option position_um (GetDevice s' ''Stage1'')))
           (ReportToDevice example_platform (example_hub 1000 []) ''Stage1'' ''H'' [''500''])
         = Inr (DEVICE_OK example_mm, Some (atof example_platform (c_str ''500'')))"
    by blast
  with r have "adp_device_command_value_not_allowed example_errors = DEVICE_OK example_mm"
    by simp
  then show False by (simp add: example_errors_def example_mm_def)
qed

end
